theory Spec2Isabelle
  imports Complex_Main
begin

section \<open>JavaScript values\<close>

text \<open>
  The services are TypeScript whose task handlers take \<open>ctx: any\<close>, so the values they
  handle are untyped JavaScript values. A number is an IEEE 754 binary64 value: a finite
  real, an infinity or NaN. Every arithmetic operation gives the exact result rounded to
  the nearest binary64 value, ties to the even significand. The sign of zero is not
  modelled: zero is the positive zero, which is the only zero the handlers divide by
  (a square root of a sum of squares).
\<close>

datatype jsnum = Fin real | PInf | NInf | NaN

subsection \<open>Rounding to binary64\<close>

text \<open>Rounding a real to the nearest integer, a tie to the even one.\<close>

definition rhe :: "real \<Rightarrow> int" where
  "rhe q =
     (let f = \<lfloor>q\<rfloor>; d = q - real_of_int f
      in if d < 1 / 2 then f else if 1 / 2 < d then f + 1 else if even f then f else f + 1)"

text \<open>
  The exponent of the binade of \<open>x\<close>: \<open>2 powi e \<le> |x| < 2 powi (e + 1)\<close>, and \<open>- 1022\<close> for
  the subnormal numbers. The significand has 53 bits, so that the values of the binade
  are the multiples of \<open>2 powi (e - 52)\<close>.
\<close>

definition expo :: "real \<Rightarrow> int" where
  "expo x = max \<lfloor>log 2 \<bar>x\<bar>\<rfloor> (- 1022)"

text \<open>The nearest value with a 53-bit significand and an exponent not bounded above.\<close>

definition fl :: "real \<Rightarrow> real" where
  "fl x =
     (if x = 0 then 0
      else real_of_int (rhe (x / 2 powi (expo x - 52))) * 2 powi (expo x - 52))"

text \<open>
  The result of an operation whose exact value is \<open>x\<close>: a rounded value of magnitude
  \<open>2 powi 1024\<close> or more overflows to an infinity. The binade is given by a logarithm;
  the value of a rounding is computed by the lemmas \<open>round64_near\<close> and \<open>round64_tie\<close>
  below, from the integer nearest to the number scaled into the range of the significand.
\<close>

definition round64 :: "real \<Rightarrow> jsnum" where
  "round64 x =
     (let y = fl x
      in if 2 powi 1024 \<le> y then PInf else if y \<le> - (2 powi 1024) then NInf else Fin y)"

subsection \<open>Operations on numbers\<close>

fun js_neg :: "jsnum \<Rightarrow> jsnum" where
  "js_neg (Fin a) = Fin (- a)"
| "js_neg PInf = NInf"
| "js_neg NInf = PInf"
| "js_neg NaN = NaN"

fun js_add :: "jsnum \<Rightarrow> jsnum \<Rightarrow> jsnum" where
  "js_add NaN _ = NaN"
| "js_add _ NaN = NaN"
| "js_add (Fin a) (Fin b) = round64 (a + b)"
| "js_add PInf NInf = NaN"
| "js_add NInf PInf = NaN"
| "js_add PInf _ = PInf"
| "js_add _ PInf = PInf"
| "js_add NInf _ = NInf"
| "js_add _ NInf = NInf"

definition js_sub :: "jsnum \<Rightarrow> jsnum \<Rightarrow> jsnum" where
  "js_sub a b = js_add a (js_neg b)"

fun js_mul :: "jsnum \<Rightarrow> jsnum \<Rightarrow> jsnum" where
  "js_mul NaN _ = NaN"
| "js_mul _ NaN = NaN"
| "js_mul (Fin a) (Fin b) = round64 (a * b)"
| "js_mul PInf PInf = PInf"
| "js_mul NInf NInf = PInf"
| "js_mul PInf NInf = NInf"
| "js_mul NInf PInf = NInf"
| "js_mul PInf (Fin b) = (if b = 0 then NaN else if 0 < b then PInf else NInf)"
| "js_mul NInf (Fin b) = (if b = 0 then NaN else if 0 < b then NInf else PInf)"
| "js_mul (Fin a) PInf = (if a = 0 then NaN else if 0 < a then PInf else NInf)"
| "js_mul (Fin a) NInf = (if a = 0 then NaN else if 0 < a then NInf else PInf)"

fun js_div :: "jsnum \<Rightarrow> jsnum \<Rightarrow> jsnum" where
  "js_div NaN _ = NaN"
| "js_div _ NaN = NaN"
| "js_div (Fin a) (Fin b) =
     (if b = 0 then (if a = 0 then NaN else if 0 < a then PInf else NInf)
      else round64 (a / b))"
| "js_div (Fin a) _ = Fin 0"
| "js_div PInf (Fin b) = (if 0 \<le> b then PInf else NInf)"
| "js_div NInf (Fin b) = (if 0 \<le> b then NInf else PInf)"
| "js_div _ _ = NaN"

text \<open>
  \<open>Math.pow(x, 2)\<close>, \<open>Math.sqrt\<close>, \<open>Math.abs\<close>, \<open>Math.min\<close> of two arguments, and the
  comparison \<open>a > b\<close>. The square root is correctly rounded; so is the square, which
  \<open>Math.pow\<close> computes as the product \<open>x * x\<close>.
\<close>

fun js_pow2 :: "jsnum \<Rightarrow> jsnum" where
  "js_pow2 (Fin a) = round64 (a ^ 2)"
| "js_pow2 NaN = NaN"
| "js_pow2 _ = PInf"

fun js_sqrt :: "jsnum \<Rightarrow> jsnum" where
  "js_sqrt (Fin a) = (if a < 0 then NaN else round64 (sqrt a))"
| "js_sqrt PInf = PInf"
| "js_sqrt _ = NaN"

fun js_abs :: "jsnum \<Rightarrow> jsnum" where
  "js_abs (Fin a) = Fin \<bar>a\<bar>"
| "js_abs NaN = NaN"
| "js_abs _ = PInf"

fun js_min :: "jsnum \<Rightarrow> jsnum \<Rightarrow> jsnum" where
  "js_min NaN _ = NaN"
| "js_min _ NaN = NaN"
| "js_min NInf _ = NInf"
| "js_min _ NInf = NInf"
| "js_min PInf b = b"
| "js_min a PInf = a"
| "js_min (Fin a) (Fin b) = Fin (min a b)"

fun js_gt :: "jsnum \<Rightarrow> jsnum \<Rightarrow> bool" where
  "js_gt NaN _ = False"
| "js_gt _ NaN = False"
| "js_gt (Fin a) (Fin b) = (b < a)"
| "js_gt PInf PInf = False"
| "js_gt PInf _ = True"
| "js_gt _ PInf = False"
| "js_gt NInf _ = False"
| "js_gt _ NInf = True"

text \<open>
  A value is what JSON can carry, plus \<open>undefined\<close> and a \<open>Date\<close> (its time value in
  milliseconds, \<open>None\<close> for an invalid date). An object is the list of its own
  properties in insertion order.
\<close>

datatype jsval =
    Undefined
  | Null
  | Bool bool
  | Number jsnum
  | Str string
  | Arr "jsval list"
  | Obj "(string \<times> jsval) list"
  | DateV "int option"

type_synonym obj = "(string \<times> jsval) list"

text \<open>What a handler or the external call can throw.\<close>

datatype js_error = TypeError | RangeError | NetworkError

definition bindE :: "'e + 'a \<Rightarrow> ('a \<Rightarrow> 'e + 'b) \<Rightarrow> 'e + 'b" where
  "bindE m f = (case m of Inl e \<Rightarrow> Inl e | Inr x \<Rightarrow> f x)"

fun truthy :: "jsval \<Rightarrow> bool" where
  "truthy Undefined = False"
| "truthy Null = False"
| "truthy (Bool b) = b"
| "truthy (Number n) = (n \<noteq> NaN \<and> n \<noteq> Fin 0)"
| "truthy (Str s) = (s \<noteq> [])"
| "truthy (Arr _) = True"
| "truthy (Obj _) = True"
| "truthy (DateV _) = True"

text \<open>\<open>a || b\<close> on two values already evaluated.\<close>

definition js_or :: "jsval \<Rightarrow> jsval \<Rightarrow> jsval" where
  "js_or a b = (if truthy a then a else b)"

text \<open>\<open>o.k\<close> on an object known to be one (a task context).\<close>

definition field :: "obj \<Rightarrow> string \<Rightarrow> jsval" where
  "field ob k = (case map_of ob k of None \<Rightarrow> Undefined | Some v \<Rightarrow> v)"

text \<open>
  \<open>v.k\<close> on any value: reading a property of \<open>undefined\<close> or \<open>null\<close> throws a TypeError.
  Of the built-in properties only \<open>length\<close> is read by the handlers as data.
\<close>

fun get :: "jsval \<Rightarrow> string \<Rightarrow> js_error + jsval" where
  "get Undefined k = Inl TypeError"
| "get Null k = Inl TypeError"
| "get (Obj ob) k = Inr (field ob k)"
| "get (Arr xs) k = Inr (if k = ''length'' then Number (Fin (real (length xs))) else Undefined)"
| "get (Str s) k = Inr (if k = ''length'' then Number (Fin (real (length s))) else Undefined)"
| "get _ k = Inr Undefined"

text \<open>\<open>v?.k\<close>\<close>

fun get_opt :: "jsval \<Rightarrow> string \<Rightarrow> jsval" where
  "get_opt (Obj ob) k = field ob k"
| "get_opt (Arr xs) k = (if k = ''length'' then Number (Fin (real (length xs))) else Undefined)"
| "get_opt (Str s) k = (if k = ''length'' then Number (Fin (real (length s))) else Undefined)"
| "get_opt _ k = Undefined"

text \<open>\<open>{...o, k: v}\<close> and \<open>o.k = v\<close>: an existing key keeps its place, a new one goes last.\<close>

fun obj_set :: "obj \<Rightarrow> string \<Rightarrow> jsval \<Rightarrow> obj" where
  "obj_set [] k v = [(k, v)]"
| "obj_set (p # ps) k v = (if fst p = k then (k, v) # ps else p # obj_set ps k v)"

subsection \<open>Conversions\<close>

text \<open>
  The built-in functions whose results are strings or come from strings, taken as
  parameters: \<open>Number.prototype.toFixed\<close>, the conversion of a number to a string, the
  conversion of a string to a number, and \<open>Date.prototype.toString\<close>.
\<close>

record builtins =
  toFixed :: "nat \<Rightarrow> jsnum \<Rightarrow> string"
  numberToString :: "jsnum \<Rightarrow> string"
  stringToNumber :: "string \<Rightarrow> jsnum"
  dateToString :: "int option \<Rightarrow> string"

fun join_comma :: "string list \<Rightarrow> string" where
  "join_comma [] = []"
| "join_comma [s] = s"
| "join_comma (s # ss) = s @ '','' @ join_comma ss"

text \<open>
  ToString. An array joins its elements with commas, \<open>undefined\<close> and \<open>null\<close> giving the
  empty string. The objects are plain data, as parsed from JSON: none has a \<open>toString\<close> or
  \<open>valueOf\<close> of its own.
\<close>

fun to_string :: "builtins \<Rightarrow> jsval \<Rightarrow> string" where
  "to_string B Undefined = ''undefined''"
| "to_string B Null = ''null''"
| "to_string B (Bool b) = (if b then ''true'' else ''false'')"
| "to_string B (Number n) = numberToString B n"
| "to_string B (Str s) = s"
| "to_string B (Arr xs) =
     join_comma (map (\<lambda>x. if x = Undefined \<or> x = Null then [] else to_string B x) xs)"
| "to_string B (Obj ob) = ''[object Object]''"
| "to_string B (DateV t) = dateToString B t"

text \<open>ToPrimitive without a hint, as \<open>+\<close> applies it: an object, a date included, gives its string.\<close>

fun to_primitive :: "builtins \<Rightarrow> jsval \<Rightarrow> jsval" where
  "to_primitive B (Arr xs) = Str (to_string B (Arr xs))"
| "to_primitive B (Obj ob) = Str (to_string B (Obj ob))"
| "to_primitive B (DateV t) = Str (to_string B (DateV t))"
| "to_primitive B v = v"

text \<open>ToNumber, as \<open>-\<close> and \<open>/\<close> apply it: a date gives its time value.\<close>

fun to_number :: "builtins \<Rightarrow> jsval \<Rightarrow> jsnum" where
  "to_number B Undefined = NaN"
| "to_number B Null = Fin 0"
| "to_number B (Bool b) = Fin (if b then 1 else 0)"
| "to_number B (Number n) = n"
| "to_number B (Str s) = stringToNumber B s"
| "to_number B (Arr xs) = stringToNumber B (to_string B (Arr xs))"
| "to_number B (Obj ob) = stringToNumber B (to_string B (Obj ob))"
| "to_number B (DateV t) = (case t of None \<Rightarrow> NaN | Some ms \<Rightarrow> Fin (real_of_int ms))"

text \<open>\<open>a + b\<close>: a concatenation as soon as one operand is, or converts to, a string.\<close>

fun is_string :: "jsval \<Rightarrow> bool" where
  "is_string (Str s) = True"
| "is_string _ = False"

definition js_plus :: "builtins \<Rightarrow> jsval \<Rightarrow> jsval \<Rightarrow> jsval" where
  "js_plus B a b =
     (let p = to_primitive B a; q = to_primitive B b
      in if is_string p \<or> is_string q then Str (to_string B p @ to_string B q)
         else Number (js_add (to_number B p) (to_number B q)))"

text \<open>\<open>xs.map(f)\<close> and \<open>xs.reduce(f, init)\<close> with a callback that may throw.\<close>

fun mapE :: "('a \<Rightarrow> 'e + 'b) \<Rightarrow> 'a list \<Rightarrow> 'e + 'b list" where
  "mapE f [] = Inr []"
| "mapE f (x # xs) =
     (case f x of Inl e \<Rightarrow> Inl e
      | Inr y \<Rightarrow> (case mapE f xs of Inl e \<Rightarrow> Inl e | Inr ys \<Rightarrow> Inr (y # ys)))"

fun reduceE :: "('b \<Rightarrow> 'a \<Rightarrow> 'e + 'b) \<Rightarrow> 'a list \<Rightarrow> 'b \<Rightarrow> 'e + 'b" where
  "reduceE f [] acc = Inr acc"
| "reduceE f (x # xs) acc =
     (case f acc x of Inl e \<Rightarrow> Inl e | Inr acc' \<Rightarrow> reduceE f xs acc')"

text \<open>A method of \<open>Array.prototype\<close> called on a value that is not an array throws.\<close>

fun as_array :: "jsval \<Rightarrow> js_error + jsval list" where
  "as_array (Arr xs) = Inr xs"
| "as_array _ = Inl TypeError"

text \<open>A signal handed to \<open>emit(name, payload, {targetServices})\<close>.\<close>

record signal =
  name :: string
  payload :: obj
  targetServices :: "string list option"


section \<open>AnomalyDetectorService\<close>

text \<open>
  The callback of the handlers' second \<open>reduce\<close>, \<open>(a, b) => a + Math.pow(b - mean, 2)\<close>.
  Its accumulator starts at the number 0 and stays a number; that of the first,
  \<open>(a, b) => a + b\<close>, becomes a string at the first sample that is not a number.
\<close>

definition sq_step :: "builtins \<Rightarrow> jsnum \<Rightarrow> jsnum \<Rightarrow> jsval \<Rightarrow> jsnum" where
  "sq_step B mean a b = js_add a (js_pow2 (js_sub (to_number B b) mean))"

text \<open>The early return of both handlers: \<open>{ score: 0, anomalous: false, reason: 'Insufficient data' }\<close>.\<close>

definition insufficient :: obj where
  "insufficient =
     [(''score'', Number (Fin 0)), (''anomalous'', Bool False), (''reason'', Str ''Insufficient data'')]"

text \<open>
  The first statement of both handlers, \<open>ctx.telemetrys.map((h) => h.temperature)\<close>: the
  column \<open>k\<close> of the queried rows. The temperature handler writes \<open>ctx.telemetrys?.map\<close>:
  with \<open>ctx.telemetrys\<close> undefined the column is \<open>undefined\<close> and the next statement,
  \<open>temps.length\<close>, throws; the humidity handler throws at once. With any other value
  that is not an array, \<open>map\<close> is not a function. A TypeError in each case.
\<close>

definition history :: "obj \<Rightarrow> string \<Rightarrow> js_error + jsval list" where
  "history ctx k = bindE (as_array (field ctx ''telemetrys'')) (mapE (\<lambda>h. get h k))"

text \<open>
  The handler of the task \<open>CheckTemperatureAnomaly\<close>. It returns the signals it emitted
  and the object it returns.
\<close>

definition CheckTemperatureAnomaly ::
  "builtins \<Rightarrow> obj \<Rightarrow> js_error + signal list \<times> obj" where
  "CheckTemperatureAnomaly B ctx =
     bindE (history ctx ''temperature'') (\<lambda>temps.
     if length temps < 2 then Inr ([], insufficient)
     else
       let mean = js_div (to_number B (foldl (js_plus B) (Number (Fin 0)) temps))
                    (Fin (real (length temps)));
           variance = js_div (foldl (sq_step B mean) (Fin 0) temps) (Fin (real (length temps)));
           stdDev = js_sqrt variance in
       bindE (get (field ctx ''readings'') ''temperature'') (\<lambda>reading.
       let zScore = js_abs (js_div (js_sub (to_number B reading) mean) stdDev);
           score = js_min (js_div zScore (Fin 3)) (Fin 1);
           anomalous = js_gt zScore (Fin 2) in
       Inr (if anomalous
            then [\<lparr>name = ''anomaly.temperature_spike'',
                   payload = [(''deviceId'', field ctx ''deviceId''),
                              (''zScore'', Number zScore), (''score'', Number score)],
                   targetServices = None\<rparr>]
            else [],
            [(''score'', Number score),
             (''anomalous'', Bool anomalous),
             (''reason'', Str (if anomalous
                               then ''Z-score '' @ toFixed B 2 zScore @ '' exceeds threshold''
                               else ''Normal'')),
             (''metric'', Str ''temperature'')])))"

text \<open>The handler of the task \<open>CheckHumidityAnomaly\<close>.\<close>

definition CheckHumidityAnomaly ::
  "builtins \<Rightarrow> obj \<Rightarrow> js_error + signal list \<times> obj" where
  "CheckHumidityAnomaly B ctx =
     bindE (history ctx ''humidity'') (\<lambda>hums.
     if length hums < 2 then Inr ([], insufficient)
     else
       let mean = js_div (to_number B (foldl (js_plus B) (Number (Fin 0)) hums))
                    (Fin (real (length hums)));
           variance = js_div (foldl (sq_step B mean) (Fin 0) hums) (Fin (real (length hums)));
           stdDev = js_sqrt variance in
       bindE (get (field ctx ''readings'') ''humidity'') (\<lambda>reading.
       let zScore = js_abs (js_div (js_sub (to_number B reading) mean) stdDev);
           score = js_min (js_div zScore (Fin 3)) (Fin 1);
           anomalous = js_gt zScore (Fin 2) in
       Inr (if anomalous
            then [\<lparr>name = ''anomaly.humidity_spike'',
                   payload = [(''deviceId'', field ctx ''deviceId''),
                              (''zScore'', Number zScore), (''score'', Number score)],
                   targetServices = None\<rparr>]
            else [],
            [(''score'', Number score),
             (''anomalous'', Bool anomalous),
             (''reason'', Str (if anomalous
                               then ''Z-score '' @ toFixed B 2 zScore @ '' exceeds threshold''
                               else ''Normal'')),
             (''metric'', Str ''humidity'')])))"

text \<open>
  \<open>acc.k || c.k\<close>: the right operand is read only when the left one is falsy.
\<close>

definition or_field :: "jsval \<Rightarrow> jsval \<Rightarrow> string \<Rightarrow> js_error + jsval" where
  "or_field acc c k = bindE (get acc k) (\<lambda>a. if truthy a then Inr a else get c k)"

text \<open>The reducer of \<open>MergeAnomalyResults\<close> over \<open>ctx.joinedContexts\<close>, started at \<open>{}\<close>.\<close>

definition merge_anomaly_step :: "jsval \<Rightarrow> jsval \<Rightarrow> js_error + jsval" where
  "merge_anomaly_step acc c =
     bindE (or_field acc c ''temperatureAnomaly'') (\<lambda>t.
     bindE (or_field acc c ''humidityAnomaly'') (\<lambda>h.
     Inr (Obj [(''temperatureAnomaly'', t), (''humidityAnomaly'', h)])))"

definition merge_anomaly :: "jsval list \<Rightarrow> js_error + jsval" where
  "merge_anomaly cs = reduceE merge_anomaly_step cs (Obj [])"

text \<open>
  \<open>const { temperatureAnomaly, humidityAnomaly } = ctx.joinedContexts.reduce(..., {})\<close>
\<close>

definition joined_anomalies :: "obj \<Rightarrow> js_error + jsval \<times> jsval" where
  "joined_anomalies ctx =
     bindE (as_array (field ctx ''joinedContexts'')) (\<lambda>cs.
     bindE (merge_anomaly cs) (\<lambda>m.
     bindE (get m ''temperatureAnomaly'') (\<lambda>t.
     bindE (get m ''humidityAnomaly'') (\<lambda>h. Inr (t, h)))))"

text \<open>
  The handler of the unique task \<open>MergeAnomalyResults\<close> (\<open>summaryTask\<close>). \<open>now\<close> is the
  value of \<open>Date.now()\<close> and \<open>rnd\<close> that of \<open>Math.random()\<close>.
\<close>

definition summaryTask ::
  "builtins \<Rightarrow> int \<Rightarrow> real \<Rightarrow> obj \<Rightarrow> js_error + signal list \<times> obj" where
  "summaryTask B now rnd ctx =
     bindE (joined_anomalies ctx) (\<lambda>(temperatureAnomaly, humidityAnomaly).
     let overallScore =
           js_div (to_number B
                     (js_plus B (js_or (get_opt temperatureAnomaly ''score'') (Number (Fin 0)))
                                (js_or (get_opt humidityAnomaly ''score'') (Number (Fin 0)))))
                  (Fin 2);
         ctx1 = obj_set ctx ''anomalyScore'' (Number overallScore);
         ctx2 = obj_set ctx1 ''anomalyDetected'' (Bool (js_gt overallScore (round64 0.7))) in
     Inr (if truthy (field ctx2 ''anomalyDetected'')
          then [\<lparr>name = ''global.telemetry.anomaly_detected'',
                 payload = [(''deviceId'', field ctx2 ''deviceId''),
                            (''score'', Number overallScore),
                            (''metrics'', Obj [(''temperature'', temperatureAnomaly),
                                               (''humidity'', humidityAnomaly)])],
                 targetServices = Some [''predictor'', ''alert-service'']\<rparr>]
          else [],
          obj_set ctx2 ''data''
            (Obj [(''deviceId'', field ctx2 ''deviceId''),
                  (''timestamp'', Number (Fin (real_of_int now))),
                  (''anomalyScore'', field ctx2 ''anomalyScore''),
                  (''failureProbability'', Number (Fin rnd))])))"

section \<open>PredictorService\<close>

subsection \<open>CallWeatherApi\<close>

definition fallback_weather :: jsval where
  "fallback_weather =
     Obj [(''temperature'', Number (Fin 20)), (''humidity'', Number (Fin 50)),
          (''condition'', Str ''neutral'')]"

text \<open>\<open>s.toLowerCase()\<close>, on ASCII letters; on a value that is not a string it is not a function.\<close>

definition to_lower_char :: "char \<Rightarrow> char" where
  "to_lower_char c =
     (let n = (of_char c :: nat) in if 65 \<le> n \<and> n \<le> 90 then char_of (n + 32) else c)"

fun toLowerCase :: "jsval \<Rightarrow> js_error + jsval" where
  "toLowerCase (Str s) = Inr (Str (map to_lower_char s))"
| "toLowerCase _ = Inl TypeError"

text \<open>\<open>v[0]\<close>\<close>

fun index0 :: "jsval \<Rightarrow> js_error + jsval" where
  "index0 Undefined = Inl TypeError"
| "index0 Null = Inl TypeError"
| "index0 (Arr xs) = Inr (case xs of [] \<Rightarrow> Undefined | x # _ \<Rightarrow> x)"
| "index0 (Str s) = Inr (case s of [] \<Rightarrow> Undefined | c # _ \<Rightarrow> Str [c])"
| "index0 (Obj ob) = Inr (field ob ''0'')"
| "index0 _ = Inr Undefined"

text \<open>
  The body of the \<open>try\<close> block. \<open>fetch_json lat lon apiKey\<close> stands for the external call,
  \<open>await fetch(url)\<close> followed by \<open>await response.json()\<close>: the parsed body, or what
  either of them threw.
\<close>

definition weather_try ::
  "(jsnum \<Rightarrow> jsnum \<Rightarrow> string \<Rightarrow> js_error + jsval) \<Rightarrow> jsnum \<Rightarrow> jsnum \<Rightarrow> string \<Rightarrow> obj
     \<Rightarrow> js_error + obj" where
  "weather_try fetch_json lat lon apiKey ctx =
     bindE (fetch_json lat lon apiKey) (\<lambda>data.
     bindE (get data ''main'') (\<lambda>main1.
     bindE (get main1 ''temp'') (\<lambda>temp.
     bindE (get data ''main'') (\<lambda>main2.
     bindE (get main2 ''humidity'') (\<lambda>hum.
     bindE (get data ''weather'') (\<lambda>w.
     bindE (index0 w) (\<lambda>w0.
     bindE (get w0 ''main'') (\<lambda>wmain.
     bindE (toLowerCase wmain) (\<lambda>cond.
     Inr (obj_set ctx ''weatherData''
            (Obj [(''temperature'', temp), (''humidity'', hum), (''condition'', cond)])))))))))))"

text \<open>
  The mock device location: \<open>37.7749 + (Math.random() - 0.5) * 2\<close> and
  \<open>-122.4194 + (Math.random() - 0.5) * 2\<close>.
\<close>

definition mock_lat :: "real \<Rightarrow> jsnum" where
  "mock_lat rnd1 = js_add (round64 37.7749) (js_mul (js_sub (Fin rnd1) (round64 0.5)) (Fin 2))"

definition mock_lon :: "real \<Rightarrow> jsnum" where
  "mock_lon rnd2 = js_add (js_neg (round64 122.4194)) (js_mul (js_sub (Fin rnd2) (round64 0.5)) (Fin 2))"

text \<open>
  The handler of the task \<open>CallWeatherApi\<close>. \<open>apiKey\<close> is \<open>process.env.WEATHER_API_KEY\<close>,
  a string or, when the variable is not set, \<open>undefined\<close> (\<open>None\<close>); \<open>!apiKey\<close> holds for
  \<open>undefined\<close> and for the empty string. \<open>rnd1\<close> and \<open>rnd2\<close> are the two values of
  \<open>Math.random()\<close>.
\<close>

definition callWeatherApiTask ::
  "string option \<Rightarrow> real \<Rightarrow> real \<Rightarrow> (jsnum \<Rightarrow> jsnum \<Rightarrow> string \<Rightarrow> js_error + jsval) \<Rightarrow> obj
     \<Rightarrow> js_error + obj" where
  "callWeatherApiTask apiKey rnd1 rnd2 fetch_json ctx =
     (case apiKey of
        None \<Rightarrow> Inr (obj_set ctx ''weatherData'' fallback_weather)
      | Some key \<Rightarrow>
          if \<not> truthy (Str key)
          then Inr (obj_set ctx ''weatherData'' fallback_weather)
          else
            (case weather_try fetch_json (mock_lat rnd1) (mock_lon rnd2) key ctx of
               Inr r \<Rightarrow> Inr r
             | Inl err \<Rightarrow> Inr (obj_set ctx ''weatherData'' fallback_weather)))"

subsection \<open>ComputeFailurePrediction\<close>

text \<open>The reducer of \<open>ComputeFailurePrediction\<close> over \<open>ctx.joinedContexts\<close>, started at \<open>{}\<close>.\<close>

definition merge_prediction_step :: "jsval \<Rightarrow> jsval \<Rightarrow> js_error + jsval" where
  "merge_prediction_step acc c =
     bindE (or_field acc c ''anomalyHistory'') (\<lambda>a.
     bindE (or_field acc c ''trend'') (\<lambda>t.
     bindE (or_field acc c ''weatherData'') (\<lambda>w.
     Inr (Obj [(''anomalyHistory'', a), (''trend'', t), (''weatherData'', w)]))))"

definition merge_prediction :: "jsval list \<Rightarrow> js_error + jsval" where
  "merge_prediction cs = reduceE merge_prediction_step cs (Obj [])"

text \<open>
  \<open>const { anomalyHistory, trend, weatherData } = ctx.joinedContexts.reduce(..., {})\<close>
\<close>

definition joined_inputs :: "obj \<Rightarrow> js_error + jsval \<times> jsval \<times> jsval" where
  "joined_inputs ctx =
     bindE (as_array (field ctx ''joinedContexts'')) (\<lambda>cs.
     bindE (merge_prediction cs) (\<lambda>m.
     bindE (get m ''anomalyHistory'') (\<lambda>a.
     bindE (get m ''trend'') (\<lambda>t.
     bindE (get m ''weatherData'') (\<lambda>w. Inr (a, t, w))))))"

text \<open>
  The four lines of the prediction logic, in the source's order:
  \<^verbatim>\<open>const baseRisk = anomalyHistory.length / 10;\<close>
  \<^verbatim>\<open>const weatherMultiplier = (weatherData.condition === 'rain' || 'thunderstorm') ? 1.5 : 1.0;\<close>
  \<^verbatim>\<open>const trendMultiplier = (trend === 'increasing') ? 1.2 : 1.0;\<close>
  \<^verbatim>\<open>const failureProbability = Math.min(baseRisk * weatherMultiplier * trendMultiplier, 1);\<close>
  The operand of \<open>||\<close> in the second line is the string \<open>'thunderstorm'\<close> itself.
\<close>

definition baseRisk :: "builtins \<Rightarrow> jsval \<Rightarrow> js_error + jsnum" where
  "baseRisk B anomalyHistory =
     bindE (get anomalyHistory ''length'') (\<lambda>n. Inr (js_div (to_number B n) (Fin 10)))"

definition weatherMultiplier :: "jsval \<Rightarrow> js_error + jsnum" where
  "weatherMultiplier weatherData =
     bindE (get weatherData ''condition'') (\<lambda>c.
     Inr (if truthy (js_or (Bool (c = Str ''rain'')) (Str ''thunderstorm''))
          then round64 1.5 else round64 1.0))"

definition trendMultiplier :: "jsval \<Rightarrow> jsnum" where
  "trendMultiplier trend = (if trend = Str ''increasing'' then round64 1.2 else round64 1.0)"

definition failureProbability :: "builtins \<Rightarrow> jsval \<Rightarrow> jsval \<Rightarrow> jsval \<Rightarrow> js_error + jsnum" where
  "failureProbability B anomalyHistory trend weatherData =
     bindE (baseRisk B anomalyHistory) (\<lambda>b.
     bindE (weatherMultiplier weatherData) (\<lambda>w.
     Inr (js_min (js_mul (js_mul b w) (trendMultiplier trend)) (Fin 1))))"

text \<open>
  \<open>new Date(t)\<close>: the time value of the date, \<open>None\<close> for an invalid date. A finite \<open>t\<close> is
  truncated towards zero, and is out of range beyond 8.64e15 milliseconds.
\<close>

fun new_Date :: "jsnum \<Rightarrow> int option" where
  "new_Date (Fin t) =
     (if \<bar>t\<bar> \<le> 8640000000000000 then Some (if 0 \<le> t then \<lfloor>t\<rfloor> else \<lceil>t\<rceil>) else None)"
| "new_Date _ = None"

text \<open>
  The handler of the unique task \<open>ComputeFailurePrediction\<close> (\<open>computePredictionTask\<close>).
  \<open>now\<close> is the value of \<open>Date.now()\<close>, \<open>rnd\<close> that of \<open>Math.random()\<close>. The result is \<open>Inl\<close>
  when the handler throws before it emits; otherwise it is the signal emitted and then
  either the returned context or, on the high-risk path, the RangeError of
  \<open>predictedEta.toISOString()\<close> on an invalid date.
\<close>

definition computePredictionTask ::
  "builtins \<Rightarrow> int \<Rightarrow> real \<Rightarrow> obj \<Rightarrow> js_error + signal list \<times> (js_error + obj)" where
  "computePredictionTask B now rnd ctx =
     bindE (joined_inputs ctx) (\<lambda>(anomalyHistory, trend, weatherData).
     bindE (failureProbability B anomalyHistory trend weatherData) (\<lambda>p.
     let etaDays = (if js_gt p (round64 0.7)
                    then js_add (js_mul (Fin rnd) (Fin 3)) (Fin 1)
                    else js_add (js_mul (Fin rnd) (Fin 30)) (Fin 7));
         predictedEta = new_Date (js_add (Fin (real_of_int now))
                          (js_mul (js_mul (js_mul (js_mul etaDays (Fin 24)) (Fin 60)) (Fin 60)) (Fin 1000))) in
     bindE (get anomalyHistory ''length'') (\<lambda>anomalies.
     bindE (get weatherData ''condition'') (\<lambda>weatherImpact.
     let prediction = Obj [(''failureProbability'', Str (toFixed B 3 p)),
                           (''predictedEta'', DateV predictedEta),
                           (''riskFactors'', Obj [(''anomalies'', anomalies), (''trend'', trend),
                                                  (''weatherImpact'', weatherImpact)])];
         out = obj_set ctx ''data''
                 (Obj [(''deviceId'', field ctx ''deviceId''),
                       (''anomalyScore'', js_or (field ctx ''anomalyScore'') (Number (Fin 0))),
                       (''failureProbability'', Number p),
                       (''predictedEta'', DateV predictedEta)]) in
     if js_gt p (round64 0.7)
     then Inr ([\<lparr>name = ''predictor.maintenance_needed'',
                 payload = [(''deviceId'', field ctx ''deviceId''), (''prediction'', prediction),
                            (''urgency'', Str ''high'')],
                 targetServices = Some [''telemetry-collector'', ''alert-service'']\<rparr>],
               (case predictedEta of None \<Rightarrow> Inl RangeError | Some _ \<Rightarrow> Inr out))
     else Inr ([\<lparr>name = ''predictor.prediction_ready'',
                 payload = [(''deviceId'', field ctx ''deviceId''), (''prediction'', prediction),
                            (''urgency'', Str ''low'')],
                 targetServices = Some [''alert-service'']\<rparr>],
               Inr out)))))"

section \<open>Notions of the statements\<close>

subsection \<open>The rules as the specification words them\<close>

text \<open>
  The statistics as the specification words them: the sample mean \<open>m\<close> of the window and
  its population standard deviation \<open>s\<close>.
\<close>

definition spec_mean :: "real list \<Rightarrow> real" where
  "spec_mean ws = sum_list ws / real (length ws)"

definition spec_std_dev :: "real list \<Rightarrow> real" where
  "spec_std_dev ws = sqrt (sum_list (map (\<lambda>x. (x - spec_mean ws) ^ 2) ws) / real (length ws))"

text \<open>
  The same statistics in the arithmetic of the code, binary64: every operation is rounded
  to the nearest number, and a sum is taken from the left, from 0.
\<close>

definition spec_sum64 :: "jsnum list \<Rightarrow> jsnum" where
  "spec_sum64 xs = foldl js_add (Fin 0) xs"

definition spec_mean64 :: "jsnum list \<Rightarrow> jsnum" where
  "spec_mean64 xs = js_div (spec_sum64 xs) (Fin (real (length xs)))"

definition spec_std_dev64 :: "jsnum list \<Rightarrow> jsnum" where
  "spec_std_dev64 xs =
     js_sqrt (js_div (spec_sum64 (map (\<lambda>x. js_pow2 (js_sub x (spec_mean64 xs))) xs))
                     (Fin (real (length xs))))"

text \<open>The z-score \<open>|r - m| / s\<close> of a reading in that arithmetic.\<close>

definition spec_zscore64 :: "jsnum \<Rightarrow> jsnum list \<Rightarrow> jsnum" where
  "spec_zscore64 r xs = js_abs (js_div (js_sub r (spec_mean64 xs)) (spec_std_dev64 xs))"

text \<open>
  The probability as the specification words it, in that arithmetic:
  \<open>min(baseRisk * weatherMultiplier * trendMultiplier, 1)\<close> with
  \<open>baseRisk = min(anomalyCount / 10, 1)\<close> and the trend multiplier 1.2 exactly for the
  trend \<open>increasing\<close>, for a given weather multiplier.
\<close>

definition spec_failure_probability :: "nat \<Rightarrow> jsnum \<Rightarrow> jsval \<Rightarrow> jsnum" where
  "spec_failure_probability anomalyCount wm trend =
     js_min (js_mul (js_mul (js_min (js_div (Fin (real anomalyCount)) (Fin 10)) (Fin 1)) wm)
                    (if trend = Str ''increasing'' then round64 1.2 else round64 1.0))
            (Fin 1)"

text \<open>
  The merge rule as the specification words it: the first value that is neither
  \<open>undefined\<close> nor \<open>null\<close>.
\<close>

fun first_non_null :: "jsval list \<Rightarrow> jsval" where
  "first_non_null [] = Undefined"
| "first_non_null (v # vs) = (if v = Undefined \<or> v = Null then first_non_null vs else v)"

subsection \<open>Conditions and results of the handlers\<close>

text \<open>A number that is at least 1: a multiplier that cannot lower a risk.\<close>

fun at_least_one :: "jsnum \<Rightarrow> bool" where
  "at_least_one (Fin y) = (1 \<le> y)"
| "at_least_one PInf = True"
| "at_least_one _ = False"

text \<open>
  What \<open>acc.k || c.k\<close> folds to over the values of a key: the first truthy value, and
  when there is none the last value (\<open>undefined\<close> for no value at all).
\<close>

fun first_truthy :: "jsval list \<Rightarrow> jsval" where
  "first_truthy [] = Undefined"
| "first_truthy [v] = v"
| "first_truthy (v # vs) = (if truthy v then v else first_truthy vs)"

text \<open>
  The contexts on which a handler gets past its early return and returns: the column \<open>k\<close>
  of the rows can be read and has at least two samples, of whatever kind, and
  \<open>ctx.readings\<close> is there to be read.
\<close>

definition long_window :: "obj \<Rightarrow> string \<Rightarrow> bool" where
  "long_window ctx k =
     (case history ctx k of
        Inl e \<Rightarrow> False
      | Inr vs \<Rightarrow> 2 \<le> length vs \<and> \<not> isl (get (field ctx ''readings'') k))"

text \<open>
  The credential is absent (the variable is not set, or is empty), or the lookup fails:
  the \<open>try\<close> block throws, be it the call itself or the reading of its answer.
\<close>

definition weather_unavailable ::
  "string option \<Rightarrow> real \<Rightarrow> real \<Rightarrow> (jsnum \<Rightarrow> jsnum \<Rightarrow> string \<Rightarrow> js_error + jsval) \<Rightarrow> obj \<Rightarrow> bool" where
  "weather_unavailable apiKey rnd1 rnd2 fetch_json ctx =
     (case apiKey of
        None \<Rightarrow> True
      | Some key \<Rightarrow> key = [] \<or> isl (weather_try fetch_json (mock_lat rnd1) (mock_lon rnd2) key ctx))"

subsection \<open>Example contexts\<close>

text \<open>
  A row of the \<open>telemetry\<close> table as far as the handlers read it, and the context of the
  specification's example: the window 48, 50, 52, 49, 51 and the reading 80, for both metrics.
\<close>

definition telemetry_row :: "real \<Rightarrow> real \<Rightarrow> jsval" where
  "telemetry_row t h = Obj [(''temperature'', Number (Fin t)), (''humidity'', Number (Fin h))]"

definition spec_window_ctx :: obj where
  "spec_window_ctx =
     [(''deviceId'', Str ''device-1''),
      (''readings'', Obj [(''temperature'', Number (Fin 80)), (''humidity'', Number (Fin 80))]),
      (''telemetrys'', Arr [telemetry_row 48 48, telemetry_row 50 50, telemetry_row 52 52,
                            telemetry_row 49 49, telemetry_row 51 51])]"

text \<open>
  A stand-in for the built-in functions in closed examples: no example below depends on
  the strings they print or on the numbers they parse.
\<close>

definition stub_builtins :: builtins where
  "stub_builtins =
     \<lparr>toFixed = (\<lambda>digits x. ''?''), numberToString = (\<lambda>x. ''?''),
      stringToNumber = (\<lambda>s. NaN), dateToString = (\<lambda>t. ''?'')\<rparr>"

text \<open>
  The window 4, 4, 4, 4, 7 with the reading 7, for both metrics: in exact arithmetic the
  mean is 4.6, the deviation 1.2 and the z-score 2.
\<close>

definition rounding_window_ctx :: obj where
  "rounding_window_ctx =
     [(''deviceId'', Str ''device-1''),
      (''readings'', Obj [(''temperature'', Number (Fin 7)), (''humidity'', Number (Fin 7))]),
      (''telemetrys'', Arr [telemetry_row 4 4, telemetry_row 4 4, telemetry_row 4 4,
                            telemetry_row 4 4, telemetry_row 7 7])]"

text \<open>
  A context whose query returned a single row.
\<close>

definition short_window_ctx :: obj where
  "short_window_ctx =
     [(''deviceId'', Str ''device-1''),
      (''readings'', Obj [(''temperature'', Number (Fin 80)), (''humidity'', Number (Fin 80))]),
      (''telemetrys'', Arr [telemetry_row 20 40])]"

text \<open>
  The constant window 20, 20, 20, 20, 20 of the specification, with the reading \<open>r\<close>.
\<close>

definition constant_window_ctx :: "real \<Rightarrow> obj" where
  "constant_window_ctx r =
     [(''deviceId'', Str ''device-1''),
      (''readings'', Obj [(''temperature'', Number (Fin r)), (''humidity'', Number (Fin r))]),
      (''telemetrys'', Arr [telemetry_row 20 20, telemetry_row 20 20, telemetry_row 20 20,
                            telemetry_row 20 20, telemetry_row 20 20])]"

text \<open>
  A context with the window 1, 3 and the reading 10 for both metrics: mean 2, standard
  deviation 1, z-score 8.
\<close>

definition fan_in_ctx :: obj where
  "fan_in_ctx =
     [(''deviceId'', Str ''device-1''),
      (''readings'', Obj [(''temperature'', Number (Fin 10)), (''humidity'', Number (Fin 10))]),
      (''telemetrys'', Arr [telemetry_row 1 1, telemetry_row 3 3])]"

text \<open>
  Two received contexts that do carry the keys the fan-in reads, with the scores 0.9 and 0.5.
\<close>

definition keyed_boundary_ctx :: obj where
  "keyed_boundary_ctx =
     [(''deviceId'', Str ''device-1''),
      (''joinedContexts'',
       Arr [Obj [(''temperatureAnomaly'', Obj [(''score'', Number (round64 0.9))])],
            Obj [(''humidityAnomaly'', Obj [(''score'', Number (round64 0.5))])]])]"

text \<open>
  The example of the specification at the fan-in: five events with an increasing trend
  from one branch, rain from the other; and a low-risk run under the fallback weather.
\<close>

definition high_risk_ctx :: obj where
  "high_risk_ctx =
     [(''deviceId'', Str ''device-1''),
      (''joinedContexts'',
       Arr [Obj [(''deviceId'', Str ''device-1''),
                 (''anomalyHistory'', Arr [Null, Null, Null, Null, Null]),
                 (''trend'', Str ''increasing'')],
            Obj [(''deviceId'', Str ''device-1''),
                 (''weatherData'', Obj [(''temperature'', Number (Fin 12)),
                                        (''humidity'', Number (Fin 93)),
                                        (''condition'', Str ''rain'')])]])]"

definition low_risk_ctx :: obj where
  "low_risk_ctx =
     [(''deviceId'', Str ''device-2''),
      (''joinedContexts'',
       Arr [Obj [(''deviceId'', Str ''device-2''),
                 (''anomalyHistory'', Arr [Null]),
                 (''trend'', Str ''stable'')],
            Obj [(''deviceId'', Str ''device-2''), (''weatherData'', fallback_weather)]])]"

text \<open>
  A context as \<open>InitiatePrediction\<close> hands it on.
\<close>

definition device_ctx :: obj where
  "device_ctx = [(''deviceId'', Str ''device-1''), (''filter'', Obj [(''deviceId'', Str ''device-1'')])]"

text \<open>
  Two answers of the external service: a call that throws, and the body of a response
  that reports an error and carries no weather.
\<close>

definition failing_fetch :: "jsnum \<Rightarrow> jsnum \<Rightarrow> string \<Rightarrow> js_error + jsval" where
  "failing_fetch lat lon key = Inl NetworkError"

definition unauthorized_fetch :: "jsnum \<Rightarrow> jsnum \<Rightarrow> string \<Rightarrow> js_error + jsval" where
  "unauthorized_fetch lat lon key =
     Inr (Obj [(''cod'', Number (Fin 401)), (''message'', Str ''Invalid API key'')])"

section \<open>Basic facts\<close>

lemma bindE_Inr [simp]: "bindE (Inr x) f = f x"
  by (simp add: bindE_def)

lemma bindE_Inl [simp]: "bindE (Inl e) f = Inl e"
  by (simp add: bindE_def)

subsection \<open>Rounding to an integer\<close>

lemma rhe_of_int [simp]: "rhe (real_of_int k) = k"
  by (simp add: rhe_def)

lemma rhe_range: "\<lfloor>q\<rfloor> \<le> rhe q \<and> rhe q \<le> \<lfloor>q\<rfloor> + 1"
  by (simp add: rhe_def Let_def)

lemma rhe_upper_floor: "q - real_of_int \<lfloor>q\<rfloor> < 1 / 2 \<Longrightarrow> rhe q = \<lfloor>q\<rfloor>"
  by (simp add: rhe_def Let_def)

lemma rhe_mono:
  assumes "q \<le> q'"
  shows "rhe q \<le> rhe q'"
proof (cases "\<lfloor>q\<rfloor> = \<lfloor>q'\<rfloor>")
  case True
  then show ?thesis
    using assms by (auto simp: rhe_def Let_def)
next
  case False
  then have "\<lfloor>q\<rfloor> < \<lfloor>q'\<rfloor>"
    using floor_mono [OF assms] by simp
  then have "rhe q \<le> \<lfloor>q'\<rfloor>"
    using rhe_range [of q] by simp
  then show ?thesis
    using rhe_range [of q'] by simp
qed

lemma rhe_ge: "real_of_int k \<le> q \<Longrightarrow> k \<le> rhe q"
  using rhe_mono [of "real_of_int k" q] by simp

lemma rhe_le: "q \<le> real_of_int k \<Longrightarrow> rhe q \<le> k"
  using rhe_mono [of q "real_of_int k"] by simp

lemma rhe_near:
  assumes "\<bar>q - real_of_int n\<bar> < 1 / 2"
  shows "rhe q = n"
proof (cases "real_of_int n \<le> q")
  case True
  then have "\<lfloor>q\<rfloor> = n" using assms by (intro floor_unique) auto
  then show ?thesis using assms True by (simp add: rhe_def Let_def)
next
  case False
  then have f: "\<lfloor>q\<rfloor> = n - 1" using assms by (intro floor_unique) auto
  have "1 / 2 < q - real_of_int (n - 1)" using assms False by simp
  then show ?thesis using f by (simp add: rhe_def Let_def)
qed

lemma rhe_tie_down:
  assumes "q = real_of_int n + 1 / 2" and "even n"
  shows "rhe q = n"
proof -
  have "\<lfloor>q\<rfloor> = n" using assms(1) by (intro floor_unique) auto
  then show ?thesis using assms by (simp add: rhe_def Let_def)
qed

lemma rhe_tie_up:
  assumes "q = real_of_int n - 1 / 2" and "even n"
  shows "rhe q = n"
proof -
  have f: "\<lfloor>q\<rfloor> = n - 1" using assms(1) by (intro floor_unique) auto
  have "odd (n - 1)" using assms(2) by simp
  then show ?thesis using f assms(1) by (simp add: rhe_def Let_def)
qed

lemma rhe_minus: "rhe (- q) = - rhe q"
proof (cases "q = real_of_int \<lfloor>q\<rfloor>")
  case True
  then obtain k where "q = real_of_int k" by blast
  then show ?thesis by (simp flip: of_int_minus)
next
  case False
  have "real_of_int \<lfloor>q\<rfloor> \<le> q" by (rule of_int_floor_le)
  with False have lt: "real_of_int \<lfloor>q\<rfloor> < q" by linarith
  have ub: "q < real_of_int \<lfloor>q\<rfloor> + 1" by linarith
  have f: "\<lfloor>- q\<rfloor> = - \<lfloor>q\<rfloor> - 1"
    using lt ub by (intro floor_unique) (auto simp: algebra_simps)
  show ?thesis
    using lt ub by (auto simp: rhe_def Let_def f algebra_simps)
qed


subsection \<open>Binades\<close>

lemma two_powi_add: "(2 :: real) powi (a + b) = 2 powi a * 2 powi b"
  by (simp add: power_int_add)

lemma two_powi_le: "a \<le> b \<Longrightarrow> (2 :: real) powi a \<le> 2 powi b"
  by (rule power_int_increasing) simp_all

lemma powi_split53: "(2 :: real) powi (e + 1) = 2 ^ 53 * 2 powi (e - 52)"
  using two_powi_add [of 53 "e - 52"] by (simp add: add.commute)

lemma powi_split52: "(2 :: real) powi e = 2 ^ 52 * 2 powi (e - 52)"
  using two_powi_add [of 52 "e - 52"] by simp

lemma two_powr_int: "(2 :: real) powr real_of_int n = 2 powi n"
  by (rule powr_real_of_int') simp_all

lemma two_powr_int_Suc: "(2 :: real) powr (real_of_int n + 1) = 2 powi (n + 1)"
  using two_powr_int [of "n + 1"] by simp

lemma binade:
  assumes "x \<noteq> 0"
  shows "2 powi \<lfloor>log 2 \<bar>x\<bar>\<rfloor> \<le> \<bar>x\<bar>" and "\<bar>x\<bar> < 2 powi (\<lfloor>log 2 \<bar>x\<bar>\<rfloor> + 1)"
proof -
  have "0 < \<bar>x\<bar>" using assms by simp
  then have "2 powr real_of_int \<lfloor>log 2 \<bar>x\<bar>\<rfloor> \<le> \<bar>x\<bar> \<and> \<bar>x\<bar> < 2 powr real_of_int (\<lfloor>log 2 \<bar>x\<bar>\<rfloor> + 1)"
    using floor_log_eq_powr_iff [of "\<bar>x\<bar>" 2 "\<lfloor>log 2 \<bar>x\<bar>\<rfloor>"] by simp
  then show "2 powi \<lfloor>log 2 \<bar>x\<bar>\<rfloor> \<le> \<bar>x\<bar>" and "\<bar>x\<bar> < 2 powi (\<lfloor>log 2 \<bar>x\<bar>\<rfloor> + 1)"
    by (simp_all add: two_powr_int two_powr_int_Suc)
qed

lemma binade_unique:
  assumes "2 powi e \<le> \<bar>x\<bar>" and "\<bar>x\<bar> < 2 powi (e + 1)"
  shows "\<lfloor>log 2 \<bar>x\<bar>\<rfloor> = e"
proof -
  have "0 < (2 :: real) powi e" by simp
  then have "0 < \<bar>x\<bar>" using assms(1) by linarith
  then show ?thesis
    using floor_log_eq_powr_iff [of "\<bar>x\<bar>" 2 e] assms by (simp add: two_powr_int two_powr_int_Suc)
qed

lemma expo_minus [simp]: "expo (- x) = expo x"
  by (simp add: expo_def)

lemma expo_ge: "- 1022 \<le> expo x"
  by (simp add: expo_def)

lemma expo_eq:
  assumes "2 powi e \<le> \<bar>x\<bar>" and "\<bar>x\<bar> < 2 powi (e + 1)"
  shows "expo x = max e (- 1022)"
  by (simp add: expo_def binade_unique [OF assms])

lemma expo_upper:
  assumes "x \<noteq> 0"
  shows "\<bar>x\<bar> < 2 powi (expo x + 1)"
proof -
  have "\<bar>x\<bar> < 2 powi (\<lfloor>log 2 \<bar>x\<bar>\<rfloor> + 1)" by (rule binade(2) [OF assms])
  also have "\<dots> \<le> 2 powi (expo x + 1)" by (rule two_powi_le) (simp add: expo_def)
  finally show ?thesis .
qed

lemma expo_lower:
  assumes "x \<noteq> 0" and "- 1022 < expo x"
  shows "2 powi expo x \<le> \<bar>x\<bar>"
proof -
  have "expo x = \<lfloor>log 2 \<bar>x\<bar>\<rfloor>" using assms(2) by (simp add: expo_def max_def split: if_splits)
  then show ?thesis using binade(1) [OF assms(1)] by simp
qed

lemma expo_mono:
  assumes "0 < x" and "x \<le> y"
  shows "expo x \<le> expo y"
proof -
  have "log 2 \<bar>x\<bar> \<le> log 2 \<bar>y\<bar>" using assms by simp
  then have "\<lfloor>log 2 \<bar>x\<bar>\<rfloor> \<le> \<lfloor>log 2 \<bar>y\<bar>\<rfloor>" by (rule floor_mono)
  then show ?thesis by (simp add: expo_def)
qed

subsection \<open>Rounding to a 53-bit significand\<close>

lemma fl_0 [simp]: "fl 0 = 0"
  by (simp add: fl_def)

lemma fl_minus: "fl (- x) = - fl x"
  by (simp add: fl_def rhe_minus)

lemma fl_nonneg:
  assumes "0 \<le> x"
  shows "0 \<le> fl x"
proof -
  have "0 \<le> x / 2 powi (expo x - 52)" using assms by simp
  then have "0 \<le> rhe (x / 2 powi (expo x - 52))" using rhe_ge [of 0] by simp
  then show ?thesis by (simp add: fl_def)
qed

lemma fl_upper:
  assumes "0 < x"
  shows "fl x \<le> 2 powi (expo x + 1)"
proof -
  let ?u = "(2 :: real) powi (expo x - 52)"
  have u: "0 < ?u" by simp
  have "x < 2 powi (expo x + 1)" using expo_upper [of x] assms by simp
  also have "(2 :: real) powi (expo x + 1) = 2 ^ 53 * ?u"
    by (rule powi_split53)
  finally have "x / ?u \<le> 2 ^ 53" using u by (simp add: pos_divide_le_eq)
  also have "(2 :: real) ^ 53 = real_of_int (2 ^ 53)" by simp
  finally have "rhe (x / ?u) \<le> 2 ^ 53" by (rule rhe_le)
  then have "real_of_int (rhe (x / ?u)) \<le> real_of_int (2 ^ 53)" by (simp only: of_int_le_iff)
  then have "real_of_int (rhe (x / ?u)) * ?u \<le> 2 ^ 53 * ?u" using u by simp
  also have "\<dots> = 2 powi (expo x + 1)" by (rule powi_split53 [symmetric])
  finally show ?thesis using assms by (simp add: fl_def)
qed

lemma fl_lower:
  assumes "0 < x" and "- 1022 < expo x"
  shows "2 powi expo x \<le> fl x"
proof -
  let ?u = "(2 :: real) powi (expo x - 52)"
  have u: "0 < ?u" by simp
  have split: "(2 :: real) powi expo x = 2 ^ 52 * ?u" by (rule powi_split52)
  moreover have "2 powi expo x \<le> x" using expo_lower [of x] assms by simp
  ultimately have "2 ^ 52 \<le> x / ?u" using u by (simp add: pos_le_divide_eq)
  moreover have "(2 :: real) ^ 52 = real_of_int (2 ^ 52)" by simp
  ultimately have "real_of_int (2 ^ 52) \<le> x / ?u" by simp
  then have "2 ^ 52 \<le> rhe (x / ?u)" by (rule rhe_ge)
  then have "real_of_int (2 ^ 52) \<le> real_of_int (rhe (x / ?u))" by (simp only: of_int_le_iff)
  then have "2 ^ 52 * ?u \<le> real_of_int (rhe (x / ?u)) * ?u" using u by simp
  then show ?thesis using assms split by (simp add: fl_def)
qed

lemma fl_mono_pos:
  assumes "0 < x" and "x \<le> y"
  shows "fl x \<le> fl y"
proof (cases "expo x = expo y")
  case True
  let ?u = "(2 :: real) powi (expo y - 52)"
  have "x / ?u \<le> y / ?u" using assms(2) by (simp add: divide_right_mono)
  then have "rhe (x / ?u) \<le> rhe (y / ?u)" by (rule rhe_mono)
  then have "real_of_int (rhe (x / ?u)) * ?u \<le> real_of_int (rhe (y / ?u)) * ?u" by simp
  then show ?thesis using assms True by (simp add: fl_def)
next
  case False
  then have lt: "expo x < expo y" using expo_mono [OF assms] by simp
  have "fl x \<le> 2 powi (expo x + 1)" by (rule fl_upper [OF assms(1)])
  also have "\<dots> \<le> 2 powi expo y" using lt by (intro two_powi_le) simp
  also have "\<dots> \<le> fl y"
    using assms lt expo_ge [of x] by (intro fl_lower) simp_all
  finally show ?thesis .
qed

text \<open>Rounding is monotone, and keeps every value that has a 53-bit significand.\<close>

lemma fl_mono:
  assumes "x \<le> y"
  shows "fl x \<le> fl y"
proof -
  consider "0 < x" | "x \<le> 0" "0 \<le> y" | "y < 0" by linarith
  then show ?thesis
  proof cases
    case 1
    then show ?thesis using assms by (rule fl_mono_pos)
  next
    case 2
    have "fl x \<le> 0" using fl_nonneg [of "- x"] 2(1) by (simp add: fl_minus)
    also have "0 \<le> fl y" using 2(2) by (rule fl_nonneg)
    finally show ?thesis .
  next
    case 3
    then have "fl (- y) \<le> fl (- x)" using assms by (intro fl_mono_pos) simp_all
    then show ?thesis by (simp add: fl_minus)
  qed
qed


lemma fl_representable:
  assumes "\<bar>m\<bar> < 2 ^ 53" and "- 1074 \<le> k"
  shows "fl (real_of_int m * 2 powi k) = real_of_int m * 2 powi k"
proof (cases "m = 0")
  case True
  then show ?thesis by simp
next
  case False
  define x where "x = real_of_int m * 2 powi k"
  define u :: real where "u = 2 powi (expo x - 52)"
  have x0: "x \<noteq> 0" using False by (simp add: x_def)
  have u0: "0 < u" by (simp add: u_def)
  have "real_of_int \<bar>m\<bar> < real_of_int (2 ^ 53)" using assms(1) by (simp only: of_int_less_iff)
  then have "\<bar>real_of_int m\<bar> < 2 ^ 53" by simp
  then have "\<bar>x\<bar> < 2 ^ 53 * 2 powi k" by (simp add: abs_mult x_def)
  also have "\<dots> = 2 powi (k + 53)" using two_powi_add [of k 53] by simp
  finally have lt: "\<bar>x\<bar> < 2 powi (k + 53)" .
  have "\<lfloor>log 2 \<bar>x\<bar>\<rfloor> < k + 53"
  proof (rule ccontr)
    assume "\<not> \<lfloor>log 2 \<bar>x\<bar>\<rfloor> < k + 53"
    then have "(2 :: real) powi (k + 53) \<le> 2 powi \<lfloor>log 2 \<bar>x\<bar>\<rfloor>" by (intro two_powi_le) simp
    also have "\<dots> \<le> \<bar>x\<bar>" by (rule binade(1) [OF x0])
    finally show False using lt by simp
  qed
  then have e: "expo x \<le> k + 52" using assms(2) by (simp add: expo_def)
  define j where "j = nat (k + 52 - expo x)"
  have "k = (expo x - 52) + int j" using e by (simp add: j_def)
  then have "(2 :: real) powi k = 2 powi ((expo x - 52) + int j)" by simp
  also have "\<dots> = u * 2 ^ j" by (simp only: two_powi_add u_def power_int_of_nat)
  finally have pk: "(2 :: real) powi k = u * 2 ^ j" .
  have xu: "x = real_of_int (m * 2 ^ j) * u" by (simp add: x_def pk)
  then have q: "x / u = real_of_int (m * 2 ^ j)" using u0 by simp
  have "fl x = real_of_int (rhe (x / u)) * u"
    using x0 by (simp add: fl_def u_def)
  also have "\<dots> = real_of_int (m * 2 ^ j) * u"
    by (simp only: q rhe_of_int)
  also have "\<dots> = x" by (simp only: xu)
  finally show ?thesis by (simp only: x_def)
qed

lemma fl_of_int:
  assumes "\<bar>n\<bar> < 2 ^ 53"
  shows "fl (real_of_int n) = real_of_int n"
  using fl_representable [OF assms, of 0] by simp

text \<open>
  The rounding of a given number: scaled by \<open>2 ^ k\<close> into the range of the 53-bit integers,
  it goes to the nearest integer, a tie to the even one.
\<close>

lemma fl_scaled:
  assumes "2 ^ 52 \<le> \<bar>x\<bar> * 2 ^ k" and "\<bar>x\<bar> * 2 ^ k < 2 ^ 53" and "k \<le> 1074"
  shows "fl x = real_of_int (rhe (x * 2 ^ k)) / 2 ^ k"
proof -
  define e where "e = 52 - int k"
  define p :: real where "p = 2 ^ k"
  have p0: "0 < p" by (simp add: p_def)
  have u: "(2 :: real) powi (e - 52) = 1 / p"
    by (simp add: e_def p_def power_int_minus_divide)
  have "(2 :: real) powi e = 2 ^ 52 * 2 powi (e - 52)" by (rule powi_split52)
  then have pe: "(2 :: real) powi e = 2 ^ 52 / p" by (simp only: u) simp
  have "(2 :: real) powi (e + 1) = 2 ^ 53 * 2 powi (e - 52)" by (rule powi_split53)
  then have pe1: "(2 :: real) powi (e + 1) = 2 ^ 53 / p" by (simp only: u) simp
  have lo: "2 powi e \<le> \<bar>x\<bar>"
    unfolding pe using assms(1) p0 by (simp only: pos_divide_le_eq p_def)
  have hi: "\<bar>x\<bar> < 2 powi (e + 1)"
    unfolding pe1 using assms(2) p0 by (simp only: pos_less_divide_eq p_def)
  have e: "expo x = e" using expo_eq [OF lo hi] assms(3) by (simp add: e_def)
  have pos: "0 < (2 :: real) powi e" by simp
  have "x \<noteq> 0"
  proof
    assume "x = 0"
    then have "(2 :: real) powi e \<le> 0" using lo by simp
    then show False using pos by linarith
  qed
  then show ?thesis by (simp add: fl_def e u p_def)
qed

lemma fl_near:
  assumes "2 ^ 52 \<le> \<bar>x\<bar> * 2 ^ k" and "\<bar>x\<bar> * 2 ^ k < 2 ^ 53" and "k \<le> 1074"
    and "\<bar>x * 2 ^ k - real_of_int n\<bar> < 1 / 2"
  shows "fl x = real_of_int n / 2 ^ k"
  by (simp add: fl_scaled [OF assms(1-3)] rhe_near [OF assms(4)])

lemma fl_tie:
  assumes "2 ^ 52 \<le> \<bar>x\<bar> * 2 ^ k" and "\<bar>x\<bar> * 2 ^ k < 2 ^ 53" and "k \<le> 1074"
    and "x * 2 ^ k = real_of_int n + 1 / 2 \<or> x * 2 ^ k = real_of_int n - 1 / 2" and "even n"
  shows "fl x = real_of_int n / 2 ^ k"
  using assms(4,5) by (auto simp: fl_scaled [OF assms(1-3)] rhe_tie_down rhe_tie_up)

subsection \<open>Rounding to binary64\<close>

lemma round64_Fin:
  assumes "\<bar>fl x\<bar> < 2 powi 1024"
  shows "round64 x = Fin (fl x)"
  using assms by (auto simp: round64_def Let_def)

lemma round64_between:
  assumes "a \<le> x" and "x \<le> b" and "fl a = a" and "fl b = b"
    and "- (2 powi 1024) < a" and "b < 2 powi 1024"
  shows "round64 x = Fin (fl x) \<and> a \<le> fl x \<and> fl x \<le> b"
proof -
  have "a \<le> fl x" using fl_mono [OF assms(1)] assms(3) by simp
  moreover have "fl x \<le> b" using fl_mono [OF assms(2)] assms(4) by simp
  ultimately show ?thesis using assms(5,6) by (auto intro!: round64_Fin)
qed

lemma round64_of_int:
  assumes "\<bar>n\<bar> < 2 ^ 53"
  shows "round64 (real_of_int n) = Fin (real_of_int n)"
proof -
  have "\<bar>real_of_int n\<bar> < real_of_int (2 ^ 53)" using assms by (simp flip: of_int_abs)
  also have "\<dots> < 2 powi 1024" by simp
  finally show ?thesis by (intro round64_Fin [THEN trans]) (simp_all add: fl_of_int [OF assms])
qed

lemma round64_0 [simp]: "round64 0 = Fin 0"
  using round64_of_int [of 0] by simp

lemma round64_1 [simp]: "round64 1 = Fin 1"
  using round64_of_int [of 1] by simp

lemma round64_numeral [simp]:
  "numeral w < (2 :: int) ^ 53 \<Longrightarrow> round64 (numeral w) = Fin (numeral w)"
  using round64_of_int [of "numeral w"] by simp

lemma round64_neg_numeral [simp]:
  "numeral w < (2 :: int) ^ 53 \<Longrightarrow> round64 (- numeral w) = Fin (- numeral w)"
  using round64_of_int [of "- numeral w"] by simp


lemma fl_two_53: "fl (2 ^ 53) = 2 ^ 53"
  using fl_representable [of 1 53] by simp

lemma round64_small:
  assumes "\<bar>x\<bar> \<le> 2 ^ 53"
  shows "round64 x = Fin (fl x)"
proof -
  define c :: real where "c = 2 ^ 53"
  have c: "fl c = c" "fl (- c) = - c" by (simp_all only: c_def fl_minus fl_two_53)
  have "c < 2 powi 1024" by (simp add: c_def)
  moreover have "- c \<le> x" "x \<le> c" using assms by (simp_all add: c_def abs_le_iff)
  ultimately have "round64 x = Fin (fl x) \<and> - c \<le> fl x \<and> fl x \<le> c"
    using c by (intro round64_between) simp_all
  then show ?thesis by simp
qed

lemma round64_near:
  assumes "2 ^ 52 \<le> \<bar>x\<bar> * 2 ^ k" and "\<bar>x\<bar> * 2 ^ k < 2 ^ 53" and "k \<le> 1074"
    and "\<bar>x * 2 ^ k - real_of_int n\<bar> < 1 / 2"
  shows "round64 x = Fin (real_of_int n / 2 ^ k)"
proof -
  have "\<bar>x\<bar> * 1 \<le> \<bar>x\<bar> * 2 ^ k" by (intro mult_left_mono) simp_all
  then have "\<bar>x\<bar> \<le> 2 ^ 53" using assms(2) by simp
  then show ?thesis by (simp add: round64_small fl_near [OF assms])
qed

lemma round64_tie:
  assumes "2 ^ 52 \<le> \<bar>x\<bar> * 2 ^ k" and "\<bar>x\<bar> * 2 ^ k < 2 ^ 53" and "k \<le> 1074"
    and "x * 2 ^ k = real_of_int n + 1 / 2 \<or> x * 2 ^ k = real_of_int n - 1 / 2" and "even n"
  shows "round64 x = Fin (real_of_int n / 2 ^ k)"
proof -
  have "\<bar>x\<bar> * 1 \<le> \<bar>x\<bar> * 2 ^ k" by (intro mult_left_mono) simp_all
  then have "\<bar>x\<bar> \<le> 2 ^ 53" using assms(2) by simp
  then show ?thesis by (simp add: round64_small fl_tie [OF assms])
qed

text \<open>
  The square root is rounded correctly: it is the value \<open>n / 2 ^ k\<close> whose two
  neighbouring midpoints enclose the exact root.
\<close>

lemma round64_sqrt_near:
  assumes "2 ^ 52 < n" and "n < 2 ^ 53" and "k \<le> 1074"
    and "(2 * real_of_int n - 1)\<^sup>2 < v * 2 ^ (2 * k + 2)"
    and "v * 2 ^ (2 * k + 2) < (2 * real_of_int n + 1)\<^sup>2"
  shows "round64 (sqrt v) = Fin (real_of_int n / 2 ^ k)"
proof -
  define p :: real where "p = 2 ^ (k + 1)"
  have p0: "0 < p" by (simp add: p_def)
  have "2 ^ 52 + 1 \<le> n" using assms(1) by simp
  then have "real_of_int (2 ^ 52 + 1) \<le> real_of_int n" by (simp only: of_int_le_iff)
  then have a: "2 ^ 52 + 1 \<le> real_of_int n" by simp
  have "n + 1 \<le> 2 ^ 53" using assms(2) by simp
  then have "real_of_int (n + 1) \<le> real_of_int (2 ^ 53)" by (simp only: of_int_le_iff)
  then have b: "real_of_int n + 1 \<le> 2 ^ 53" by simp
  have "2 * k + 2 = (k + 1) * 2" by simp
  then have pp: "2 ^ (2 * k + 2) = p\<^sup>2" by (simp only: p_def power_mult)
  have p20: "0 < p\<^sup>2" using p0 by simp
  have a4: "(2 * real_of_int n - 1)\<^sup>2 < v * p\<^sup>2" using assms(4) by (simp only: pp)
  have a5: "v * p\<^sup>2 < (2 * real_of_int n + 1)\<^sup>2" using assms(5) by (simp only: pp)
  have "((2 * real_of_int n - 1) / p)\<^sup>2 < v"
    using a4 p20 by (simp only: power_divide pos_divide_less_eq)
  then have lo: "(2 * real_of_int n - 1) / p < sqrt v" by (rule real_less_rsqrt)
  have v0: "0 \<le> (2 * real_of_int n + 1) / p" using a p0 by simp
  have "v < ((2 * real_of_int n + 1) / p)\<^sup>2"
    using a5 p20 by (simp only: power_divide pos_less_divide_eq)
  then have hi: "sqrt v < (2 * real_of_int n + 1) / p" using v0 by (intro real_less_lsqrt)
  have p2: "p = 2 * 2 ^ k" by (simp add: p_def)
  have lo': "real_of_int n - 1 / 2 < sqrt v * 2 ^ k"
    using lo by (simp add: p2 pos_divide_less_eq algebra_simps)
  have hi': "sqrt v * 2 ^ k < real_of_int n + 1 / 2"
    using hi by (simp add: p2 pos_less_divide_eq algebra_simps)
  have "0 < sqrt v * 2 ^ k" using lo' a by simp
  then have "0 < sqrt v" by (simp add: zero_less_mult_iff)
  then have abs: "\<bar>sqrt v\<bar> * 2 ^ k = sqrt v * 2 ^ k" by simp
  show ?thesis
  proof (rule round64_near)
    show "2 ^ 52 \<le> \<bar>sqrt v\<bar> * 2 ^ k" unfolding abs using lo' a by simp
    show "\<bar>sqrt v\<bar> * 2 ^ k < 2 ^ 53" unfolding abs using hi' b by simp
    show "k \<le> 1074" by (rule assms(3))
    show "\<bar>sqrt v * 2 ^ k - real_of_int n\<bar> < 1 / 2" using lo' hi' by linarith
  qed
qed

subsection \<open>Objects and conversions\<close>

lemma field_Nil [simp]: "field [] k = Undefined"
  by (simp add: field_def)

lemma field_Cons [simp]: "field ((k', v) # ob) k = (if k = k' then v else field ob k)"
  by (simp add: field_def)

lemma field_obj_set: "field (obj_set ob k v) k' = (if k' = k then v else field ob k')"
  by (induction ob) (auto simp: field_def)

lemma field_absent: "k \<notin> set (map fst ob) \<Longrightarrow> field ob k = Undefined"
  by (simp add: field_def map_of_eq_None_iff [THEN iffD2])

lemma keys_obj_set:
  "map fst (obj_set ob k v) = (if k \<in> set (map fst ob) then map fst ob else map fst ob @ [k])"
  by (induction ob) auto

lemma not_isl_iff: "\<not> isl x \<longleftrightarrow> (\<exists>y. x = Inr y)"
  by (cases x) simp_all

text \<open>On two numbers \<open>+\<close> is the addition.\<close>

lemma js_plus_Number: "js_plus B (Number a) (Number b) = Number (js_add a b)"
  by (simp add: js_plus_def)

section \<open>The anomaly checks\<close>

subsection \<open>The handlers on windows of numbers\<close>

lemma foldl_plus_numbers:
  "foldl (js_plus B) (Number a) (map Number ns) = Number (foldl js_add a ns)"
  by (induction ns arbitrary: a) (simp_all add: js_plus_Number)

lemma foldl_sq_numbers:
  "foldl (sq_step B m) a (map Number ns) = foldl js_add a (map (\<lambda>x. js_pow2 (js_sub x m)) ns)"
  by (induction ns arbitrary: a) (simp_all add: sq_step_def)

text \<open>
  On a window of at least two numbers and a reading that is a number, each handler
  computes the z-score of the reading in binary64 and returns the score and the flag it
  derives from it; it emits its signal exactly when the flag is set.
\<close>

lemma temperature_zscore:
  assumes "history ctx ''temperature'' = Inr (map Number ns)"
    and "get (field ctx ''readings'') ''temperature'' = Inr (Number r)"
    and "2 \<le> length ns"
  shows "CheckTemperatureAnomaly B ctx =
     Inr (if js_gt (spec_zscore64 r ns) (Fin 2)
          then [\<lparr>name = ''anomaly.temperature_spike'',
                 payload = [(''deviceId'', field ctx ''deviceId''),
                            (''zScore'', Number (spec_zscore64 r ns)),
                            (''score'', Number (js_min (js_div (spec_zscore64 r ns) (Fin 3)) (Fin 1)))],
                 targetServices = None\<rparr>]
          else [],
          [(''score'', Number (js_min (js_div (spec_zscore64 r ns) (Fin 3)) (Fin 1))),
           (''anomalous'', Bool (js_gt (spec_zscore64 r ns) (Fin 2))),
           (''reason'', Str (if js_gt (spec_zscore64 r ns) (Fin 2)
                             then ''Z-score '' @ toFixed B 2 (spec_zscore64 r ns) @ '' exceeds threshold''
                             else ''Normal'')),
           (''metric'', Str ''temperature'')])"
proof -
  have len: "\<not> length ns < 2" using assms(3) by simp
  show ?thesis
    by (simp only: CheckTemperatureAnomaly_def assms(1,2) bindE_Inr Let_def length_map len if_False
        foldl_plus_numbers foldl_sq_numbers to_number.simps
        spec_zscore64_def spec_std_dev64_def spec_mean64_def spec_sum64_def)
qed

lemma humidity_zscore:
  assumes "history ctx ''humidity'' = Inr (map Number ns)"
    and "get (field ctx ''readings'') ''humidity'' = Inr (Number r)"
    and "2 \<le> length ns"
  shows "CheckHumidityAnomaly B ctx =
     Inr (if js_gt (spec_zscore64 r ns) (Fin 2)
          then [\<lparr>name = ''anomaly.humidity_spike'',
                 payload = [(''deviceId'', field ctx ''deviceId''),
                            (''zScore'', Number (spec_zscore64 r ns)),
                            (''score'', Number (js_min (js_div (spec_zscore64 r ns) (Fin 3)) (Fin 1)))],
                 targetServices = None\<rparr>]
          else [],
          [(''score'', Number (js_min (js_div (spec_zscore64 r ns) (Fin 3)) (Fin 1))),
           (''anomalous'', Bool (js_gt (spec_zscore64 r ns) (Fin 2))),
           (''reason'', Str (if js_gt (spec_zscore64 r ns) (Fin 2)
                             then ''Z-score '' @ toFixed B 2 (spec_zscore64 r ns) @ '' exceeds threshold''
                             else ''Normal'')),
           (''metric'', Str ''humidity'')])"
proof -
  have len: "\<not> length ns < 2" using assms(3) by simp
  show ?thesis
    by (simp only: CheckHumidityAnomaly_def assms(1,2) bindE_Inr Let_def length_map len if_False
        foldl_plus_numbers foldl_sq_numbers to_number.simps
        spec_zscore64_def spec_std_dev64_def spec_mean64_def spec_sum64_def)
qed

subsection \<open>The arithmetic of the examples\<close>

text \<open>
  The rounding steps of the handlers on the windows of the examples, one fact for each
  operation: the window 48, 50, 52, 49, 51 with the reading 80; the window 4, 4, 4, 4, 7
  with the reading 7; the window 1, 3 with the reading 10; the constant window with the
  readings 20 and 50.
\<close>

lemma spec_window_eval:
  shows "spec_std_dev64 [Fin 48, Fin 50, Fin 52, Fin 49, Fin 51] = Fin (6369051672525773 / 2 ^ 52)"
    and "spec_zscore64 (Fin 80) [Fin 48, Fin 50, Fin 52, Fin 49, Fin 51] = Fin (5970985942992911 / 2 ^ 48)"
    and "js_min (js_div (Fin (5970985942992911 / 2 ^ 48)) (Fin 3)) (Fin 1) = Fin 1"
    and "js_gt (Fin (5970985942992911 / 2 ^ 48)) (Fin 2) = True"
proof -
  have len: "real (length [Fin 48, Fin 50, Fin 52, Fin 49, Fin 51]) = 5"
    by simp
  have s1: "js_add (Fin 0) (Fin 48) = Fin 48"
    using round64_near [of "0 + 48" 47 "6755399441055744"] by simp
  have s2: "js_add (Fin 48) (Fin 50) = Fin 98"
    using round64_near [of "48 + 50" 46 "6896136929411072"] by simp
  have s3: "js_add (Fin 98) (Fin 52) = Fin 150"
    using round64_near [of "98 + 52" 45 "5277655813324800"] by simp
  have s4: "js_add (Fin 150) (Fin 49) = Fin 199"
    using round64_near [of "150 + 49" 45 "7001690045677568"] by simp
  have s5: "js_add (Fin 199) (Fin 51) = Fin 250"
    using round64_near [of "199 + 51" 45 "8796093022208000"] by simp
  have s6: "js_div (Fin 250) (Fin 5) = Fin 50"
    using round64_near [of "250 / 5" 47 "7036874417766400"] by simp
  have s7: "js_add (Fin 48) (Fin (- 50)) = Fin (- 2)"
    using round64_near [of "48 + (- 50)" 51 "- 4503599627370496"] by simp
  have s8: "js_pow2 (Fin (- 2)) = Fin 4"
    using round64_near [of "(- 2) * (- 2)" 50 "4503599627370496"] by (simp add: power2_eq_square)
  have s9: "js_add (Fin 0) (Fin 4) = Fin 4"
    using round64_near [of "0 + 4" 50 "4503599627370496"] by simp
  have s10: "js_add (Fin 50) (Fin (- 50)) = Fin 0"
    by simp
  have s11: "js_pow2 (Fin 0) = Fin 0"
    by simp
  have s12: "js_add (Fin 4) (Fin 0) = Fin 4"
    using round64_near [of "4 + 0" 50 "4503599627370496"] by simp
  have s13: "js_add (Fin 52) (Fin (- 50)) = Fin 2"
    using round64_near [of "52 + (- 50)" 51 "4503599627370496"] by simp
  have s14: "js_pow2 (Fin 2) = Fin 4"
    using round64_near [of "2 * 2" 50 "4503599627370496"] by (simp add: power2_eq_square)
  have s15: "js_add (Fin 4) (Fin 4) = Fin 8"
    using round64_near [of "4 + 4" 49 "4503599627370496"] by simp
  have s16: "js_add (Fin 49) (Fin (- 50)) = Fin (- 1)"
    using round64_near [of "49 + (- 50)" 52 "- 4503599627370496"] by simp
  have s17: "js_pow2 (Fin (- 1)) = Fin 1"
    using round64_near [of "(- 1) * (- 1)" 52 "4503599627370496"] by (simp add: power2_eq_square)
  have s18: "js_add (Fin 8) (Fin 1) = Fin 9"
    using round64_near [of "8 + 1" 49 "5066549580791808"] by simp
  have s19: "js_add (Fin 51) (Fin (- 50)) = Fin 1"
    using round64_near [of "51 + (- 50)" 52 "4503599627370496"] by simp
  have s20: "js_pow2 (Fin 1) = Fin 1"
    using round64_near [of "1 * 1" 52 "4503599627370496"] by (simp add: power2_eq_square)
  have s21: "js_add (Fin 9) (Fin 1) = Fin 10"
    using round64_near [of "9 + 1" 49 "5629499534213120"] by simp
  have s22: "js_div (Fin 10) (Fin 5) = Fin 2"
    using round64_near [of "10 / 5" 51 "4503599627370496"] by simp
  have s23: "js_sqrt (Fin 2) = Fin (6369051672525773 / 2 ^ 52)"
    using round64_sqrt_near [of "6369051672525773" 52 "2"] by simp
  have s24: "js_add (Fin 80) (Fin (- 50)) = Fin 30"
    using round64_near [of "80 + (- 50)" 48 "8444249301319680"] by simp
  have s25: "js_div (Fin 30) (Fin (6369051672525773 / 2 ^ 52)) = Fin (5970985942992911 / 2 ^ 48)"
    using round64_near [of "30 / (6369051672525773 / 2 ^ 52)" 48 "5970985942992911"] by simp
  have s26: "js_abs (Fin (5970985942992911 / 2 ^ 48)) = Fin (5970985942992911 / 2 ^ 48)"
    by simp
  have s27: "js_div (Fin (5970985942992911 / 2 ^ 48)) (Fin 3) = Fin (7961314590657215 / 2 ^ 50)"
    using round64_near [of "(5970985942992911 / 2 ^ 48) / 3" 50 "7961314590657215"] by simp
  have s28: "js_min (Fin (7961314590657215 / 2 ^ 50)) (Fin 1) = Fin 1"
    by simp
  have s29: "js_gt (Fin (5970985942992911 / 2 ^ 48)) (Fin 2) = True"
    by simp
  show "spec_std_dev64 [Fin 48, Fin 50, Fin 52, Fin 49, Fin 51] = Fin (6369051672525773 / 2 ^ 52)"
    by (simp only: spec_zscore64_def spec_std_dev64_def spec_mean64_def spec_sum64_def list.map
        foldl.simps len js_sub_def js_neg.simps s1 s2 s3 s4 s5 s6 s7 s8 s9 s10 s11 s12 s13 s14 s15
        s16 s17 s18 s19 s20 s21 s22 s23 s24 s25 s26 s27 s28 s29)
  show "spec_zscore64 (Fin 80) [Fin 48, Fin 50, Fin 52, Fin 49, Fin 51] = Fin (5970985942992911 / 2 ^ 48)"
    by (simp only: spec_zscore64_def spec_std_dev64_def spec_mean64_def spec_sum64_def list.map
        foldl.simps len js_sub_def js_neg.simps s1 s2 s3 s4 s5 s6 s7 s8 s9 s10 s11 s12 s13 s14 s15
        s16 s17 s18 s19 s20 s21 s22 s23 s24 s25 s26 s27 s28 s29)
  show "js_min (js_div (Fin (5970985942992911 / 2 ^ 48)) (Fin 3)) (Fin 1) = Fin 1"
    by (simp only: s1 s2 s3 s4 s5 s6 s7 s8 s9 s10 s11 s12 s13 s14 s15 s16 s17 s18 s19 s20 s21 s22
        s23 s24 s25 s26 s27 s28 s29)
  show "js_gt (Fin (5970985942992911 / 2 ^ 48)) (Fin 2) = True"
    by (simp only: s1 s2 s3 s4 s5 s6 s7 s8 s9 s10 s11 s12 s13 s14 s15 s16 s17 s18 s19 s20 s21 s22
        s23 s24 s25 s26 s27 s28 s29)
qed

lemma rounding_window_eval:
  shows "spec_std_dev64 [Fin 4, Fin 4, Fin 4, Fin 4, Fin 7] = Fin (5404319552844595 / 2 ^ 52)"
    and "spec_zscore64 (Fin 7) [Fin 4, Fin 4, Fin 4, Fin 4, Fin 7] = Fin (4503599627370497 / 2 ^ 51)"
    and "js_min (js_div (Fin (4503599627370497 / 2 ^ 51)) (Fin 3)) (Fin 1) = Fin (6004799503160663 / 2 ^ 53)"
    and "js_gt (Fin (4503599627370497 / 2 ^ 51)) (Fin 2) = True"
proof -
  have len: "real (length [Fin 4, Fin 4, Fin 4, Fin 4, Fin 7]) = 5"
    by simp
  have s1: "js_add (Fin 0) (Fin 4) = Fin 4"
    using round64_near [of "0 + 4" 50 "4503599627370496"] by simp
  have s2: "js_add (Fin 4) (Fin 4) = Fin 8"
    using round64_near [of "4 + 4" 49 "4503599627370496"] by simp
  have s3: "js_add (Fin 8) (Fin 4) = Fin 12"
    using round64_near [of "8 + 4" 49 "6755399441055744"] by simp
  have s4: "js_add (Fin 12) (Fin 4) = Fin 16"
    using round64_near [of "12 + 4" 48 "4503599627370496"] by simp
  have s5: "js_add (Fin 16) (Fin 7) = Fin 23"
    using round64_near [of "16 + 7" 48 "6473924464345088"] by simp
  have s6: "js_div (Fin 23) (Fin 5) = Fin (2589569785738035 / 2 ^ 49)"
    using round64_near [of "23 / 5" 50 "5179139571476070"] by simp
  have s7: "js_add (Fin 4) (Fin (- (2589569785738035 / 2 ^ 49))) = Fin (- (337769972052787 / 2 ^
      49))"
    using round64_near [of "4 + (- (2589569785738035 / 2 ^ 49))" 53 "- 5404319552844592"] by simp
  have s8: "js_pow2 (Fin (- (337769972052787 / 2 ^ 49))) = Fin (6485183463413507 / 2 ^ 54)"
    using round64_near [of "(- (337769972052787 / 2 ^ 49)) * (- (337769972052787 / 2 ^ 49))" 54
        "6485183463413507"] by (simp add: power2_eq_square)
  have s9: "js_add (Fin 0) (Fin (6485183463413507 / 2 ^ 54)) = Fin (6485183463413507 / 2 ^ 54)"
    using round64_near [of "0 + (6485183463413507 / 2 ^ 54)" 54 "6485183463413507"] by simp
  have s10: "js_add (Fin (6485183463413507 / 2 ^ 54)) (Fin (6485183463413507 / 2 ^ 54)) = Fin
      (6485183463413507 / 2 ^ 53)"
    using round64_near [of "(6485183463413507 / 2 ^ 54) + (6485183463413507 / 2 ^ 54)" 53
        "6485183463413507"] by simp
  have s11: "js_add (Fin (6485183463413507 / 2 ^ 53)) (Fin (6485183463413507 / 2 ^ 54)) = Fin
      (2431943798780065 / 2 ^ 51)"
    using round64_near [of "(6485183463413507 / 2 ^ 53) + (6485183463413507 / 2 ^ 54)" 52
        "4863887597560130"] by simp
  have s12: "js_add (Fin (2431943798780065 / 2 ^ 51)) (Fin (6485183463413507 / 2 ^ 54)) = Fin
      (6485183463413507 / 2 ^ 52)"
    using round64_near [of "(2431943798780065 / 2 ^ 51) + (6485183463413507 / 2 ^ 54)" 52
        "6485183463413507"] by simp
  have s13: "js_add (Fin 7) (Fin (- (2589569785738035 / 2 ^ 49))) = Fin (1351079888211149 / 2 ^ 49)"
    using round64_near [of "7 + (- (2589569785738035 / 2 ^ 49))" 51 "5404319552844596"] by simp
  have s14: "js_pow2 (Fin (1351079888211149 / 2 ^ 49)) = Fin (1621295865853379 / 2 ^ 48)"
    using round64_near [of "(1351079888211149 / 2 ^ 49) * (1351079888211149 / 2 ^ 49)" 50
        "6485183463413516"] by (simp add: power2_eq_square)
  have s15: "js_add (Fin (6485183463413507 / 2 ^ 52)) (Fin (1621295865853379 / 2 ^ 48)) = Fin
      (8106479329266893 / 2 ^ 50)"
    using round64_near [of "(6485183463413507 / 2 ^ 52) + (1621295865853379 / 2 ^ 48)" 50
        "8106479329266893"] by simp
  have s16: "js_div (Fin (8106479329266893 / 2 ^ 50)) (Fin 5) = Fin (3242591731706757 / 2 ^ 51)"
    using round64_near [of "(8106479329266893 / 2 ^ 50) / 5" 52 "6485183463413514"] by simp
  have s17: "js_sqrt (Fin (3242591731706757 / 2 ^ 51)) = Fin (5404319552844595 / 2 ^ 52)"
    using round64_sqrt_near [of "5404319552844595" 52 "(3242591731706757 / 2 ^ 51)"] by simp
  have s18: "js_div (Fin (1351079888211149 / 2 ^ 49)) (Fin (5404319552844595 / 2 ^ 52)) = Fin
      (4503599627370497 / 2 ^ 51)"
    using round64_near [of "(1351079888211149 / 2 ^ 49) / (5404319552844595 / 2 ^ 52)" 51
        "4503599627370497"] by simp
  have s19: "js_abs (Fin (4503599627370497 / 2 ^ 51)) = Fin (4503599627370497 / 2 ^ 51)"
    by simp
  have s20: "js_div (Fin (4503599627370497 / 2 ^ 51)) (Fin 3) = Fin (6004799503160663 / 2 ^ 53)"
    using round64_near [of "(4503599627370497 / 2 ^ 51) / 3" 53 "6004799503160663"] by simp
  have s21: "js_min (Fin (6004799503160663 / 2 ^ 53)) (Fin 1) = Fin (6004799503160663 / 2 ^ 53)"
    by simp
  have s22: "js_gt (Fin (4503599627370497 / 2 ^ 51)) (Fin 2) = True"
    by simp
  show "spec_std_dev64 [Fin 4, Fin 4, Fin 4, Fin 4, Fin 7] = Fin (5404319552844595 / 2 ^ 52)"
    by (simp only: spec_zscore64_def spec_std_dev64_def spec_mean64_def spec_sum64_def list.map
        foldl.simps len js_sub_def js_neg.simps s1 s2 s3 s4 s5 s6 s7 s8 s9 s10 s11 s12 s13 s14 s15
        s16 s17 s18 s19 s20 s21 s22)
  show "spec_zscore64 (Fin 7) [Fin 4, Fin 4, Fin 4, Fin 4, Fin 7] = Fin (4503599627370497 / 2 ^ 51)"
    by (simp only: spec_zscore64_def spec_std_dev64_def spec_mean64_def spec_sum64_def list.map
        foldl.simps len js_sub_def js_neg.simps s1 s2 s3 s4 s5 s6 s7 s8 s9 s10 s11 s12 s13 s14 s15
        s16 s17 s18 s19 s20 s21 s22)
  show "js_min (js_div (Fin (4503599627370497 / 2 ^ 51)) (Fin 3)) (Fin 1) = Fin (6004799503160663 / 2 ^ 53)"
    by (simp only: s1 s2 s3 s4 s5 s6 s7 s8 s9 s10 s11 s12 s13 s14 s15 s16 s17 s18 s19 s20 s21 s22)
  show "js_gt (Fin (4503599627370497 / 2 ^ 51)) (Fin 2) = True"
    by (simp only: s1 s2 s3 s4 s5 s6 s7 s8 s9 s10 s11 s12 s13 s14 s15 s16 s17 s18 s19 s20 s21 s22)
qed

lemma fan_in_eval:
  shows "spec_std_dev64 [Fin 1, Fin 3] = Fin 1"
    and "spec_zscore64 (Fin 10) [Fin 1, Fin 3] = Fin 8"
    and "js_min (js_div (Fin 8) (Fin 3)) (Fin 1) = Fin 1"
    and "js_gt (Fin 8) (Fin 2) = True"
proof -
  have len: "real (length [Fin 1, Fin 3]) = 2"
    by simp
  have s1: "js_add (Fin 0) (Fin 1) = Fin 1"
    using round64_near [of "0 + 1" 52 "4503599627370496"] by simp
  have s2: "js_add (Fin 1) (Fin 3) = Fin 4"
    using round64_near [of "1 + 3" 50 "4503599627370496"] by simp
  have s3: "js_div (Fin 4) (Fin 2) = Fin 2"
    using round64_near [of "4 / 2" 51 "4503599627370496"] by simp
  have s4: "js_add (Fin 1) (Fin (- 2)) = Fin (- 1)"
    using round64_near [of "1 + (- 2)" 52 "- 4503599627370496"] by simp
  have s5: "js_pow2 (Fin (- 1)) = Fin 1"
    using round64_near [of "(- 1) * (- 1)" 52 "4503599627370496"] by (simp add: power2_eq_square)
  have s6: "js_add (Fin 3) (Fin (- 2)) = Fin 1"
    using round64_near [of "3 + (- 2)" 52 "4503599627370496"] by simp
  have s7: "js_pow2 (Fin 1) = Fin 1"
    using round64_near [of "1 * 1" 52 "4503599627370496"] by (simp add: power2_eq_square)
  have s8: "js_add (Fin 1) (Fin 1) = Fin 2"
    using round64_near [of "1 + 1" 51 "4503599627370496"] by simp
  have s9: "js_div (Fin 2) (Fin 2) = Fin 1"
    using round64_near [of "2 / 2" 52 "4503599627370496"] by simp
  have s10: "js_sqrt (Fin 1) = Fin 1"
    by simp
  have s11: "js_add (Fin 10) (Fin (- 2)) = Fin 8"
    using round64_near [of "10 + (- 2)" 49 "4503599627370496"] by simp
  have s12: "js_div (Fin 8) (Fin 1) = Fin 8"
    using round64_near [of "8 / 1" 49 "4503599627370496"] by simp
  have s13: "js_abs (Fin 8) = Fin 8"
    by simp
  have s14: "js_div (Fin 8) (Fin 3) = Fin (6004799503160661 / 2 ^ 51)"
    using round64_near [of "8 / 3" 51 "6004799503160661"] by simp
  have s15: "js_min (Fin (6004799503160661 / 2 ^ 51)) (Fin 1) = Fin 1"
    by simp
  have s16: "js_gt (Fin 8) (Fin 2) = True"
    by simp
  show "spec_std_dev64 [Fin 1, Fin 3] = Fin 1"
    by (simp only: spec_zscore64_def spec_std_dev64_def spec_mean64_def spec_sum64_def list.map
        foldl.simps len js_sub_def js_neg.simps s1 s2 s3 s4 s5 s6 s7 s8 s9 s10 s11 s12 s13 s14 s15
        s16)
  show "spec_zscore64 (Fin 10) [Fin 1, Fin 3] = Fin 8"
    by (simp only: spec_zscore64_def spec_std_dev64_def spec_mean64_def spec_sum64_def list.map
        foldl.simps len js_sub_def js_neg.simps s1 s2 s3 s4 s5 s6 s7 s8 s9 s10 s11 s12 s13 s14 s15
        s16)
  show "js_min (js_div (Fin 8) (Fin 3)) (Fin 1) = Fin 1"
    by (simp only: s1 s2 s3 s4 s5 s6 s7 s8 s9 s10 s11 s12 s13 s14 s15 s16)
  show "js_gt (Fin 8) (Fin 2) = True"
    by (simp only: s1 s2 s3 s4 s5 s6 s7 s8 s9 s10 s11 s12 s13 s14 s15 s16)
qed

lemma constant_window_eval_20:
  shows "spec_std_dev64 [Fin 20, Fin 20, Fin 20, Fin 20, Fin 20] = Fin 0"
    and "spec_zscore64 (Fin 20) [Fin 20, Fin 20, Fin 20, Fin 20, Fin 20] = NaN"
    and "js_min (js_div NaN (Fin 3)) (Fin 1) = NaN"
    and "js_gt NaN (Fin 2) = False"
proof -
  have len: "real (length [Fin 20, Fin 20, Fin 20, Fin 20, Fin 20]) = 5"
    by simp
  have s1: "js_add (Fin 0) (Fin 20) = Fin 20"
    using round64_near [of "0 + 20" 48 "5629499534213120"] by simp
  have s2: "js_add (Fin 20) (Fin 20) = Fin 40"
    using round64_near [of "20 + 20" 47 "5629499534213120"] by simp
  have s3: "js_add (Fin 40) (Fin 20) = Fin 60"
    using round64_near [of "40 + 20" 47 "8444249301319680"] by simp
  have s4: "js_add (Fin 60) (Fin 20) = Fin 80"
    using round64_near [of "60 + 20" 46 "5629499534213120"] by simp
  have s5: "js_add (Fin 80) (Fin 20) = Fin 100"
    using round64_near [of "80 + 20" 46 "7036874417766400"] by simp
  have s6: "js_div (Fin 100) (Fin 5) = Fin 20"
    using round64_near [of "100 / 5" 48 "5629499534213120"] by simp
  have s7: "js_add (Fin 20) (Fin (- 20)) = Fin 0"
    by simp
  have s8: "js_pow2 (Fin 0) = Fin 0"
    by simp
  have s9: "js_add (Fin 0) (Fin 0) = Fin 0"
    by simp
  have s10: "js_div (Fin 0) (Fin 5) = Fin 0"
    by simp
  have s11: "js_sqrt (Fin 0) = Fin 0"
    by simp
  have s12: "js_div (Fin 0) (Fin 0) = NaN"
    by simp
  have s13: "js_abs NaN = NaN"
    by simp
  show "spec_std_dev64 [Fin 20, Fin 20, Fin 20, Fin 20, Fin 20] = Fin 0"
    by (simp only: spec_zscore64_def spec_std_dev64_def spec_mean64_def spec_sum64_def list.map
        foldl.simps len js_sub_def js_neg.simps s1 s2 s3 s4 s5 s6 s7 s8 s9 s10 s11 s12 s13)
  show "spec_zscore64 (Fin 20) [Fin 20, Fin 20, Fin 20, Fin 20, Fin 20] = NaN"
    by (simp only: spec_zscore64_def spec_std_dev64_def spec_mean64_def spec_sum64_def list.map
        foldl.simps len js_sub_def js_neg.simps s1 s2 s3 s4 s5 s6 s7 s8 s9 s10 s11 s12 s13)
  show "js_min (js_div NaN (Fin 3)) (Fin 1) = NaN"
    by simp
  show "js_gt NaN (Fin 2) = False"
    by simp
qed

lemma constant_window_eval_50:
  shows "spec_std_dev64 [Fin 20, Fin 20, Fin 20, Fin 20, Fin 20] = Fin 0"
    and "spec_zscore64 (Fin 50) [Fin 20, Fin 20, Fin 20, Fin 20, Fin 20] = PInf"
    and "js_min (js_div PInf (Fin 3)) (Fin 1) = Fin 1"
    and "js_gt PInf (Fin 2) = True"
proof -
  have len: "real (length [Fin 20, Fin 20, Fin 20, Fin 20, Fin 20]) = 5"
    by simp
  have s1: "js_add (Fin 0) (Fin 20) = Fin 20"
    using round64_near [of "0 + 20" 48 "5629499534213120"] by simp
  have s2: "js_add (Fin 20) (Fin 20) = Fin 40"
    using round64_near [of "20 + 20" 47 "5629499534213120"] by simp
  have s3: "js_add (Fin 40) (Fin 20) = Fin 60"
    using round64_near [of "40 + 20" 47 "8444249301319680"] by simp
  have s4: "js_add (Fin 60) (Fin 20) = Fin 80"
    using round64_near [of "60 + 20" 46 "5629499534213120"] by simp
  have s5: "js_add (Fin 80) (Fin 20) = Fin 100"
    using round64_near [of "80 + 20" 46 "7036874417766400"] by simp
  have s6: "js_div (Fin 100) (Fin 5) = Fin 20"
    using round64_near [of "100 / 5" 48 "5629499534213120"] by simp
  have s7: "js_add (Fin 20) (Fin (- 20)) = Fin 0"
    by simp
  have s8: "js_pow2 (Fin 0) = Fin 0"
    by simp
  have s9: "js_add (Fin 0) (Fin 0) = Fin 0"
    by simp
  have s10: "js_div (Fin 0) (Fin 5) = Fin 0"
    by simp
  have s11: "js_sqrt (Fin 0) = Fin 0"
    by simp
  have s12: "js_add (Fin 50) (Fin (- 20)) = Fin 30"
    using round64_near [of "50 + (- 20)" 48 "8444249301319680"] by simp
  have s13: "js_div (Fin 30) (Fin 0) = PInf"
    by simp
  have s14: "js_abs PInf = PInf"
    by simp
  show "spec_std_dev64 [Fin 20, Fin 20, Fin 20, Fin 20, Fin 20] = Fin 0"
    by (simp only: spec_zscore64_def spec_std_dev64_def spec_mean64_def spec_sum64_def list.map
        foldl.simps len js_sub_def js_neg.simps s1 s2 s3 s4 s5 s6 s7 s8 s9 s10 s11 s12 s13 s14)
  show "spec_zscore64 (Fin 50) [Fin 20, Fin 20, Fin 20, Fin 20, Fin 20] = PInf"
    by (simp only: spec_zscore64_def spec_std_dev64_def spec_mean64_def spec_sum64_def list.map
        foldl.simps len js_sub_def js_neg.simps s1 s2 s3 s4 s5 s6 s7 s8 s9 s10 s11 s12 s13 s14)
  show "js_min (js_div PInf (Fin 3)) (Fin 1) = Fin 1"
    by simp
  show "js_gt PInf (Fin 2) = True"
    by simp
qed

lemma example_fields:
  "history spec_window_ctx ''temperature'' = Inr (map Number [Fin 48, Fin 50, Fin 52, Fin 49, Fin 51])"
  "history spec_window_ctx ''humidity'' = Inr (map Number [Fin 48, Fin 50, Fin 52, Fin 49, Fin 51])"
  "get (field spec_window_ctx ''readings'') ''temperature'' = Inr (Number (Fin 80))"
  "get (field spec_window_ctx ''readings'') ''humidity'' = Inr (Number (Fin 80))"
  "history rounding_window_ctx ''temperature'' = Inr (map Number [Fin 4, Fin 4, Fin 4, Fin 4, Fin 7])"
  "history rounding_window_ctx ''humidity'' = Inr (map Number [Fin 4, Fin 4, Fin 4, Fin 4, Fin 7])"
  "get (field rounding_window_ctx ''readings'') ''temperature'' = Inr (Number (Fin 7))"
  "get (field rounding_window_ctx ''readings'') ''humidity'' = Inr (Number (Fin 7))"
  "field rounding_window_ctx ''deviceId'' = Str ''device-1''"
  by (simp_all add: history_def spec_window_ctx_def rounding_window_ctx_def telemetry_row_def)

lemma five_samples: "2 \<le> length [a, b, c, d, e]"
  by simp

subsection \<open>Windows with a deviation that is not zero\<close>

text \<open>
  C3, as amended. For a window of at least two numbers whose deviation, as computed, is
  not zero, and a reading that is a number, each handler returns the score
  \<open>min (z / 3) 1\<close> and the flag \<open>z > 2\<close>, where the z-score \<open>z = |r - m| / s\<close>, the mean \<open>m\<close>
  and the population standard deviation \<open>s\<close> are computed in binary64, each operation
  rounded.
\<close>

theorem zscore_check:
  "(history ctx ''temperature'' = Inr (map Number wt) \<and>
    get (field ctx ''readings'') ''temperature'' = Inr (Number rt) \<and>
    2 \<le> length wt \<and> spec_std_dev64 wt \<noteq> Fin 0 \<longrightarrow>
      (\<exists>sigs rsn. CheckTemperatureAnomaly B ctx =
         Inr (sigs, [(''score'', Number (js_min (js_div (spec_zscore64 rt wt) (Fin 3)) (Fin 1))),
                     (''anomalous'', Bool (js_gt (spec_zscore64 rt wt) (Fin 2))),
                     (''reason'', Str rsn),
                     (''metric'', Str ''temperature'')]))) \<and>
   (history ctx ''humidity'' = Inr (map Number wh) \<and>
    get (field ctx ''readings'') ''humidity'' = Inr (Number rh) \<and>
    2 \<le> length wh \<and> spec_std_dev64 wh \<noteq> Fin 0 \<longrightarrow>
      (\<exists>sigs rsn. CheckHumidityAnomaly B ctx =
         Inr (sigs, [(''score'', Number (js_min (js_div (spec_zscore64 rh wh) (Fin 3)) (Fin 1))),
                     (''anomalous'', Bool (js_gt (spec_zscore64 rh wh) (Fin 2))),
                     (''reason'', Str rsn),
                     (''metric'', Str ''humidity'')])))"
proof (intro conjI impI)
  assume "history ctx ''temperature'' = Inr (map Number wt) \<and>
    get (field ctx ''readings'') ''temperature'' = Inr (Number rt) \<and>
    2 \<le> length wt \<and> spec_std_dev64 wt \<noteq> Fin 0"
  then have h: "history ctx ''temperature'' = Inr (map Number wt)"
    "get (field ctx ''readings'') ''temperature'' = Inr (Number rt)" "2 \<le> length wt"
    by simp_all
  show "\<exists>sigs rsn. CheckTemperatureAnomaly B ctx =
         Inr (sigs, [(''score'', Number (js_min (js_div (spec_zscore64 rt wt) (Fin 3)) (Fin 1))),
                     (''anomalous'', Bool (js_gt (spec_zscore64 rt wt) (Fin 2))),
                     (''reason'', Str rsn),
                     (''metric'', Str ''temperature'')])"
    by (simp only: temperature_zscore [OF h]) blast
next
  assume "history ctx ''humidity'' = Inr (map Number wh) \<and>
    get (field ctx ''readings'') ''humidity'' = Inr (Number rh) \<and>
    2 \<le> length wh \<and> spec_std_dev64 wh \<noteq> Fin 0"
  then have h: "history ctx ''humidity'' = Inr (map Number wh)"
    "get (field ctx ''readings'') ''humidity'' = Inr (Number rh)" "2 \<le> length wh"
    by simp_all
  show "\<exists>sigs rsn. CheckHumidityAnomaly B ctx =
         Inr (sigs, [(''score'', Number (js_min (js_div (spec_zscore64 rh wh) (Fin 3)) (Fin 1))),
                     (''anomalous'', Bool (js_gt (spec_zscore64 rh wh) (Fin 2))),
                     (''reason'', Str rsn),
                     (''metric'', Str ''humidity'')])"
    by (simp only: humidity_zscore [OF h]) blast
qed

text \<open>
  The example of the specification: the window 48, 50, 52, 49, 51 and the reading 80 give
  the score 1 and the flag true.
\<close>

theorem zscore_check_witness:
  "\<forall>B.
     (\<exists>sigs rsn. CheckTemperatureAnomaly B spec_window_ctx =
        Inr (sigs, [(''score'', Number (Fin 1)), (''anomalous'', Bool True), (''reason'', Str rsn),
                    (''metric'', Str ''temperature'')])) \<and>
     (\<exists>sigs rsn. CheckHumidityAnomaly B spec_window_ctx =
        Inr (sigs, [(''score'', Number (Fin 1)), (''anomalous'', Bool True), (''reason'', Str rsn),
                    (''metric'', Str ''humidity'')]))"
proof
  fix B
  have sd: "spec_std_dev64 [Fin 48, Fin 50, Fin 52, Fin 49, Fin 51] \<noteq> Fin 0"
    by (simp add: spec_window_eval(1))
  have len: "2 \<le> length [Fin 48, Fin 50, Fin 52, Fin 49, Fin 51]"
    by simp
  show "(\<exists>sigs rsn. CheckTemperatureAnomaly B spec_window_ctx =
        Inr (sigs, [(''score'', Number (Fin 1)), (''anomalous'', Bool True), (''reason'', Str rsn),
                    (''metric'', Str ''temperature'')])) \<and>
     (\<exists>sigs rsn. CheckHumidityAnomaly B spec_window_ctx =
        Inr (sigs, [(''score'', Number (Fin 1)), (''anomalous'', Bool True), (''reason'', Str rsn),
                    (''metric'', Str ''humidity'')]))"
    using zscore_check [of spec_window_ctx "[Fin 48, Fin 50, Fin 52, Fin 49, Fin 51]" "Fin 80" B
        "[Fin 48, Fin 50, Fin 52, Fin 49, Fin 51]" "Fin 80"]
      example_fields(1-4) sd len
    unfolding spec_window_eval(2-4) by simp
qed

lemma rounding_window_exact:
  "spec_mean [4, 4, 4, 4, 7] = 23 / 5" "spec_std_dev [4, 4, 4, 4, 7] = 6 / 5"
proof -
  show m: "spec_mean [4, 4, 4, 4, 7] = 23 / 5"
    by (simp add: spec_mean_def)
  have "sqrt (36 / 25) = 6 / 5"
    by (rule real_sqrt_unique) (simp_all add: power2_eq_square)
  then show "spec_std_dev [4, 4, 4, 4, 7] = 6 / 5"
    by (simp add: spec_std_dev_def m power2_eq_square)
qed

text \<open>
  In exact arithmetic the window 4, 4, 4, 4, 7 has the mean 4.6 and the deviation 1.2, so
  that the reading 7 has the z-score 2, which does not exceed 2, and the score 2/3. The
  handler computes the deviation 5404319552844595 / 2 ^ 52, just below 1.2, and from it
  the z-score 2.0000000000000004: it sets the flag, emits its signal and returns a score
  above 2/3.
\<close>

theorem zscore_exact_counterexample:
  "CheckTemperatureAnomaly stub_builtins rounding_window_ctx =
     Inr ([\<lparr>name = ''anomaly.temperature_spike'',
            payload = [(''deviceId'', Str ''device-1''),
                       (''zScore'', Number (Fin (4503599627370497 / 2 ^ 51))),
                       (''score'', Number (Fin (6004799503160663 / 2 ^ 53)))],
            targetServices = None\<rparr>],
          [(''score'', Number (Fin (6004799503160663 / 2 ^ 53))), (''anomalous'', Bool True),
           (''reason'', Str (''Z-score '' @ toFixed stub_builtins 2 (Fin (4503599627370497 / 2 ^ 51))
                             @ '' exceeds threshold'')),
           (''metric'', Str ''temperature'')]) \<and>
   spec_std_dev [4, 4, 4, 4, 7] \<noteq> 0 \<and>
   \<not> 2 < \<bar>7 - spec_mean [4, 4, 4, 4, 7]\<bar> / spec_std_dev [4, 4, 4, 4, 7] \<and>
   min (\<bar>7 - spec_mean [4, 4, 4, 4, 7]\<bar> / spec_std_dev [4, 4, 4, 4, 7] / 3) 1 = 2 / 3 \<and>
   (2 / 3 :: real) < 6004799503160663 / 2 ^ 53"
proof -
  have "CheckTemperatureAnomaly stub_builtins rounding_window_ctx =
     Inr ([\<lparr>name = ''anomaly.temperature_spike'',
            payload = [(''deviceId'', Str ''device-1''),
                       (''zScore'', Number (Fin (4503599627370497 / 2 ^ 51))),
                       (''score'', Number (Fin (6004799503160663 / 2 ^ 53)))],
            targetServices = None\<rparr>],
          [(''score'', Number (Fin (6004799503160663 / 2 ^ 53))), (''anomalous'', Bool True),
           (''reason'', Str (''Z-score '' @ toFixed stub_builtins 2 (Fin (4503599627370497 / 2 ^ 51))
                             @ '' exceeds threshold'')),
           (''metric'', Str ''temperature'')])"
    by (simp only: temperature_zscore [OF example_fields(5) example_fields(7) five_samples]
        rounding_window_eval(2-4) if_True example_fields(9))
  moreover have "spec_std_dev [4, 4, 4, 4, 7] \<noteq> 0"
    by (simp add: rounding_window_exact)
  moreover have "\<not> 2 < \<bar>7 - spec_mean [4, 4, 4, 4, 7]\<bar> / spec_std_dev [4, 4, 4, 4, 7]"
    by (simp add: rounding_window_exact)
  moreover have "min (\<bar>7 - spec_mean [4, 4, 4, 4, 7]\<bar> / spec_std_dev [4, 4, 4, 4, 7] / 3) 1 = 2 / 3"
    by (simp add: rounding_window_exact)
  moreover have "(2 / 3 :: real) < 6004799503160663 / 2 ^ 53"
    by simp
  ultimately show ?thesis
    by (intro conjI)
qed

subsection \<open>Windows of fewer than two samples\<close>

text \<open>
  C4, as amended. For a window of fewer than two samples each handler returns, whatever
  the reading, the score 0, the flag false and the reason \<open>Insufficient data\<close>, written
  with a capital I; it returns before it reads the reading or divides.
\<close>

theorem insufficient_data:
  "(history ctx ''temperature'' = Inr temps \<and> length temps < 2 \<longrightarrow>
      CheckTemperatureAnomaly B ctx =
        Inr ([], [(''score'', Number (Fin 0)), (''anomalous'', Bool False),
                  (''reason'', Str ''Insufficient data'')])) \<and>
   (history ctx ''humidity'' = Inr hums \<and> length hums < 2 \<longrightarrow>
      CheckHumidityAnomaly B ctx =
        Inr ([], [(''score'', Number (Fin 0)), (''anomalous'', Bool False),
                  (''reason'', Str ''Insufficient data'')]))"
  by (simp add: CheckTemperatureAnomaly_def CheckHumidityAnomaly_def insufficient_def)

text \<open>
  A window of one sample.
\<close>

theorem insufficient_data_witness:
  "CheckTemperatureAnomaly stub_builtins short_window_ctx =
     Inr ([], [(''score'', Number (Fin 0)), (''anomalous'', Bool False),
               (''reason'', Str ''Insufficient data'')]) \<and>
   CheckHumidityAnomaly stub_builtins short_window_ctx =
     Inr ([], [(''score'', Number (Fin 0)), (''anomalous'', Bool False),
               (''reason'', Str ''Insufficient data'')])"
proof -
  have t: "history short_window_ctx ''temperature'' = Inr [Number (Fin 20)]"
    by (simp add: history_def short_window_ctx_def telemetry_row_def)
  have h: "history short_window_ctx ''humidity'' = Inr [Number (Fin 40)]"
    by (simp add: history_def short_window_ctx_def telemetry_row_def)
  show ?thesis
    using insufficient_data [of short_window_ctx "[Number (Fin 20)]" stub_builtins "[Number (Fin 40)]"] t h
    by simp
qed

text \<open>
  The reason the handler returns is not the string \<open>insufficient data\<close> of the claim.
\<close>

theorem insufficient_data_reason_counterexample:
  "CheckTemperatureAnomaly stub_builtins short_window_ctx =
     Inr ([], [(''score'', Number (Fin 0)), (''anomalous'', Bool False),
               (''reason'', Str ''Insufficient data'')]) \<and>
   Str ''Insufficient data'' \<noteq> Str ''insufficient data''"
  by (simp add: CheckTemperatureAnomaly_def insufficient_def history_def short_window_ctx_def
      telemetry_row_def)

subsection \<open>Windows of deviation zero\<close>

lemma constant_window_history:
  "history (constant_window_ctx r) ''temperature'' = Inr (map Number [Fin 20, Fin 20, Fin 20, Fin 20, Fin 20])"
  "history (constant_window_ctx r) ''humidity'' = Inr (map Number [Fin 20, Fin 20, Fin 20, Fin 20, Fin 20])"
  by (simp_all add: history_def constant_window_ctx_def telemetry_row_def)

lemma constant_window_fields:
  "get (field (constant_window_ctx r) ''readings'') ''temperature'' = Inr (Number (Fin r))"
  "get (field (constant_window_ctx r) ''readings'') ''humidity'' = Inr (Number (Fin r))"
  "field (constant_window_ctx r) ''deviceId'' = Str ''device-1''"
  by (simp_all add: constant_window_ctx_def)

lemma constant_window_exact: "spec_std_dev [20, 20, 20, 20, 20] = 0"
  by (simp add: spec_std_dev_def spec_mean_def)

text \<open>
  C5. The division by the standard deviation has no guard. On the constant window 20, 20,
  20, 20, 20, whose deviation is 0, in exact arithmetic and as computed, the reading 20
  gives 0 / 0: the score is NaN, which is not in the interval from 0 to 1. A reading that
  differs from the mean, such as 50, gives an infinite z-score, and then the score 1.
\<close>

theorem constant_window_unguarded:
  "spec_std_dev [20, 20, 20, 20, 20] = 0 \<and>
   spec_std_dev64 [Fin 20, Fin 20, Fin 20, Fin 20, Fin 20] = Fin 0 \<and>
   CheckTemperatureAnomaly B (constant_window_ctx 20) =
     Inr ([], [(''score'', Number NaN), (''anomalous'', Bool False), (''reason'', Str ''Normal''),
               (''metric'', Str ''temperature'')]) \<and>
   CheckHumidityAnomaly B (constant_window_ctx 20) =
     Inr ([], [(''score'', Number NaN), (''anomalous'', Bool False), (''reason'', Str ''Normal''),
               (''metric'', Str ''humidity'')]) \<and>
   CheckTemperatureAnomaly B (constant_window_ctx 50) =
     Inr ([\<lparr>name = ''anomaly.temperature_spike'',
            payload = [(''deviceId'', Str ''device-1''), (''zScore'', Number PInf),
                       (''score'', Number (Fin 1))],
            targetServices = None\<rparr>],
          [(''score'', Number (Fin 1)), (''anomalous'', Bool True),
           (''reason'', Str (''Z-score '' @ toFixed B 2 PInf @ '' exceeds threshold'')),
           (''metric'', Str ''temperature'')])"
proof (intro conjI)
  show "spec_std_dev [20, 20, 20, 20, 20] = 0"
    by (rule constant_window_exact)
  show "spec_std_dev64 [Fin 20, Fin 20, Fin 20, Fin 20, Fin 20] = Fin 0"
    by (rule constant_window_eval_20(1))
  show "CheckTemperatureAnomaly B (constant_window_ctx 20) =
     Inr ([], [(''score'', Number NaN), (''anomalous'', Bool False), (''reason'', Str ''Normal''),
               (''metric'', Str ''temperature'')])"
    by (simp only: temperature_zscore [OF constant_window_history(1) constant_window_fields(1)
        five_samples]
        constant_window_eval_20(2-4) if_False)
  show "CheckHumidityAnomaly B (constant_window_ctx 20) =
     Inr ([], [(''score'', Number NaN), (''anomalous'', Bool False), (''reason'', Str ''Normal''),
               (''metric'', Str ''humidity'')])"
    by (simp only: humidity_zscore [OF constant_window_history(2) constant_window_fields(2)
        five_samples]
        constant_window_eval_20(2-4) if_False)
  show "CheckTemperatureAnomaly B (constant_window_ctx 50) =
     Inr ([\<lparr>name = ''anomaly.temperature_spike'',
            payload = [(''deviceId'', Str ''device-1''), (''zScore'', Number PInf),
                       (''score'', Number (Fin 1))],
            targetServices = None\<rparr>],
          [(''score'', Number (Fin 1)), (''anomalous'', Bool True),
           (''reason'', Str (''Z-score '' @ toFixed B 2 PInf @ '' exceeds threshold'')),
           (''metric'', Str ''temperature'')])"
    by (simp only: temperature_zscore [OF constant_window_history(1) constant_window_fields(1)
        five_samples]
        constant_window_eval_50(2-4) if_True constant_window_fields(3))
qed

subsection \<open>The returned object\<close>

lemma temperature_result_keys:
  assumes "history ctx ''temperature'' = Inr temps" and "2 \<le> length temps"
    and "get (field ctx ''readings'') ''temperature'' = Inr rv"
  shows "\<exists>sigs out. CheckTemperatureAnomaly B ctx = Inr (sigs, out) \<and>
           map fst out = [''score'', ''anomalous'', ''reason'', ''metric'']"
proof -
  have len: "\<not> length temps < 2" using assms(2) by simp
  show ?thesis
    by (simp only: CheckTemperatureAnomaly_def assms(1,3) bindE_Inr Let_def len if_False) simp
qed

lemma humidity_result_keys:
  assumes "history ctx ''humidity'' = Inr hums" and "2 \<le> length hums"
    and "get (field ctx ''readings'') ''humidity'' = Inr rv"
  shows "\<exists>sigs out. CheckHumidityAnomaly B ctx = Inr (sigs, out) \<and>
           map fst out = [''score'', ''anomalous'', ''reason'', ''metric'']"
proof -
  have len: "\<not> length hums < 2" using assms(2) by simp
  show ?thesis
    by (simp only: CheckHumidityAnomaly_def assms(1,3) bindE_Inr Let_def len if_False) simp
qed

text \<open>
  C10. On a context with at least two samples each handler returns an object with the
  keys \<open>score\<close>, \<open>anomalous\<close>, \<open>reason\<close> and \<open>metric\<close> and no other: none of \<open>deviceId\<close>,
  \<open>readings\<close> and \<open>telemetrys\<close> is kept, and neither \<open>temperatureAnomaly\<close> nor
  \<open>humidityAnomaly\<close>, the keys that \<open>MergeAnomalyResults\<close> reads, is set. The samples and
  the reading may be values of any kind.
\<close>

theorem result_keys:
  "(long_window ctx ''temperature'' \<longrightarrow>
      (\<exists>sigs out. CheckTemperatureAnomaly B ctx = Inr (sigs, out) \<and>
         map fst out = [''score'', ''anomalous'', ''reason'', ''metric''] \<and>
         field out ''deviceId'' = Undefined \<and> field out ''readings'' = Undefined \<and>
         field out ''telemetrys'' = Undefined \<and>
         field out ''temperatureAnomaly'' = Undefined \<and> field out ''humidityAnomaly'' = Undefined)) \<and>
   (long_window ctx ''humidity'' \<longrightarrow>
      (\<exists>sigs out. CheckHumidityAnomaly B ctx = Inr (sigs, out) \<and>
         map fst out = [''score'', ''anomalous'', ''reason'', ''metric''] \<and>
         field out ''deviceId'' = Undefined \<and> field out ''readings'' = Undefined \<and>
         field out ''telemetrys'' = Undefined \<and>
         field out ''temperatureAnomaly'' = Undefined \<and> field out ''humidityAnomaly'' = Undefined))"
proof (intro conjI impI)
  assume "long_window ctx ''temperature''"
  then obtain temps rv where
    "history ctx ''temperature'' = Inr temps" "2 \<le> length temps"
    "get (field ctx ''readings'') ''temperature'' = Inr rv"
    by (auto simp: long_window_def not_isl_iff split: sum.splits)
  from temperature_result_keys [OF this, of B]
  obtain sigs out where out: "CheckTemperatureAnomaly B ctx = Inr (sigs, out)"
    "map fst out = [''score'', ''anomalous'', ''reason'', ''metric'']"
    by (elim exE conjE)
  have "field out k = Undefined" if "k \<notin> {''score'', ''anomalous'', ''reason'', ''metric''}" for k
    using that by (intro field_absent) (simp add: out(2))
  then show "\<exists>sigs out. CheckTemperatureAnomaly B ctx = Inr (sigs, out) \<and>
         map fst out = [''score'', ''anomalous'', ''reason'', ''metric''] \<and>
         field out ''deviceId'' = Undefined \<and> field out ''readings'' = Undefined \<and>
         field out ''telemetrys'' = Undefined \<and>
         field out ''temperatureAnomaly'' = Undefined \<and> field out ''humidityAnomaly'' = Undefined"
    using out by simp
next
  assume "long_window ctx ''humidity''"
  then obtain hums rv where
    "history ctx ''humidity'' = Inr hums" "2 \<le> length hums"
    "get (field ctx ''readings'') ''humidity'' = Inr rv"
    by (auto simp: long_window_def not_isl_iff split: sum.splits)
  from humidity_result_keys [OF this, of B]
  obtain sigs out where out: "CheckHumidityAnomaly B ctx = Inr (sigs, out)"
    "map fst out = [''score'', ''anomalous'', ''reason'', ''metric'']"
    by (elim exE conjE)
  have "field out k = Undefined" if "k \<notin> {''score'', ''anomalous'', ''reason'', ''metric''}" for k
    using that by (intro field_absent) (simp add: out(2))
  then show "\<exists>sigs out. CheckHumidityAnomaly B ctx = Inr (sigs, out) \<and>
         map fst out = [''score'', ''anomalous'', ''reason'', ''metric''] \<and>
         field out ''deviceId'' = Undefined \<and> field out ''readings'' = Undefined \<and>
         field out ''telemetrys'' = Undefined \<and>
         field out ''temperatureAnomaly'' = Undefined \<and> field out ''humidityAnomaly'' = Undefined"
    using out by simp
qed

lemma fan_in_ctx_fields:
  "history fan_in_ctx ''temperature'' = Inr (map Number [Fin 1, Fin 3])"
  "history fan_in_ctx ''humidity'' = Inr (map Number [Fin 1, Fin 3])"
  "get (field fan_in_ctx ''readings'') ''temperature'' = Inr (Number (Fin 10))"
  "get (field fan_in_ctx ''readings'') ''humidity'' = Inr (Number (Fin 10))"
  "field fan_in_ctx ''deviceId'' = Str ''device-1''"
  by (simp_all add: history_def fan_in_ctx_def telemetry_row_def)

text \<open>
  The window 1, 3 with the reading 10.
\<close>

theorem result_keys_witness:
  "\<forall>B.
     (\<exists>sigs out. CheckTemperatureAnomaly B fan_in_ctx = Inr (sigs, out) \<and>
         map fst out = [''score'', ''anomalous'', ''reason'', ''metric''] \<and>
         field out ''deviceId'' = Undefined \<and> field out ''readings'' = Undefined \<and>
         field out ''telemetrys'' = Undefined \<and>
         field out ''temperatureAnomaly'' = Undefined \<and> field out ''humidityAnomaly'' = Undefined) \<and>
     (\<exists>sigs out. CheckHumidityAnomaly B fan_in_ctx = Inr (sigs, out) \<and>
         map fst out = [''score'', ''anomalous'', ''reason'', ''metric''] \<and>
         field out ''deviceId'' = Undefined \<and> field out ''readings'' = Undefined \<and>
         field out ''telemetrys'' = Undefined \<and>
         field out ''temperatureAnomaly'' = Undefined \<and> field out ''humidityAnomaly'' = Undefined)"
proof
  fix B
  have t: "long_window fan_in_ctx ''temperature''"
    by (simp add: long_window_def fan_in_ctx_fields)
  have h: "long_window fan_in_ctx ''humidity''"
    by (simp add: long_window_def fan_in_ctx_fields)
  show "(\<exists>sigs out. CheckTemperatureAnomaly B fan_in_ctx = Inr (sigs, out) \<and>
         map fst out = [''score'', ''anomalous'', ''reason'', ''metric''] \<and>
         field out ''deviceId'' = Undefined \<and> field out ''readings'' = Undefined \<and>
         field out ''telemetrys'' = Undefined \<and>
         field out ''temperatureAnomaly'' = Undefined \<and> field out ''humidityAnomaly'' = Undefined) \<and>
     (\<exists>sigs out. CheckHumidityAnomaly B fan_in_ctx = Inr (sigs, out) \<and>
         map fst out = [''score'', ''anomalous'', ''reason'', ''metric''] \<and>
         field out ''deviceId'' = Undefined \<and> field out ''readings'' = Undefined \<and>
         field out ''telemetrys'' = Undefined \<and>
         field out ''temperatureAnomaly'' = Undefined \<and> field out ''humidityAnomaly'' = Undefined)"
    using result_keys [of fan_in_ctx B] t h by blast
qed

section \<open>The fan-in of the anomaly checks\<close>

lemma two_samples: "2 \<le> length [a, b]"
  by simp

lemma fan_in_temperature:
  "CheckTemperatureAnomaly B fan_in_ctx =
     Inr ([\<lparr>name = ''anomaly.temperature_spike'',
            payload = [(''deviceId'', Str ''device-1''), (''zScore'', Number (Fin 8)),
                       (''score'', Number (Fin 1))],
            targetServices = None\<rparr>],
          [(''score'', Number (Fin 1)), (''anomalous'', Bool True),
           (''reason'', Str (''Z-score '' @ toFixed B 2 (Fin 8) @ '' exceeds threshold'')),
           (''metric'', Str ''temperature'')])"
  by (simp only: temperature_zscore [OF fan_in_ctx_fields(1) fan_in_ctx_fields(3) two_samples]
      fan_in_eval(2-4) if_True fan_in_ctx_fields(5))

lemma fan_in_humidity:
  "CheckHumidityAnomaly B fan_in_ctx =
     Inr ([\<lparr>name = ''anomaly.humidity_spike'',
            payload = [(''deviceId'', Str ''device-1''), (''zScore'', Number (Fin 8)),
                       (''score'', Number (Fin 1))],
            targetServices = None\<rparr>],
          [(''score'', Number (Fin 1)), (''anomalous'', Bool True),
           (''reason'', Str (''Z-score '' @ toFixed B 2 (Fin 8) @ '' exceeds threshold'')),
           (''metric'', Str ''humidity'')])"
  by (simp only: humidity_zscore [OF fan_in_ctx_fields(2) fan_in_ctx_fields(4) two_samples]
      fan_in_eval(2-4) if_True fan_in_ctx_fields(5))

text \<open>The threshold 0.7 as the number the code compares with.\<close>

lemma threshold_value: "round64 0.7 = Fin (3152519739159347 / 2 ^ 52)"
  using round64_near [of "0.7" 53 "6305039478318694"] by simp

text \<open>
  With neither key found the fan-in adds 0 and 0 and halves the sum.
\<close>

lemma no_scores_aggregate:
  "js_div (to_number B (js_plus B (js_or (get_opt Undefined ''score'') (Number (Fin 0)))
                                  (js_or (get_opt Undefined ''score'') (Number (Fin 0))))) (Fin 2) = Fin 0"
  "js_gt (Fin 0) (round64 0.7) = False"
  by (simp_all add: js_or_def js_plus_Number threshold_value)

lemma summaryTask_no_scores:
  assumes "joined_anomalies ctx = Inr (Undefined, Undefined)"
  shows "\<exists>out. summaryTask B now rnd ctx = Inr ([], out) \<and>
           field out ''anomalyScore'' = Number (Fin 0) \<and>
           field out ''anomalyDetected'' = Bool False"
  by (simp only: summaryTask_def assms bindE_Inr prod.case Let_def no_scores_aggregate)
     (simp add: field_obj_set)

text \<open>
  C1. The two handlers are the predecessors of \<open>MergeAnomalyResults\<close>, so the contexts it
  receives are the objects they return. On the window 1, 3 with the reading 10 both
  scores are 1, so their mean is 1 and exceeds 0.7; the fan-in finds neither
  \<open>temperatureAnomaly\<close> nor \<open>humidityAnomaly\<close> in what it received, computes the aggregate
  0, leaves the flag unset and emits nothing.
\<close>

theorem fan_in_ignores_scores:
  "\<exists>sigsT outT sigsH outH out.
     CheckTemperatureAnomaly B fan_in_ctx = Inr (sigsT, outT) \<and>
     field outT ''score'' = Number (Fin 1) \<and>
     CheckHumidityAnomaly B fan_in_ctx = Inr (sigsH, outH) \<and>
     field outH ''score'' = Number (Fin 1) \<and>
     summaryTask B now rnd [(''deviceId'', Str ''device-1''),
                            (''joinedContexts'', Arr [Obj outT, Obj outH])] = Inr ([], out) \<and>
     field out ''anomalyScore'' = Number (Fin 0) \<and>
     field out ''anomalyDetected'' = Bool False"
proof -
  let ?outT = "[(''score'', Number (Fin 1)), (''anomalous'', Bool True),
           (''reason'', Str (''Z-score '' @ toFixed B 2 (Fin 8) @ '' exceeds threshold'')),
           (''metric'', Str ''temperature'')]"
  let ?outH = "[(''score'', Number (Fin 1)), (''anomalous'', Bool True),
           (''reason'', Str (''Z-score '' @ toFixed B 2 (Fin 8) @ '' exceeds threshold'')),
           (''metric'', Str ''humidity'')]"
  have j: "joined_anomalies [(''deviceId'', Str ''device-1''),
              (''joinedContexts'', Arr [Obj ?outT, Obj ?outH])] = Inr (Undefined, Undefined)"
    by (simp add: joined_anomalies_def merge_anomaly_def merge_anomaly_step_def or_field_def)
  obtain out where out: "summaryTask B now rnd [(''deviceId'', Str ''device-1''),
        (''joinedContexts'', Arr [Obj ?outT, Obj ?outH])] = Inr ([], out)"
      "field out ''anomalyScore'' = Number (Fin 0)" "field out ''anomalyDetected'' = Bool False"
    using summaryTask_no_scores [OF j, of B now rnd] by (elim exE conjE)
  have t: "field ?outT ''score'' = Number (Fin 1)" "field ?outH ''score'' = Number (Fin 1)"
    by simp_all
  show ?thesis
    using fan_in_temperature [of B] fan_in_humidity [of B] t out
    by (intro exI conjI)
qed

lemma temperature_sets_no_merge_key:
  assumes "CheckTemperatureAnomaly B ctx = Inr (sigs, out)"
  shows "field out ''temperatureAnomaly'' = Undefined \<and> field out ''humidityAnomaly'' = Undefined"
proof -
  have "map fst out = [''score'', ''anomalous'', ''reason''] \<or>
        map fst out = [''score'', ''anomalous'', ''reason'', ''metric'']"
    using assms
    by (auto simp only: CheckTemperatureAnomaly_def bindE_def insufficient_def Let_def
        sum.case sum.inject prod.inject list.map fst_conv split: sum.splits if_splits)
  then show ?thesis
    by (auto intro!: field_absent)
qed

lemma humidity_sets_no_merge_key:
  assumes "CheckHumidityAnomaly B ctx = Inr (sigs, out)"
  shows "field out ''temperatureAnomaly'' = Undefined \<and> field out ''humidityAnomaly'' = Undefined"
proof -
  have "map fst out = [''score'', ''anomalous'', ''reason''] \<or>
        map fst out = [''score'', ''anomalous'', ''reason'', ''metric'']"
    using assms
    by (auto simp only: CheckHumidityAnomaly_def bindE_def insufficient_def Let_def
        sum.case sum.inject prod.inject list.map fst_conv split: sum.splits if_splits)
  then show ?thesis
    by (auto intro!: field_absent)
qed

text \<open>
  This holds for whatever the two handlers return, the early return included: the
  aggregate is 0 and the flag unset on every run.
\<close>

lemma fan_in_always_zero:
  assumes "CheckTemperatureAnomaly B ctxT = Inr (sigsT, outT)"
    and "CheckHumidityAnomaly B ctxH = Inr (sigsH, outH)"
  shows "\<exists>out. summaryTask B now rnd (obj_set ctx ''joinedContexts'' (Arr [Obj outT, Obj outH]))
             = Inr ([], out) \<and>
           field out ''anomalyScore'' = Number (Fin 0) \<and>
           field out ''anomalyDetected'' = Bool False"
proof -
  note t = temperature_sets_no_merge_key [OF assms(1)]
  note h = humidity_sets_no_merge_key [OF assms(2)]
  have j: "joined_anomalies (obj_set ctx ''joinedContexts'' (Arr [Obj outT, Obj outH]))
             = Inr (Undefined, Undefined)"
    by (simp add: joined_anomalies_def field_obj_set merge_anomaly_def merge_anomaly_step_def
        or_field_def t h)
  show ?thesis
    by (rule summaryTask_no_scores [OF j])
qed

text \<open>
  The body of \<open>MergeAnomalyResults\<close> computes the mean, in binary64, and the strict
  threshold from what it finds under the two keys.
\<close>

lemma js_or_score: "js_or (Number (Fin a)) (Number (Fin 0)) = Number (Fin a)"
  by (simp add: js_or_def)

lemma summaryTask_keyed_mean:
  assumes "joined_anomalies ctx = Inr (t, h)"
    and "get_opt t ''score'' = Number (Fin a)" and "get_opt h ''score'' = Number (Fin b)"
  shows "\<exists>sigs out. summaryTask B now rnd ctx = Inr (sigs, out) \<and>
           field out ''anomalyScore'' = Number (js_div (js_add (Fin a) (Fin b)) (Fin 2)) \<and>
           field out ''anomalyDetected'' =
             Bool (js_gt (js_div (js_add (Fin a) (Fin b)) (Fin 2)) (round64 0.7)) \<and>
           (sigs \<noteq> [] \<longleftrightarrow> js_gt (js_div (js_add (Fin a) (Fin b)) (Fin 2)) (round64 0.7))"
  by (simp only: summaryTask_def assms bindE_Inr prod.case Let_def js_or_score js_plus_Number
      to_number.simps)
     (simp add: field_obj_set del: js_add.simps js_div.simps js_gt.simps)

text \<open>
  The scores 0.9 and 0.5: their sum rounds to 1.4, its half is the number 0.7 of the
  threshold, and the flag is not set.
\<close>

lemma summaryTask_keyed_boundary:
  "\<exists>out. summaryTask B now rnd keyed_boundary_ctx = Inr ([], out) \<and>
         field out ''anomalyScore'' = Number (round64 0.7) \<and>
         field out ''anomalyDetected'' = Bool False"
proof -
  have s1: "round64 0.9 = Fin (8106479329266893 / 2 ^ 53)"
    using round64_near [of "0.9" 53 "8106479329266893"] by simp
  have s2: "round64 0.5 = Fin (1 / 2)"
    using round64_near [of "0.5" 53 "4503599627370496"] by simp
  have s3: "js_add (Fin (8106479329266893 / 2 ^ 53)) (Fin (1 / 2)) = Fin (3152519739159347 / 2 ^
      51)"
    using round64_tie [of "8106479329266893 / 2 ^ 53 + 1 / 2" 52 "6305039478318694"] by simp
  have s4: "js_div (Fin (3152519739159347 / 2 ^ 51)) (Fin 2) = Fin (3152519739159347 / 2 ^ 52)"
    using round64_near [of "3152519739159347 / 2 ^ 51 / 2" 53 "6305039478318694"] by simp
  have s5: "js_gt (Fin (3152519739159347 / 2 ^ 52)) (Fin (3152519739159347 / 2 ^ 52)) = False"
    by simp
  have j: "joined_anomalies keyed_boundary_ctx =
             Inr (Obj [(''score'', Number (Fin (8106479329266893 / 2 ^ 53)))],
                  Obj [(''score'', Number (Fin (1 / 2)))])"
    unfolding keyed_boundary_ctx_def s1 s2
    by (simp add: joined_anomalies_def merge_anomaly_def merge_anomaly_step_def or_field_def)
  have g: "get_opt (Obj [(''score'', Number (Fin (8106479329266893 / 2 ^ 53)))]) ''score'' =
             Number (Fin (8106479329266893 / 2 ^ 53))"
    "get_opt (Obj [(''score'', Number (Fin (1 / 2)))]) ''score'' = Number (Fin (1 / 2))"
    by simp_all
  obtain sigs out where out: "summaryTask B now rnd keyed_boundary_ctx = Inr (sigs, out)"
      "field out ''anomalyScore'' =
         Number (js_div (js_add (Fin (8106479329266893 / 2 ^ 53)) (Fin (1 / 2))) (Fin 2))"
      "field out ''anomalyDetected'' =
         Bool (js_gt (js_div (js_add (Fin (8106479329266893 / 2 ^ 53)) (Fin (1 / 2))) (Fin 2))
                 (round64 0.7))"
      "sigs \<noteq> [] \<longleftrightarrow>
         js_gt (js_div (js_add (Fin (8106479329266893 / 2 ^ 53)) (Fin (1 / 2))) (Fin 2)) (round64 0.7)"
    using summaryTask_keyed_mean [OF j g, of B now rnd] by (elim exE conjE)
  have "sigs = []" using out(4) by (simp only: s3 s4 threshold_value s5 simp_thms)
  then show ?thesis
    using out(1-3) by (simp only: s3 s4 threshold_value s5) simp
qed

section \<open>The merge of the received contexts\<close>

lemma first_truthy_Cons:
  "first_truthy (v # vs) = (if truthy v \<or> vs = [] then v else first_truthy vs)"
  by (cases vs) simp_all

lemma foldl_js_or:
  "foldl js_or a vs = (if truthy a \<or> vs = [] then a else first_truthy vs)"
  by (induction vs arbitrary: a) (auto simp: js_or_def first_truthy_Cons)

lemma or_field_Obj: "or_field (Obj acc) (Obj c) k = Inr (js_or (field acc k) (field c k))"
  by (simp add: or_field_def js_or_def)

lemma merge_anomaly_acc:
  "reduceE merge_anomaly_step (map Obj os)
     (Obj [(''temperatureAnomaly'', a), (''humidityAnomaly'', b)]) =
   Inr (Obj [(''temperatureAnomaly'', foldl js_or a (map (\<lambda>c. field c ''temperatureAnomaly'') os)),
             (''humidityAnomaly'', foldl js_or b (map (\<lambda>c. field c ''humidityAnomaly'') os))])"
  by (induction os arbitrary: a b) (simp_all add: merge_anomaly_step_def or_field_Obj)

lemma merge_prediction_acc:
  "reduceE merge_prediction_step (map Obj os)
     (Obj [(''anomalyHistory'', a), (''trend'', b), (''weatherData'', c)]) =
   Inr (Obj [(''anomalyHistory'', foldl js_or a (map (\<lambda>c. field c ''anomalyHistory'') os)),
             (''trend'', foldl js_or b (map (\<lambda>c. field c ''trend'') os)),
             (''weatherData'', foldl js_or c (map (\<lambda>c. field c ''weatherData'') os))])"
  by (induction os arbitrary: a b c) (simp_all add: merge_prediction_step_def or_field_Obj)

lemma joined_anomalies_first_truthy:
  assumes "field ctx ''joinedContexts'' = Arr (map Obj os)"
  shows "joined_anomalies ctx =
     Inr (first_truthy (map (\<lambda>c. field c ''temperatureAnomaly'') os),
          first_truthy (map (\<lambda>c. field c ''humidityAnomaly'') os))"
proof (cases os)
  case Nil
  then show ?thesis by (simp add: joined_anomalies_def assms merge_anomaly_def)
next
  case (Cons c cs)
  then show ?thesis
    by (simp add: joined_anomalies_def assms merge_anomaly_def merge_anomaly_step_def or_field_Obj
        js_or_def merge_anomaly_acc foldl_js_or first_truthy_Cons)
qed

lemma joined_inputs_first_truthy:
  assumes "field ctx ''joinedContexts'' = Arr (map Obj os)"
  shows "joined_inputs ctx =
     Inr (first_truthy (map (\<lambda>c. field c ''anomalyHistory'') os),
          first_truthy (map (\<lambda>c. field c ''trend'') os),
          first_truthy (map (\<lambda>c. field c ''weatherData'') os))"
proof (cases os)
  case Nil
  then show ?thesis by (simp add: joined_inputs_def assms merge_prediction_def)
next
  case (Cons c cs)
  then show ?thesis
    by (simp add: joined_inputs_def assms merge_prediction_def merge_prediction_step_def or_field_Obj
        js_or_def merge_prediction_acc foldl_js_or first_truthy_Cons)
qed

text \<open>
  C2, as amended. Over the received contexts each fan-in gives a key it reads the first
  truthy value of that key; when no context holds a truthy value it gives the value of
  the last context, and \<open>undefined\<close> when it received none. A truthy value is thus never
  displaced by a later one, while a falsy one (0, false, the empty string, NaN, null) is.
\<close>

theorem merge_first_truthy:
  "joined_anomalies (obj_set ctx ''joinedContexts'' (Arr (map Obj os))) =
     Inr (first_truthy (map (\<lambda>c. field c ''temperatureAnomaly'') os),
          first_truthy (map (\<lambda>c. field c ''humidityAnomaly'') os)) \<and>
   joined_inputs (obj_set ctx ''joinedContexts'' (Arr (map Obj os))) =
     Inr (first_truthy (map (\<lambda>c. field c ''anomalyHistory'') os),
          first_truthy (map (\<lambda>c. field c ''trend'') os),
          first_truthy (map (\<lambda>c. field c ''weatherData'') os))"
  by (simp add: joined_anomalies_first_truthy joined_inputs_first_truthy field_obj_set)

text \<open>
  \<open>false\<close> and 0 are not null, and each is displaced by the value of the later context.
\<close>

theorem merge_displaces_falsy_counterexample:
  "joined_inputs [(''joinedContexts'',
      Arr [Obj [(''trend'', Bool False)], Obj [(''trend'', Str ''increasing'')]])] =
     Inr (Undefined, Str ''increasing'', Undefined) \<and>
   first_non_null [Bool False, Str ''increasing''] = Bool False \<and>
   joined_anomalies [(''joinedContexts'',
      Arr [Obj [(''temperatureAnomaly'', Number (Fin 0))],
           Obj [(''temperatureAnomaly'', Obj [(''score'', Number (Fin 1))])]])] =
     Inr (Obj [(''score'', Number (Fin 1))], Undefined) \<and>
   first_non_null [Number (Fin 0), Obj [(''score'', Number (Fin 1))]] = Number (Fin 0)"
  by (simp add: joined_inputs_def merge_prediction_def merge_prediction_step_def
      joined_anomalies_def merge_anomaly_def merge_anomaly_step_def or_field_def)

section \<open>The failure prediction\<close>

subsection \<open>The probability\<close>

text \<open>The multipliers as numbers: 1.5 and 1.0 are exact, 1.2 is not.\<close>

lemma multiplier_values:
  "round64 1.5 = Fin 1.5"
  "round64 1.2 = Fin (5404319552844595 / 2 ^ 52)"
  "round64 1.0 = Fin 1"
proof -
  show "round64 1.5 = Fin 1.5"
    using round64_near [of "1.5" 52 "6755399441055744"] by simp
  show "round64 1.2 = Fin (5404319552844595 / 2 ^ 52)"
    using round64_near [of "1.2" 52 "5404319552844595"] by simp
  show "round64 1.0 = Fin 1"
    by simp
qed

lemma weatherMultiplier_Obj: "weatherMultiplier (Obj w) = Inr (round64 1.5)"
  by (simp add: weatherMultiplier_def js_or_def)

lemma failureProbability_Arr:
  "failureProbability B (Arr hist) trend (Obj w) =
     Inr (js_min (js_mul (js_mul (js_div (Fin (real (length hist))) (Fin 10)) (round64 1.5))
                         (if trend = Str ''increasing'' then round64 1.2 else round64 1.0))
                 (Fin 1))"
  by (simp only: failureProbability_def baseRisk_def get.simps refl if_True bindE_Inr
      to_number.simps weatherMultiplier_Obj trendMultiplier_def)

text \<open>
  A value between two integers that are numbers is rounded to a number between them.
\<close>

lemma round64_int_bounds:
  assumes "real_of_int a \<le> x" and "x \<le> real_of_int b" and "\<bar>a\<bar> < 2 ^ 53" and "\<bar>b\<bar> < 2 ^ 53"
  shows "\<exists>y. round64 x = Fin y \<and> real_of_int a \<le> y \<and> y \<le> real_of_int b"
proof -
  have big: "real_of_int (2 ^ 53) < 2 powi 1024" by simp
  have "\<bar>real_of_int a\<bar> < real_of_int (2 ^ 53)" using assms(3) by (simp flip: of_int_abs)
  then have lo: "- (2 powi 1024) < real_of_int a" using big by linarith
  have "\<bar>real_of_int b\<bar> < real_of_int (2 ^ 53)" using assms(4) by (simp flip: of_int_abs)
  then have hi: "real_of_int b < 2 powi 1024" using big by linarith
  from round64_between [OF assms(1,2) fl_of_int [OF assms(3)] fl_of_int [OF assms(4)] lo hi]
  show ?thesis by blast
qed

lemma at_least_one_round:
  assumes "1 \<le> x"
  shows "at_least_one (round64 x)"
proof -
  have "fl 1 \<le> fl x" by (rule fl_mono [OF assms])
  moreover have "fl 1 = 1" using fl_of_int [of 1] by simp
  ultimately have "1 \<le> fl x" by simp
  then show ?thesis by (simp add: round64_def Let_def)
qed

lemma at_least_one_mul:
  assumes "at_least_one a" and "at_least_one b"
  shows "at_least_one (js_mul a b)"
proof (cases a)
  case (Fin x)
  show ?thesis
  proof (cases b)
    case (Fin y)
    have "1 * 1 \<le> x * y" using assms \<open>a = Fin x\<close> Fin by (intro mult_mono) simp_all
    then show ?thesis using \<open>a = Fin x\<close> Fin by (simp add: at_least_one_round)
  qed (use assms \<open>a = Fin x\<close> in auto)
qed (use assms in \<open>cases b; auto\<close>)+

lemma at_least_one_min: "at_least_one a \<Longrightarrow> js_min a (Fin 1) = Fin 1"
  by (cases a) (auto simp: min_def)

text \<open>
  The source does not clamp \<open>baseRisk\<close>. As no multiplier is below 1, and rounding keeps
  the order, the result is the same.
\<close>

lemma clamp_before_multiplying:
  assumes "0 \<le> x" and "at_least_one (Fin w)" and "at_least_one (Fin t)"
  shows "js_min (js_mul (js_mul (round64 x) (Fin w)) (Fin t)) (Fin 1) =
         js_min (js_mul (js_mul (js_min (round64 x) (Fin 1)) (Fin w)) (Fin t)) (Fin 1)"
proof (cases "x \<le> 1")
  case True
  obtain y where y: "round64 x = Fin y" "y \<le> 1"
    using round64_int_bounds [of 0 x 1] assms(1) True by auto
  then show ?thesis by (simp add: min_def)
next
  case False
  then have "at_least_one (round64 x)" by (simp add: at_least_one_round)
  then have l: "js_min (js_mul (js_mul (round64 x) (Fin w)) (Fin t)) (Fin 1) = Fin 1"
    using assms(2,3) by (intro at_least_one_min at_least_one_mul)
  have c: "js_min (round64 x) (Fin 1) = Fin 1"
    using \<open>at_least_one (round64 x)\<close> by (rule at_least_one_min)
  have "at_least_one (Fin 1)" by simp
  then have "js_min (js_mul (js_mul (Fin 1) (Fin w)) (Fin t)) (Fin 1) = Fin 1"
    using assms(2,3) by (intro at_least_one_min at_least_one_mul)
  then show ?thesis by (simp only: l c)
qed

lemma failureProbability_clamped:
  "failureProbability B (Arr hist) trend (Obj w) =
     Inr (spec_failure_probability (length hist) (round64 1.5) trend)"
proof -
  have d: "js_div (Fin (real (length hist))) (Fin 10) = round64 (real (length hist) / 10)"
    by simp
  have x: "0 \<le> real (length hist) / 10" by simp
  have w: "at_least_one (Fin 1.5)" by simp
  have t: "at_least_one (Fin (5404319552844595 / 2 ^ 52))" "at_least_one (Fin 1)" by simp_all
  show ?thesis
  proof (cases "trend = Str ''increasing''")
    case True
    then show ?thesis
      using clamp_before_multiplying [OF x w t(1)]
      by (simp only: failureProbability_Arr spec_failure_probability_def d multiplier_values
          simp_thms if_True)
  next
    case False
    then show ?thesis
      using clamp_before_multiplying [OF x w t(2)]
      by (simp only: failureProbability_Arr spec_failure_probability_def d multiplier_values
          simp_thms if_False)
  qed
qed

subsection \<open>The arithmetic of the examples\<close>

text \<open>
  The rounding steps of the prediction on the examples: five events with an increasing
  trend, one event with a stable trend; the predicted date at the current time
  1700000000000 for the draw 1/2 and for the last draw below 1, on either path.
\<close>

lemma high_risk_arith:
  shows "js_min (js_mul (js_mul (js_div (Fin 5) (Fin 10)) (round64 1.5)) (round64 1.2)) (Fin 1) =
           Fin (2026619832316723 / 2 ^ 51)"
    and "js_gt (Fin (2026619832316723 / 2 ^ 51)) (round64 0.7) = True"
proof -
  have s1: "js_div (Fin 5) (Fin 10) = Fin (1 / 2)"
    using round64_near [of "5 / 10" 53 "4503599627370496"] by simp
  have s2: "round64 1.5 = Fin (3 / 2)"
    using round64_near [of "1.5" 52 "6755399441055744"] by simp
  have s3: "round64 1.2 = Fin (5404319552844595 / 2 ^ 52)"
    using round64_near [of "1.2" 52 "5404319552844595"] by simp
  have s4: "js_mul (Fin (1 / 2)) (Fin (3 / 2)) = Fin (3 / 2 ^ 2)"
    using round64_near [of "(1 / 2) * (3 / 2)" 53 "6755399441055744"] by simp
  have s5: "js_mul (Fin (3 / 2 ^ 2)) (Fin (5404319552844595 / 2 ^ 52)) = Fin (2026619832316723 / 2 ^
      51)"
    using round64_tie [of "(3 / 2 ^ 2) * (5404319552844595 / 2 ^ 52)" 53 "8106479329266892"] by simp
  have s6: "js_min (Fin (2026619832316723 / 2 ^ 51)) (Fin 1) = Fin (2026619832316723 / 2 ^ 51)"
    by simp
  have s7: "round64 0.7 = Fin (3152519739159347 / 2 ^ 52)"
    using round64_near [of "0.7" 53 "6305039478318694"] by simp
  have s8: "js_gt (Fin (2026619832316723 / 2 ^ 51)) (Fin (3152519739159347 / 2 ^ 52)) = True"
    by simp
  show "js_min (js_mul (js_mul (js_div (Fin 5) (Fin 10)) (round64 1.5)) (round64 1.2)) (Fin 1) =
           Fin (2026619832316723 / 2 ^ 51)"
    by (simp only: s1 s2 s3 s4 s5 s6 s7 s8)
  show "js_gt (Fin (2026619832316723 / 2 ^ 51)) (round64 0.7) = True"
    by (simp only: s1 s2 s3 s4 s5 s6 s7 s8)
qed

lemma low_risk_arith:
  shows "js_min (js_mul (js_mul (js_div (Fin 1) (Fin 10)) (round64 1.5)) (round64 1.0)) (Fin 1) =
           Fin (1351079888211149 / 2 ^ 53)"
    and "js_gt (Fin (1351079888211149 / 2 ^ 53)) (round64 0.7) = False"
proof -
  have s1: "js_div (Fin 1) (Fin 10) = Fin (3602879701896397 / 2 ^ 55)"
    using round64_near [of "1 / 10" 56 "7205759403792794"] by simp
  have s2: "round64 1.5 = Fin (3 / 2)"
    using round64_near [of "1.5" 52 "6755399441055744"] by simp
  have s3: "round64 1.0 = Fin 1"
    using round64_near [of "1.0" 52 "4503599627370496"] by simp
  have s4: "js_mul (Fin (3602879701896397 / 2 ^ 55)) (Fin (3 / 2)) = Fin (1351079888211149 / 2 ^
      53)"
    using round64_tie [of "(3602879701896397 / 2 ^ 55) * (3 / 2)" 55 "5404319552844596"] by simp
  have s5: "js_mul (Fin (1351079888211149 / 2 ^ 53)) (Fin 1) = Fin (1351079888211149 / 2 ^ 53)"
    using round64_near [of "(1351079888211149 / 2 ^ 53) * 1" 55 "5404319552844596"] by simp
  have s6: "js_min (Fin (1351079888211149 / 2 ^ 53)) (Fin 1) = Fin (1351079888211149 / 2 ^ 53)"
    by simp
  have s7: "round64 0.7 = Fin (3152519739159347 / 2 ^ 52)"
    using round64_near [of "0.7" 53 "6305039478318694"] by simp
  have s8: "js_gt (Fin (1351079888211149 / 2 ^ 53)) (Fin (3152519739159347 / 2 ^ 52)) = False"
    by simp
  show "js_min (js_mul (js_mul (js_div (Fin 1) (Fin 10)) (round64 1.5)) (round64 1.0)) (Fin 1) =
           Fin (1351079888211149 / 2 ^ 53)"
    by (simp only: s1 s2 s3 s4 s5 s6 s7 s8)
  show "js_gt (Fin (1351079888211149 / 2 ^ 53)) (round64 0.7) = False"
    by (simp only: s1 s2 s3 s4 s5 s6 s7 s8)
qed

lemma eta_half_high:
  "new_Date (js_add (Fin (real_of_int 1700000000000))
       (js_mul (js_mul (js_mul (js_mul (js_add (js_mul (Fin (1 / 2)) (Fin 3)) (Fin 1)) (Fin 24))
          (Fin 60)) (Fin 60)) (Fin 1000))) = Some 1700216000000"
proof -
  have now: "real_of_int 1700000000000 = 1700000000000"
    by simp
  have s1: "js_mul (Fin (1 / 2)) (Fin 3) = Fin (3 / 2)"
    using round64_near [of "(1 / 2) * 3" 52 "6755399441055744"] by simp
  have s2: "js_add (Fin (3 / 2)) (Fin 1) = Fin (5 / 2)"
    using round64_near [of "(3 / 2) + 1" 51 "5629499534213120"] by simp
  have s3: "js_mul (Fin (5 / 2)) (Fin 24) = Fin 60"
    using round64_near [of "(5 / 2) * 24" 47 "8444249301319680"] by simp
  have s4: "js_mul (Fin 60) (Fin 60) = Fin 3600"
    using round64_near [of "60 * 60" 41 "7916483719987200"] by simp
  have s5: "js_mul (Fin 3600) (Fin 60) = Fin 216000"
    using round64_near [of "3600 * 60" 35 "7421703487488000"] by simp
  have s6: "js_mul (Fin 216000) (Fin 1000) = Fin 216000000"
    using round64_near [of "216000 * 1000" 25 "7247757312000000"] by simp
  have s7: "js_add (Fin 1700000000000) (Fin 216000000) = Fin 1700216000000"
    using round64_near [of "1700000000000 + 216000000" 12 "6964084736000000"] by simp
  have date: "new_Date (Fin 1700216000000) = Some 1700216000000"
    by simp
  show ?thesis
    by (simp only: now s1 s2 s3 s4 s5 s6 s7 date)
qed

lemma eta_half_low:
  "new_Date (js_add (Fin (real_of_int 1700000000000))
       (js_mul (js_mul (js_mul (js_mul (js_add (js_mul (Fin (1 / 2)) (Fin 30)) (Fin 7)) (Fin 24))
          (Fin 60)) (Fin 60)) (Fin 1000))) = Some 1701900800000"
proof -
  have now: "real_of_int 1700000000000 = 1700000000000"
    by simp
  have s1: "js_mul (Fin (1 / 2)) (Fin 30) = Fin 15"
    using round64_near [of "(1 / 2) * 30" 49 "8444249301319680"] by simp
  have s2: "js_add (Fin 15) (Fin 7) = Fin 22"
    using round64_near [of "15 + 7" 48 "6192449487634432"] by simp
  have s3: "js_mul (Fin 22) (Fin 24) = Fin 528"
    using round64_near [of "22 * 24" 43 "4644337115725824"] by simp
  have s4: "js_mul (Fin 528) (Fin 60) = Fin 31680"
    using round64_near [of "528 * 60" 38 "8708132091985920"] by simp
  have s5: "js_mul (Fin 31680) (Fin 60) = Fin 1900800"
    using round64_near [of "31680 * 60" 32 "8163873836236800"] by simp
  have s6: "js_mul (Fin 1900800) (Fin 1000) = Fin 1900800000"
    using round64_near [of "1900800 * 1000" 22 "7972533043200000"] by simp
  have s7: "js_add (Fin 1700000000000) (Fin 1900800000) = Fin 1701900800000"
    using round64_near [of "1700000000000 + 1900800000" 12 "6970985676800000"] by simp
  have date: "new_Date (Fin 1701900800000) = Some 1701900800000"
    by simp
  show ?thesis
    by (simp only: now s1 s2 s3 s4 s5 s6 s7 date)
qed

lemma eta_last_high:
  "new_Date (js_add (Fin (real_of_int 1700000000000))
       (js_mul (js_mul (js_mul (js_mul (js_add (js_mul (Fin (4503599627370495 / 2 ^ 52)) (Fin 3)) (Fin 1)) (Fin 24))
          (Fin 60)) (Fin 60)) (Fin 1000))) = Some 1700345600000"
proof -
  have now: "real_of_int 1700000000000 = 1700000000000"
    by simp
  have s1: "js_mul (Fin (4503599627370495 / 2 ^ 52)) (Fin 3) = Fin (3377699720527871 / 2 ^ 50)"
    using round64_tie [of "(4503599627370495 / 2 ^ 52) * 3" 51 "6755399441055742"] by simp
  have s2: "js_add (Fin (3377699720527871 / 2 ^ 50)) (Fin 1) = Fin (4503599627370495 / 2 ^ 50)"
    using round64_near [of "(3377699720527871 / 2 ^ 50) + 1" 51 "9007199254740990"] by simp
  have s3: "js_mul (Fin (4503599627370495 / 2 ^ 50)) (Fin 24) = Fin (3377699720527871 / 2 ^ 45)"
    using round64_tie [of "(4503599627370495 / 2 ^ 50) * 24" 46 "6755399441055742"] by simp
  have s4: "js_mul (Fin (3377699720527871 / 2 ^ 45)) (Fin 60) = Fin (3166593487994879 / 2 ^ 39)"
    using round64_near [of "(3377699720527871 / 2 ^ 45) * 60" 40 "6333186975989758"] by simp
  have s5: "js_mul (Fin (3166593487994879 / 2 ^ 39)) (Fin 60) = Fin (2968681394995199 / 2 ^ 33)"
    using round64_near [of "(3166593487994879 / 2 ^ 39) * 60" 34 "5937362789990398"] by simp
  have s6: "js_mul (Fin (2968681394995199 / 2 ^ 33)) (Fin 1000) = Fin (2899102924799999 / 2 ^ 23)"
    using round64_near [of "(2968681394995199 / 2 ^ 33) * 1000" 24 "5798205849599998"] by simp
  have s7: "js_add (Fin 1700000000000) (Fin (2899102924799999 / 2 ^ 23)) = Fin 1700345600000"
    using round64_near [of "1700000000000 + (2899102924799999 / 2 ^ 23)" 12 "6964615577600000"] by
        simp
  have date: "new_Date (Fin 1700345600000) = Some 1700345600000"
    by simp
  show ?thesis
    by (simp only: now s1 s2 s3 s4 s5 s6 s7 date)
qed

lemma eta_last_low:
  "new_Date (js_add (Fin (real_of_int 1700000000000))
       (js_mul (js_mul (js_mul (js_mul (js_add (js_mul (Fin (4503599627370495 / 2 ^ 52)) (Fin 30)) (Fin 7)) (Fin 24))
          (Fin 60)) (Fin 60)) (Fin 1000))) = Some 1703196800000"
proof -
  have now: "real_of_int 1700000000000 = 1700000000000"
    by simp
  have s1: "js_mul (Fin (4503599627370495 / 2 ^ 52)) (Fin 30) = Fin (4222124650659839 / 2 ^ 47)"
    using round64_near [of "(4503599627370495 / 2 ^ 52) * 30" 48 "8444249301319678"] by simp
  have s2: "js_add (Fin (4222124650659839 / 2 ^ 47)) (Fin 7) = Fin (5207287069147135 / 2 ^ 47)"
    using round64_near [of "(4222124650659839 / 2 ^ 47) + 7" 47 "5207287069147135"] by simp
  have s3: "js_mul (Fin (5207287069147135 / 2 ^ 47)) (Fin 24) = Fin (3905465301860351 / 2 ^ 42)"
    using round64_tie [of "(5207287069147135 / 2 ^ 47) * 24" 43 "7810930603720702"] by simp
  have s4: "js_mul (Fin (3905465301860351 / 2 ^ 42)) (Fin 60) = Fin (3661373720494079 / 2 ^ 36)"
    using round64_near [of "(3905465301860351 / 2 ^ 42) * 60" 37 "7322747440988158"] by simp
  have s5: "js_mul (Fin (3661373720494079 / 2 ^ 36)) (Fin 60) = Fin (3432537862963199 / 2 ^ 30)"
    using round64_near [of "(3661373720494079 / 2 ^ 36) * 60" 31 "6865075725926398"] by simp
  have s6: "js_mul (Fin (3432537862963199 / 2 ^ 30)) (Fin 1000) = Fin (3352087756799999 / 2 ^ 20)"
    using round64_near [of "(3432537862963199 / 2 ^ 30) * 1000" 21 "6704175513599998"] by simp
  have s7: "js_add (Fin 1700000000000) (Fin (3352087756799999 / 2 ^ 20)) = Fin 1703196800000"
    using round64_near [of "1700000000000 + (3352087756799999 / 2 ^ 20)" 12 "6976294092800000"] by
        simp
  have date: "new_Date (Fin 1703196800000) = Some 1703196800000"
    by simp
  show ?thesis
    by (simp only: now s1 s2 s3 s4 s5 s6 s7 date)
qed

lemma example_inputs:
  "joined_inputs high_risk_ctx =
     Inr (Arr [Null, Null, Null, Null, Null], Str ''increasing'',
          Obj [(''temperature'', Number (Fin 12)), (''humidity'', Number (Fin 93)),
               (''condition'', Str ''rain'')])"
  "joined_inputs low_risk_ctx =
     Inr (Arr [Null], Str ''stable'',
          Obj [(''temperature'', Number (Fin 20)), (''humidity'', Number (Fin 50)),
               (''condition'', Str ''neutral'')])"
  by (simp_all add: high_risk_ctx_def low_risk_ctx_def joined_inputs_def merge_prediction_def
      merge_prediction_step_def or_field_def fallback_weather_def)

lemma example_reads:
  "get (Arr [Null, Null, Null, Null, Null]) ''length'' = Inr (Number (Fin 5))"
  "get (Arr [Null]) ''length'' = Inr (Number (Fin 1))"
  "get (Obj [(''temperature'', Number (Fin 12)), (''humidity'', Number (Fin 93)),
             (''condition'', Str ''rain'')]) ''condition'' = Inr (Str ''rain'')"
  "get (Obj [(''temperature'', Number (Fin 20)), (''humidity'', Number (Fin 50)),
             (''condition'', Str ''neutral'')]) ''condition'' = Inr (Str ''neutral'')"
  "field high_risk_ctx ''deviceId'' = Str ''device-1''"
  "field low_risk_ctx ''deviceId'' = Str ''device-2''"
  "js_or (field high_risk_ctx ''anomalyScore'') (Number (Fin 0)) = Number (Fin 0)"
  "js_or (field low_risk_ctx ''anomalyScore'') (Number (Fin 0)) = Number (Fin 0)"
  by (simp_all add: high_risk_ctx_def low_risk_ctx_def js_or_def)

lemma five_events: "real (length [h1, h2, h3, h4, h5]) = 5"
  by simp

lemma one_event: "real (length [h1]) = 1"
  by simp

lemma high_risk_probability:
  "failureProbability B (Arr [h1, h2, h3, h4, h5]) (Str ''increasing'') (Obj w) =
     Inr (Fin (2026619832316723 / 2 ^ 51))"
  by (simp only: failureProbability_Arr five_events simp_thms if_True high_risk_arith(1))

lemma low_risk_probability:
  "failureProbability B (Arr [h1]) (Str ''stable'') (Obj w) =
     Inr (Fin (1351079888211149 / 2 ^ 53))"
proof -
  have "Str ''stable'' \<noteq> Str ''increasing''" by simp
  then show ?thesis
    by (simp only: failureProbability_Arr one_event if_False low_risk_arith(1))
qed

subsection \<open>The handler past the merge\<close>

lemma failureProbability_reads:
  assumes "failureProbability B a t w = Inr p"
  shows "\<exists>n c. get a ''length'' = Inr n \<and> get w ''condition'' = Inr c"
proof -
  have "\<not> isl (get a ''length'')" "\<not> isl (get w ''condition'')"
    using assms
    by (auto simp only: failureProbability_def baseRisk_def weatherMultiplier_def bindE_def
        sum.case sum.disc split: sum.splits)
  then show ?thesis by (simp add: not_isl_iff)
qed

text \<open>
  The two paths of the handler, once the merged inputs, the probability and the two
  values it reports are known.
\<close>

lemma computePredictionTask_high:
  assumes "joined_inputs ctx = Inr (a, t, w)" and "failureProbability B a t w = Inr p"
    and "js_gt p (round64 0.7)"
    and "get a ''length'' = Inr n" and "get w ''condition'' = Inr c"
    and "new_Date (js_add (Fin (real_of_int now))
           (js_mul (js_mul (js_mul (js_mul (js_add (js_mul (Fin rnd) (Fin 3)) (Fin 1)) (Fin 24))
              (Fin 60)) (Fin 60)) (Fin 1000))) = Some eta"
  shows "computePredictionTask B now rnd ctx =
     Inr ([\<lparr>name = ''predictor.maintenance_needed'',
            payload = [(''deviceId'', field ctx ''deviceId''),
                       (''prediction'',
                        Obj [(''failureProbability'', Str (toFixed B 3 p)),
                             (''predictedEta'', DateV (Some eta)),
                             (''riskFactors'', Obj [(''anomalies'', n), (''trend'', t),
                                                    (''weatherImpact'', c)])]),
                       (''urgency'', Str ''high'')],
            targetServices = Some [''telemetry-collector'', ''alert-service'']\<rparr>],
          Inr (obj_set ctx ''data''
                 (Obj [(''deviceId'', field ctx ''deviceId''),
                       (''anomalyScore'', js_or (field ctx ''anomalyScore'') (Number (Fin 0))),
                       (''failureProbability'', Number p),
                       (''predictedEta'', DateV (Some eta))])))"
  using assms(3)
  by (simp only: computePredictionTask_def assms(1,2,4,5,6) bindE_Inr prod.case Let_def if_True
      option.case)

lemma computePredictionTask_low:
  assumes "joined_inputs ctx = Inr (a, t, w)" and "failureProbability B a t w = Inr p"
    and "\<not> js_gt p (round64 0.7)"
    and "get a ''length'' = Inr n" and "get w ''condition'' = Inr c"
    and "new_Date (js_add (Fin (real_of_int now))
           (js_mul (js_mul (js_mul (js_mul (js_add (js_mul (Fin rnd) (Fin 30)) (Fin 7)) (Fin 24))
              (Fin 60)) (Fin 60)) (Fin 1000))) = eta"
  shows "computePredictionTask B now rnd ctx =
     Inr ([\<lparr>name = ''predictor.prediction_ready'',
            payload = [(''deviceId'', field ctx ''deviceId''),
                       (''prediction'',
                        Obj [(''failureProbability'', Str (toFixed B 3 p)),
                             (''predictedEta'', DateV eta),
                             (''riskFactors'', Obj [(''anomalies'', n), (''trend'', t),
                                                    (''weatherImpact'', c)])]),
                       (''urgency'', Str ''low'')],
            targetServices = Some [''alert-service'']\<rparr>],
          Inr (obj_set ctx ''data''
                 (Obj [(''deviceId'', field ctx ''deviceId''),
                       (''anomalyScore'', js_or (field ctx ''anomalyScore'') (Number (Fin 0))),
                       (''failureProbability'', Number p),
                       (''predictedEta'', DateV eta)])))"
  using assms(3)
  by (simp only: computePredictionTask_def assms(1,2,4,5,6) bindE_Inr prod.case Let_def if_False)

text \<open>On the high-risk path an invalid date makes \<open>toISOString\<close> throw, after the signal.\<close>

lemma computePredictionTask_invalid_date:
  assumes "joined_inputs ctx = Inr (a, t, w)" and "failureProbability B a t w = Inr p"
    and "js_gt p (round64 0.7)"
    and "get a ''length'' = Inr n" and "get w ''condition'' = Inr c"
    and "new_Date (js_add (Fin (real_of_int now))
           (js_mul (js_mul (js_mul (js_mul (js_add (js_mul (Fin rnd) (Fin 3)) (Fin 1)) (Fin 24))
              (Fin 60)) (Fin 60)) (Fin 1000))) = None"
  shows "computePredictionTask B now rnd ctx =
     Inr ([\<lparr>name = ''predictor.maintenance_needed'',
            payload = [(''deviceId'', field ctx ''deviceId''),
                       (''prediction'',
                        Obj [(''failureProbability'', Str (toFixed B 3 p)),
                             (''predictedEta'', DateV None),
                             (''riskFactors'', Obj [(''anomalies'', n), (''trend'', t),
                                                    (''weatherImpact'', c)])]),
                       (''urgency'', Str ''high'')],
            targetServices = Some [''telemetry-collector'', ''alert-service'']\<rparr>],
          Inl RangeError)"
  using assms(3)
  by (simp only: computePredictionTask_def assms(1,2,4,5,6) bindE_Inr prod.case Let_def if_True
      option.case)

text \<open>
  Whatever the current time and the draw, the handler emits one signal, whose prediction
  carries the probability printed with three decimals, and then either throws the
  RangeError of an invalid date or returns a context whose \<open>data\<close> carries the probability.
\<close>

lemma computePredictionTask_probability:
  assumes "joined_inputs ctx = Inr (a, t, w)" and "failureProbability B a t w = Inr p"
  shows "\<exists>sig res.
     computePredictionTask B now rnd ctx = Inr ([sig], res) \<and>
     get_opt (field (payload sig) ''prediction'') ''failureProbability'' = Str (toFixed B 3 p) \<and>
     (res = Inl RangeError \<or>
      (\<exists>out. res = Inr out \<and> get_opt (field out ''data'') ''failureProbability'' = Number p))"
proof -
  obtain n c where reads: "get a ''length'' = Inr n" "get w ''condition'' = Inr c"
    using failureProbability_reads [OF assms(2)] by blast
  show ?thesis
  proof (cases "js_gt p (round64 0.7)")
    case True
    show ?thesis
    proof (cases "new_Date (js_add (Fin (real_of_int now))
           (js_mul (js_mul (js_mul (js_mul (js_add (js_mul (Fin rnd) (Fin 3)) (Fin 1)) (Fin 24))
              (Fin 60)) (Fin 60)) (Fin 1000)))")
      case None
      show ?thesis
        by (simp only: computePredictionTask_invalid_date [OF assms True reads None])
           (simp add: field_obj_set)
    next
      case (Some eta)
      show ?thesis
        by (simp only: computePredictionTask_high [OF assms True reads Some])
           (simp add: field_obj_set)
    qed
  next
    case False
    show ?thesis
      by (simp only: computePredictionTask_low [OF assms False reads refl])
         (simp add: field_obj_set del: new_Date.simps js_add.simps js_mul.simps)
  qed
qed

text \<open>
  C6, as amended. For a history of \<open>anomalyCount\<close> events, a trend and a weather object,
  the probability the handler reports, in the signal it emits and in the context it
  returns, is \<open>min (baseRisk * weatherMultiplier * trendMultiplier) 1\<close> with
  \<open>baseRisk = min (anomalyCount / 10) 1\<close>, computed in binary64, each operation rounded;
  the weather multiplier is what the handler computes from the condition, and the trend
  multiplier is 1.2 exactly for the trend \<open>increasing\<close>, 1.0 otherwise.
\<close>

theorem failure_probability_formula:
  assumes "joined_inputs ctx = Inr (Arr hist, trend, Obj w)"
  shows "\<exists>wm sig res.
     weatherMultiplier (Obj w) = Inr wm \<and>
     computePredictionTask B now rnd ctx = Inr ([sig], res) \<and>
     get_opt (field (payload sig) ''prediction'') ''failureProbability'' =
       Str (toFixed B 3 (spec_failure_probability (length hist) wm trend)) \<and>
     (res = Inl RangeError \<or>
      (\<exists>out. res = Inr out \<and>
         get_opt (field out ''data'') ''failureProbability'' =
           Number (spec_failure_probability (length hist) wm trend)))"
  using computePredictionTask_probability [OF assms failureProbability_clamped]
    weatherMultiplier_Obj [of w]
  by blast

lemma high_risk_flag: "js_gt (Fin (2026619832316723 / 2 ^ 51)) (round64 0.7)"
  by (simp only: high_risk_arith(2))

lemma low_risk_flag: "\<not> js_gt (Fin (1351079888211149 / 2 ^ 53)) (round64 0.7)"
  by (simp only: low_risk_arith(2) simp_thms)

text \<open>
  The run of the specification's example, five events with an increasing trend under
  rain, at the current time 1700000000000 with the draw 1/2.
\<close>

lemma high_risk_run:
  "computePredictionTask B 1700000000000 (1 / 2) high_risk_ctx =
     Inr ([\<lparr>name = ''predictor.maintenance_needed'',
            payload = [(''deviceId'', Str ''device-1''),
                       (''prediction'',
                        Obj [(''failureProbability'',
                              Str (toFixed B 3 (Fin (2026619832316723 / 2 ^ 51)))),
                             (''predictedEta'', DateV (Some 1700216000000)),
                             (''riskFactors'', Obj [(''anomalies'', Number (Fin 5)),
                                                    (''trend'', Str ''increasing''),
                                                    (''weatherImpact'', Str ''rain'')])]),
                       (''urgency'', Str ''high'')],
            targetServices = Some [''telemetry-collector'', ''alert-service'']\<rparr>],
          Inr (obj_set high_risk_ctx ''data''
                 (Obj [(''deviceId'', Str ''device-1''),
                       (''anomalyScore'', Number (Fin 0)),
                       (''failureProbability'', Number (Fin (2026619832316723 / 2 ^ 51))),
                       (''predictedEta'', DateV (Some 1700216000000))])))"
  by (simp only: computePredictionTask_high [OF example_inputs(1) high_risk_probability
        high_risk_flag example_reads(1) example_reads(3) eta_half_high]
      example_reads(5) example_reads(7))

text \<open>
  The example of the specification: the probability that the handler reports is the
  number 2026619832316723 / 2 ^ 51, which prints as 0.8999999999999999.
\<close>

theorem failure_probability_formula_witness:
  "\<exists>sig out.
     computePredictionTask stub_builtins 1700000000000 (1 / 2) high_risk_ctx = Inr ([sig], Inr out) \<and>
     get_opt (field (payload sig) ''prediction'') ''failureProbability'' =
       Str (toFixed stub_builtins 3 (Fin (2026619832316723 / 2 ^ 51))) \<and>
     get_opt (field out ''data'') ''failureProbability'' = Number (Fin (2026619832316723 / 2 ^ 51))"
proof -
  let ?w = "[(''temperature'', Number (Fin 12)), (''humidity'', Number (Fin 93)),
             (''condition'', Str ''rain'')]"
  let ?h = "[Null, Null, Null, Null, Null]"
  from failure_probability_formula [OF example_inputs(1), of stub_builtins 1700000000000 "1 / 2"]
  obtain wm sig res where
    f: "weatherMultiplier (Obj ?w) = Inr wm"
       "computePredictionTask stub_builtins 1700000000000 (1 / 2) high_risk_ctx = Inr ([sig], res)"
       "get_opt (field (payload sig) ''prediction'') ''failureProbability'' =
          Str (toFixed stub_builtins 3 (spec_failure_probability (length ?h) wm (Str ''increasing'')))"
       "res = Inl RangeError \<or>
        (\<exists>out. res = Inr out \<and>
           get_opt (field out ''data'') ''failureProbability'' =
             Number (spec_failure_probability (length ?h) wm (Str ''increasing'')))"
    by (elim exE conjE)
  have wm: "wm = round64 1.5"
    using f(1) by (simp only: weatherMultiplier_Obj sum.inject)
  have "Inr (spec_failure_probability (length ?h) (round64 1.5) (Str ''increasing'')) =
        (Inr (Fin (2026619832316723 / 2 ^ 51)) :: js_error + jsnum)"
    by (simp only: failureProbability_clamped [symmetric, of ?h _ stub_builtins ?w]
        high_risk_probability)
  then have p: "spec_failure_probability (length ?h) wm (Str ''increasing'') =
                Fin (2026619832316723 / 2 ^ 51)"
    by (simp only: wm sum.inject)
  have "\<exists>out. res = Inr out"
    using f(2) by (simp only: high_risk_run sum.inject prod.inject) blast
  then obtain out where out: "res = Inr out"
       "get_opt (field out ''data'') ''failureProbability'' = Number (Fin (2026619832316723 / 2 ^ 51))"
    using f(4) by (auto simp only: p sum.inject sum.distinct)
  show ?thesis
    using f(2) f(3) out by (simp only: p) blast
qed

text \<open>
  For five events, an increasing trend and rain the claim gives the probability 0.9. The
  handler reports 2026619832316723 / 2 ^ 51, the number just below the number 0.9: the
  product 0.5 * 1.5 * 1.2 is rounded after each multiplication, and 1.2 is not exact.
\<close>

theorem failure_probability_value_counterexample:
  "computePredictionTask stub_builtins 1700000000000 (1 / 2) high_risk_ctx =
     Inr ([\<lparr>name = ''predictor.maintenance_needed'',
            payload = [(''deviceId'', Str ''device-1''),
                       (''prediction'',
                        Obj [(''failureProbability'',
                              Str (toFixed stub_builtins 3 (Fin (2026619832316723 / 2 ^ 51)))),
                             (''predictedEta'', DateV (Some 1700216000000)),
                             (''riskFactors'', Obj [(''anomalies'', Number (Fin 5)),
                                                    (''trend'', Str ''increasing''),
                                                    (''weatherImpact'', Str ''rain'')])]),
                       (''urgency'', Str ''high'')],
            targetServices = Some [''telemetry-collector'', ''alert-service'']\<rparr>],
          Inr (obj_set high_risk_ctx ''data''
                 (Obj [(''deviceId'', Str ''device-1''),
                       (''anomalyScore'', Number (Fin 0)),
                       (''failureProbability'', Number (Fin (2026619832316723 / 2 ^ 51))),
                       (''predictedEta'', DateV (Some 1700216000000))]))) \<and>
   round64 0.9 = Fin (8106479329266893 / 2 ^ 53) \<and>
   (2026619832316723 / 2 ^ 51 :: real) < 8106479329266893 / 2 ^ 53"
proof -
  have "round64 0.9 = Fin (8106479329266893 / 2 ^ 53)"
    using round64_near [of "0.9" 53 "8106479329266893"] by simp
  moreover have "(2026619832316723 / 2 ^ 51 :: real) < 8106479329266893 / 2 ^ 53"
    by simp
  ultimately show ?thesis
    using high_risk_run [of stub_builtins] by (intro conjI)
qed

text \<open>
  C7. The multiplier is 1.5 for every condition: for the neutral fallback and for
  \<open>clear\<close> as well, so that five events with an increasing trend give under neutral
  weather the same probability as under rain, 2026619832316723 / 2 ^ 51 or
  0.8999999999999999, where a multiplier of 1.0 would give 0.6.
\<close>

theorem weather_multiplier_always_applies:
  "weatherMultiplier fallback_weather = Inr (Fin 1.5) \<and>
   weatherMultiplier (Obj [(''condition'', Str ''clear'')]) = Inr (Fin 1.5) \<and>
   failureProbability B (Arr [h1, h2, h3, h4, h5]) (Str ''increasing'') fallback_weather
     = Inr (Fin (2026619832316723 / 2 ^ 51))"
  unfolding fallback_weather_def
  by (simp only: weatherMultiplier_Obj multiplier_values(1) high_risk_probability simp_thms)

subsection \<open>The predicted date and the signal\<close>

lemma new_Date_between:
  assumes "real_of_int lo \<le> y" and "y \<le> real_of_int hi" and "0 \<le> lo" and "hi \<le> 8640000000000000"
  shows "\<exists>eta. new_Date (Fin y) = Some eta \<and> lo \<le> eta \<and> eta \<le> hi"
proof -
  have "0 \<le> y" using assms(1,3) by simp
  moreover have "y \<le> 8640000000000000" using assms(2,4) by simp
  moreover have "lo \<le> \<lfloor>y\<rfloor>" using assms(1) by (simp add: le_floor_iff)
  moreover have "\<lfloor>y\<rfloor> \<le> hi" using assms(2) by (simp add: floor_le_iff)
  ultimately show ?thesis by simp
qed

lemma eta_high:
  assumes "0 \<le> rnd" and "rnd < 1" and "0 \<le> now" and "now \<le> 8640000000000000 - 3196800000"
  shows "\<exists>eta. new_Date (js_add (Fin (real_of_int now))
            (js_mul (js_mul (js_mul (js_mul (js_add (js_mul (Fin rnd) (Fin 3)) (Fin 1)) (Fin 24))
               (Fin 60)) (Fin 60)) (Fin 1000))) = Some eta \<and>
          now + 86400000 \<le> eta \<and> eta \<le> now + 4 * 86400000"
proof -
  obtain y1 where y1: "round64 (rnd * 3) = Fin y1" "0 \<le> y1" "y1 \<le> 3"
    using round64_int_bounds [of 0 "rnd * 3" 3] assms(1,2) by auto
  obtain y2 where y2: "round64 (y1 + 1) = Fin y2" "1 \<le> y2" "y2 \<le> 4"
    using round64_int_bounds [of 1 "y1 + 1" 4] y1(2,3) by auto
  obtain y3 where y3: "round64 (y2 * 24) = Fin y3" "24 \<le> y3" "y3 \<le> 96"
    using round64_int_bounds [of 24 "y2 * 24" 96] y2(2,3) by auto
  obtain y4 where y4: "round64 (y3 * 60) = Fin y4" "1440 \<le> y4" "y4 \<le> 5760"
    using round64_int_bounds [of 1440 "y3 * 60" 5760] y3(2,3) by auto
  obtain y5 where y5: "round64 (y4 * 60) = Fin y5" "86400 \<le> y5" "y5 \<le> 345600"
    using round64_int_bounds [of 86400 "y4 * 60" 345600] y4(2,3) by auto
  obtain y6 where y6: "round64 (y5 * 1000) = Fin y6" "86400000 \<le> y6" "y6 \<le> 345600000"
    using round64_int_bounds [of 86400000 "y5 * 1000" 345600000] y5(2,3) by auto
  obtain y7 where y7: "round64 (real_of_int now + y6) = Fin y7"
      "real_of_int (now + 86400000) \<le> y7" "y7 \<le> real_of_int (now + 345600000)"
    using round64_int_bounds [of "now + 86400000" "real_of_int now + y6" "now + 345600000"]
      y6(2,3) assms(3,4) by auto
  have e: "js_add (Fin (real_of_int now))
            (js_mul (js_mul (js_mul (js_mul (js_add (js_mul (Fin rnd) (Fin 3)) (Fin 1)) (Fin 24))
               (Fin 60)) (Fin 60)) (Fin 1000)) = Fin y7"
    by (simp only: js_mul.simps js_add.simps y1(1) y2(1) y3(1) y4(1) y5(1) y6(1) y7(1))
  obtain eta where "new_Date (Fin y7) = Some eta" "now + 86400000 \<le> eta" "eta \<le> now + 345600000"
    using new_Date_between [OF y7(2,3)] assms(3,4) by auto
  then show ?thesis by (simp only: e) simp
qed

lemma eta_low:
  assumes "0 \<le> rnd" and "rnd < 1" and "0 \<le> now" and "now \<le> 8640000000000000 - 3196800000"
  shows "\<exists>eta. new_Date (js_add (Fin (real_of_int now))
            (js_mul (js_mul (js_mul (js_mul (js_add (js_mul (Fin rnd) (Fin 30)) (Fin 7)) (Fin 24))
               (Fin 60)) (Fin 60)) (Fin 1000))) = Some eta \<and>
          now + 7 * 86400000 \<le> eta \<and> eta \<le> now + 37 * 86400000"
proof -
  obtain y1 where y1: "round64 (rnd * 30) = Fin y1" "0 \<le> y1" "y1 \<le> 30"
    using round64_int_bounds [of 0 "rnd * 30" 30] assms(1,2) by auto
  obtain y2 where y2: "round64 (y1 + 7) = Fin y2" "7 \<le> y2" "y2 \<le> 37"
    using round64_int_bounds [of 7 "y1 + 7" 37] y1(2,3) by auto
  obtain y3 where y3: "round64 (y2 * 24) = Fin y3" "168 \<le> y3" "y3 \<le> 888"
    using round64_int_bounds [of 168 "y2 * 24" 888] y2(2,3) by auto
  obtain y4 where y4: "round64 (y3 * 60) = Fin y4" "10080 \<le> y4" "y4 \<le> 53280"
    using round64_int_bounds [of 10080 "y3 * 60" 53280] y3(2,3) by auto
  obtain y5 where y5: "round64 (y4 * 60) = Fin y5" "604800 \<le> y5" "y5 \<le> 3196800"
    using round64_int_bounds [of 604800 "y4 * 60" 3196800] y4(2,3) by auto
  obtain y6 where y6: "round64 (y5 * 1000) = Fin y6" "604800000 \<le> y6" "y6 \<le> 3196800000"
    using round64_int_bounds [of 604800000 "y5 * 1000" 3196800000] y5(2,3) by auto
  obtain y7 where y7: "round64 (real_of_int now + y6) = Fin y7"
      "real_of_int (now + 604800000) \<le> y7" "y7 \<le> real_of_int (now + 3196800000)"
    using round64_int_bounds [of "now + 604800000" "real_of_int now + y6" "now + 3196800000"]
      y6(2,3) assms(3,4) by auto
  have e: "js_add (Fin (real_of_int now))
            (js_mul (js_mul (js_mul (js_mul (js_add (js_mul (Fin rnd) (Fin 30)) (Fin 7)) (Fin 24))
               (Fin 60)) (Fin 60)) (Fin 1000)) = Fin y7"
    by (simp only: js_mul.simps js_add.simps y1(1) y2(1) y3(1) y4(1) y5(1) y6(1) y7(1))
  obtain eta where "new_Date (Fin y7) = Some eta" "now + 604800000 \<le> eta" "eta \<le> now + 3196800000"
    using new_Date_between [OF y7(2,3)] assms(3,4) by auto
  then show ?thesis by (simp only: e) simp
qed

text \<open>
  C8, as amended. For a draw in [0, 1) and a current time from which 37 days stay within
  the range of \<open>Date\<close>: above the threshold 0.7 the predicted date lies from 1 to 4 days
  from now, both ends included, and the signal \<open>predictor.maintenance_needed\<close> goes with
  urgency \<open>high\<close> to \<open>telemetry-collector\<close> and \<open>alert-service\<close>; otherwise the date lies
  from 7 to 37 days from now, both ends included, and \<open>predictor.prediction_ready\<close> goes
  with urgency \<open>low\<close> to \<open>alert-service\<close>. The date is the time value of the \<open>Date\<close>, in
  milliseconds.
\<close>

theorem eta_and_urgency:
  assumes "0 \<le> rnd" and "rnd < 1" and "0 \<le> now" and "now \<le> 8640000000000000 - 3196800000"
    and "joined_inputs ctx = Inr (anomalyHistory, trend, weatherData)"
    and "failureProbability B anomalyHistory trend weatherData = Inr p"
  shows "\<exists>sig eta out.
     computePredictionTask B now rnd ctx = Inr ([sig], Inr out) \<and>
     get_opt (field out ''data'') ''predictedEta'' = DateV (Some eta) \<and>
     get_opt (field (payload sig) ''prediction'') ''predictedEta'' = DateV (Some eta) \<and>
     (if js_gt p (round64 0.7)
      then now + 86400000 \<le> eta \<and> eta \<le> now + 4 * 86400000 \<and>
           name sig = ''predictor.maintenance_needed'' \<and>
           field (payload sig) ''urgency'' = Str ''high'' \<and>
           targetServices sig = Some [''telemetry-collector'', ''alert-service'']
      else now + 7 * 86400000 \<le> eta \<and> eta \<le> now + 37 * 86400000 \<and>
           name sig = ''predictor.prediction_ready'' \<and>
           field (payload sig) ''urgency'' = Str ''low'' \<and>
           targetServices sig = Some [''alert-service''])"
proof -
  obtain n c where reads: "get anomalyHistory ''length'' = Inr n" "get weatherData ''condition'' = Inr c"
    using failureProbability_reads [OF assms(6)] by blast
  show ?thesis
  proof (cases "js_gt p (round64 0.7)")
    case True
    obtain eta where eta: "new_Date (js_add (Fin (real_of_int now))
            (js_mul (js_mul (js_mul (js_mul (js_add (js_mul (Fin rnd) (Fin 3)) (Fin 1)) (Fin 24))
               (Fin 60)) (Fin 60)) (Fin 1000))) = Some eta"
          "now + 86400000 \<le> eta" "eta \<le> now + 4 * 86400000"
      using eta_high [OF assms(1-4)] by blast
    show ?thesis
      using eta(2,3)
      by (simp only: computePredictionTask_high [OF assms(5,6) True reads eta(1)] True if_True)
         (simp add: field_obj_set)
  next
    case False
    obtain eta where eta: "new_Date (js_add (Fin (real_of_int now))
            (js_mul (js_mul (js_mul (js_mul (js_add (js_mul (Fin rnd) (Fin 30)) (Fin 7)) (Fin 24))
               (Fin 60)) (Fin 60)) (Fin 1000))) = Some eta"
          "now + 7 * 86400000 \<le> eta" "eta \<le> now + 37 * 86400000"
      using eta_low [OF assms(1-4)] by blast
    show ?thesis
      using eta(2,3)
      by (simp only: computePredictionTask_low [OF assms(5,6) False reads eta(1)] False if_False)
         (simp add: field_obj_set)
  qed
qed

text \<open>
  Both paths, at the current time 1700000000000 and the draw 1/2.
\<close>

theorem eta_and_urgency_witness:
  "(\<exists>sig eta out.
      computePredictionTask stub_builtins 1700000000000 (1 / 2) high_risk_ctx = Inr ([sig], Inr out) \<and>
      get_opt (field out ''data'') ''predictedEta'' = DateV (Some eta) \<and>
      get_opt (field (payload sig) ''prediction'') ''predictedEta'' = DateV (Some eta) \<and>
      1700000000000 + 86400000 \<le> eta \<and> eta \<le> 1700000000000 + 4 * 86400000 \<and>
      name sig = ''predictor.maintenance_needed'' \<and>
      field (payload sig) ''urgency'' = Str ''high'' \<and>
      targetServices sig = Some [''telemetry-collector'', ''alert-service'']) \<and>
   (\<exists>sig eta out.
      computePredictionTask stub_builtins 1700000000000 (1 / 2) low_risk_ctx = Inr ([sig], Inr out) \<and>
      get_opt (field out ''data'') ''predictedEta'' = DateV (Some eta) \<and>
      get_opt (field (payload sig) ''prediction'') ''predictedEta'' = DateV (Some eta) \<and>
      1700000000000 + 7 * 86400000 \<le> eta \<and> eta \<le> 1700000000000 + 37 * 86400000 \<and>
      name sig = ''predictor.prediction_ready'' \<and>
      field (payload sig) ''urgency'' = Str ''low'' \<and>
      targetServices sig = Some [''alert-service''])"
proof -
  have r: "(0 :: real) \<le> 1 / 2" "(1 / 2 :: real) < 1" by simp_all
  have n: "(0 :: int) \<le> 1700000000000" "(1700000000000 :: int) \<le> 8640000000000000 - 3196800000"
    by simp_all
  note high = eta_and_urgency [OF r n example_inputs(1) high_risk_probability, of stub_builtins]
  note low = eta_and_urgency [OF r n example_inputs(2) low_risk_probability, of stub_builtins]
  show ?thesis
    using high low unfolding if_P [OF high_risk_flag] if_not_P [OF low_risk_flag] by (intro conjI)
qed

text \<open>
  The last draw below 1 is \<open>1 - 2 ^ -52\<close>, that is 4503599627370495 / 2 ^ 52. With it the
  sum \<open>rnd * 3 + 1\<close> is rounded to 4 and the sum \<open>rnd * 30 + 7\<close> to 37: the predicted date is
  4 days from now on the high-risk path and 37 days from now on the other, so that
  neither interval is open at its upper end.
\<close>

theorem eta_upper_end_counterexample:
  "(0 :: real) \<le> 4503599627370495 / 2 ^ 52 \<and> (4503599627370495 / 2 ^ 52 :: real) < 1 \<and>
   computePredictionTask stub_builtins 1700000000000 (4503599627370495 / 2 ^ 52) high_risk_ctx =
     Inr ([\<lparr>name = ''predictor.maintenance_needed'',
            payload = [(''deviceId'', Str ''device-1''),
                       (''prediction'',
                        Obj [(''failureProbability'',
                              Str (toFixed stub_builtins 3 (Fin (2026619832316723 / 2 ^ 51)))),
                             (''predictedEta'', DateV (Some 1700345600000)),
                             (''riskFactors'', Obj [(''anomalies'', Number (Fin 5)),
                                                    (''trend'', Str ''increasing''),
                                                    (''weatherImpact'', Str ''rain'')])]),
                       (''urgency'', Str ''high'')],
            targetServices = Some [''telemetry-collector'', ''alert-service'']\<rparr>],
          Inr (obj_set high_risk_ctx ''data''
                 (Obj [(''deviceId'', Str ''device-1''),
                       (''anomalyScore'', Number (Fin 0)),
                       (''failureProbability'', Number (Fin (2026619832316723 / 2 ^ 51))),
                       (''predictedEta'', DateV (Some 1700345600000))]))) \<and>
   \<not> (1700345600000 :: int) < 1700000000000 + 4 * 86400000 \<and>
   computePredictionTask stub_builtins 1700000000000 (4503599627370495 / 2 ^ 52) low_risk_ctx =
     Inr ([\<lparr>name = ''predictor.prediction_ready'',
            payload = [(''deviceId'', Str ''device-2''),
                       (''prediction'',
                        Obj [(''failureProbability'',
                              Str (toFixed stub_builtins 3 (Fin (1351079888211149 / 2 ^ 53)))),
                             (''predictedEta'', DateV (Some 1703196800000)),
                             (''riskFactors'', Obj [(''anomalies'', Number (Fin 1)),
                                                    (''trend'', Str ''stable''),
                                                    (''weatherImpact'', Str ''neutral'')])]),
                       (''urgency'', Str ''low'')],
            targetServices = Some [''alert-service'']\<rparr>],
          Inr (obj_set low_risk_ctx ''data''
                 (Obj [(''deviceId'', Str ''device-2''),
                       (''anomalyScore'', Number (Fin 0)),
                       (''failureProbability'', Number (Fin (1351079888211149 / 2 ^ 53))),
                       (''predictedEta'', DateV (Some 1703196800000))]))) \<and>
   \<not> (1703196800000 :: int) < 1700000000000 + 37 * 86400000"
proof (intro conjI)
  show "(0 :: real) \<le> 4503599627370495 / 2 ^ 52" "(4503599627370495 / 2 ^ 52 :: real) < 1"
    "\<not> (1700345600000 :: int) < 1700000000000 + 4 * 86400000"
    "\<not> (1703196800000 :: int) < 1700000000000 + 37 * 86400000"
    by simp_all
  show "computePredictionTask stub_builtins 1700000000000 (4503599627370495 / 2 ^ 52) high_risk_ctx =
     Inr ([\<lparr>name = ''predictor.maintenance_needed'',
            payload = [(''deviceId'', Str ''device-1''),
                       (''prediction'',
                        Obj [(''failureProbability'',
                              Str (toFixed stub_builtins 3 (Fin (2026619832316723 / 2 ^ 51)))),
                             (''predictedEta'', DateV (Some 1700345600000)),
                             (''riskFactors'', Obj [(''anomalies'', Number (Fin 5)),
                                                    (''trend'', Str ''increasing''),
                                                    (''weatherImpact'', Str ''rain'')])]),
                       (''urgency'', Str ''high'')],
            targetServices = Some [''telemetry-collector'', ''alert-service'']\<rparr>],
          Inr (obj_set high_risk_ctx ''data''
                 (Obj [(''deviceId'', Str ''device-1''),
                       (''anomalyScore'', Number (Fin 0)),
                       (''failureProbability'', Number (Fin (2026619832316723 / 2 ^ 51))),
                       (''predictedEta'', DateV (Some 1700345600000))])))"
    by (simp only: computePredictionTask_high [OF example_inputs(1) high_risk_probability
          high_risk_flag example_reads(1) example_reads(3) eta_last_high]
        example_reads(5) example_reads(7))
  show "computePredictionTask stub_builtins 1700000000000 (4503599627370495 / 2 ^ 52) low_risk_ctx =
     Inr ([\<lparr>name = ''predictor.prediction_ready'',
            payload = [(''deviceId'', Str ''device-2''),
                       (''prediction'',
                        Obj [(''failureProbability'',
                              Str (toFixed stub_builtins 3 (Fin (1351079888211149 / 2 ^ 53)))),
                             (''predictedEta'', DateV (Some 1703196800000)),
                             (''riskFactors'', Obj [(''anomalies'', Number (Fin 1)),
                                                    (''trend'', Str ''stable''),
                                                    (''weatherImpact'', Str ''neutral'')])]),
                       (''urgency'', Str ''low'')],
            targetServices = Some [''alert-service'']\<rparr>],
          Inr (obj_set low_risk_ctx ''data''
                 (Obj [(''deviceId'', Str ''device-2''),
                       (''anomalyScore'', Number (Fin 0)),
                       (''failureProbability'', Number (Fin (1351079888211149 / 2 ^ 53))),
                       (''predictedEta'', DateV (Some 1703196800000))])))"
    by (simp only: computePredictionTask_low [OF example_inputs(2) low_risk_probability
          low_risk_flag example_reads(2) example_reads(4) eta_last_low]
        example_reads(6) example_reads(8))
qed

section \<open>The weather lookup\<close>

lemma lookup_failure_unavailable:
  "fetch_json (mock_lat rnd1) (mock_lon rnd2) key = Inl e \<Longrightarrow>
     weather_unavailable (Some key) rnd1 rnd2 fetch_json ctx"
  by (simp add: weather_unavailable_def weather_try_def)

text \<open>
  The task never throws, whatever the lookup does.
\<close>

lemma callWeatherApiTask_returns:
  "\<exists>out. callWeatherApiTask apiKey rnd1 rnd2 fetch_json ctx = Inr out"
  by (simp add: callWeatherApiTask_def split: option.splits sum.splits)

text \<open>
  C9. Whenever the credential is absent or the lookup fails, the task returns (it does
  not throw) the context with \<open>weatherData\<close> set to the fallback value
  \<open>{temperature: 20, humidity: 50, condition: 'neutral'}\<close>; every other key keeps its
  value, and the keys are those of the context, with \<open>weatherData\<close> added last if it is new.
\<close>

theorem weather_fallback:
  assumes "weather_unavailable apiKey rnd1 rnd2 fetch_json ctx"
  shows "\<exists>out. callWeatherApiTask apiKey rnd1 rnd2 fetch_json ctx = Inr out \<and>
           field out ''weatherData'' =
             Obj [(''temperature'', Number (Fin 20)), (''humidity'', Number (Fin 50)),
                  (''condition'', Str ''neutral'')] \<and>
           (\<forall>k. k \<noteq> ''weatherData'' \<longrightarrow> field out k = field ctx k) \<and>
           map fst out = (if ''weatherData'' \<in> set (map fst ctx) then map fst ctx
                          else map fst ctx @ [''weatherData''])"
proof -
  have "callWeatherApiTask apiKey rnd1 rnd2 fetch_json ctx =
          Inr (obj_set ctx ''weatherData'' fallback_weather)"
    using assms
    by (auto simp: weather_unavailable_def callWeatherApiTask_def split: option.splits sum.splits)
  then show ?thesis
    by (simp add: field_obj_set keys_obj_set fallback_weather_def)
qed

text \<open>
  No credential; a call that throws; a response without weather.
\<close>

theorem weather_fallback_witness:
  "(\<exists>out. callWeatherApiTask None 0 0 unauthorized_fetch device_ctx = Inr out \<and>
      field out ''weatherData'' =
        Obj [(''temperature'', Number (Fin 20)), (''humidity'', Number (Fin 50)),
             (''condition'', Str ''neutral'')] \<and>
      field out ''deviceId'' = Str ''device-1'' \<and>
      map fst out = [''deviceId'', ''filter'', ''weatherData'']) \<and>
   (\<exists>out. callWeatherApiTask (Some ''key'') 0 0 failing_fetch device_ctx = Inr out \<and>
      field out ''weatherData'' =
        Obj [(''temperature'', Number (Fin 20)), (''humidity'', Number (Fin 50)),
             (''condition'', Str ''neutral'')] \<and>
      field out ''deviceId'' = Str ''device-1'' \<and>
      map fst out = [''deviceId'', ''filter'', ''weatherData'']) \<and>
   (\<exists>out. callWeatherApiTask (Some ''key'') 0 0 unauthorized_fetch device_ctx = Inr out \<and>
      field out ''weatherData'' =
        Obj [(''temperature'', Number (Fin 20)), (''humidity'', Number (Fin 50)),
             (''condition'', Str ''neutral'')] \<and>
      field out ''deviceId'' = Str ''device-1'' \<and>
      map fst out = [''deviceId'', ''filter'', ''weatherData''])"
proof -
  have a: "weather_unavailable None 0 0 unauthorized_fetch device_ctx"
    by (simp add: weather_unavailable_def)
  have b: "weather_unavailable (Some ''key'') 0 0 failing_fetch device_ctx"
    by (simp add: weather_unavailable_def weather_try_def failing_fetch_def)
  have c: "weather_unavailable (Some ''key'') 0 0 unauthorized_fetch device_ctx"
    by (simp add: weather_unavailable_def weather_try_def unauthorized_fetch_def)
  have k: "field device_ctx ''deviceId'' = Str ''device-1''" "map fst device_ctx = [''deviceId'', ''filter'']"
    by (simp_all add: device_ctx_def)
  have 1: "\<exists>out. callWeatherApiTask None 0 0 unauthorized_fetch device_ctx = Inr out \<and>
      field out ''weatherData'' =
        Obj [(''temperature'', Number (Fin 20)), (''humidity'', Number (Fin 50)),
             (''condition'', Str ''neutral'')] \<and>
      field out ''deviceId'' = Str ''device-1'' \<and>
      map fst out = [''deviceId'', ''filter'', ''weatherData'']"
  proof -
    from weather_fallback [OF a] obtain out where
      o: "callWeatherApiTask None 0 0 unauthorized_fetch device_ctx = Inr out"
        "field out ''weatherData'' =
           Obj [(''temperature'', Number (Fin 20)), (''humidity'', Number (Fin 50)),
                (''condition'', Str ''neutral'')]"
        "\<forall>k. k \<noteq> ''weatherData'' \<longrightarrow> field out k = field device_ctx k"
        "map fst out = (if ''weatherData'' \<in> set (map fst device_ctx) then map fst device_ctx
                        else map fst device_ctx @ [''weatherData''])"
      by (elim exE conjE)
    have "field out ''deviceId'' = Str ''device-1''" using o(3) k(1) by simp
    moreover have "map fst out = [''deviceId'', ''filter'', ''weatherData'']" using o(4) k(2) by simp
    ultimately show ?thesis using o(1,2) by (intro exI [of _ out]) simp
  qed
  have 2: "\<exists>out. callWeatherApiTask (Some ''key'') 0 0 failing_fetch device_ctx = Inr out \<and>
      field out ''weatherData'' =
        Obj [(''temperature'', Number (Fin 20)), (''humidity'', Number (Fin 50)),
             (''condition'', Str ''neutral'')] \<and>
      field out ''deviceId'' = Str ''device-1'' \<and>
      map fst out = [''deviceId'', ''filter'', ''weatherData'']"
  proof -
    from weather_fallback [OF b] obtain out where
      o: "callWeatherApiTask (Some ''key'') 0 0 failing_fetch device_ctx = Inr out"
        "field out ''weatherData'' =
           Obj [(''temperature'', Number (Fin 20)), (''humidity'', Number (Fin 50)),
                (''condition'', Str ''neutral'')]"
        "\<forall>k. k \<noteq> ''weatherData'' \<longrightarrow> field out k = field device_ctx k"
        "map fst out = (if ''weatherData'' \<in> set (map fst device_ctx) then map fst device_ctx
                        else map fst device_ctx @ [''weatherData''])"
      by (elim exE conjE)
    have "field out ''deviceId'' = Str ''device-1''" using o(3) k(1) by simp
    moreover have "map fst out = [''deviceId'', ''filter'', ''weatherData'']" using o(4) k(2) by simp
    ultimately show ?thesis using o(1,2) by (intro exI [of _ out]) simp
  qed
  have 3: "\<exists>out. callWeatherApiTask (Some ''key'') 0 0 unauthorized_fetch device_ctx = Inr out \<and>
      field out ''weatherData'' =
        Obj [(''temperature'', Number (Fin 20)), (''humidity'', Number (Fin 50)),
             (''condition'', Str ''neutral'')] \<and>
      field out ''deviceId'' = Str ''device-1'' \<and>
      map fst out = [''deviceId'', ''filter'', ''weatherData'']"
  proof -
    from weather_fallback [OF c] obtain out where
      o: "callWeatherApiTask (Some ''key'') 0 0 unauthorized_fetch device_ctx = Inr out"
        "field out ''weatherData'' =
           Obj [(''temperature'', Number (Fin 20)), (''humidity'', Number (Fin 50)),
                (''condition'', Str ''neutral'')]"
        "\<forall>k. k \<noteq> ''weatherData'' \<longrightarrow> field out k = field device_ctx k"
        "map fst out = (if ''weatherData'' \<in> set (map fst device_ctx) then map fst device_ctx
                        else map fst device_ctx @ [''weatherData''])"
      by (elim exE conjE)
    have "field out ''deviceId'' = Str ''device-1''" using o(3) k(1) by simp
    moreover have "map fst out = [''deviceId'', ''filter'', ''weatherData'']" using o(4) k(2) by simp
    ultimately show ?thesis using o(1,2) by (intro exI [of _ out]) simp
  qed
  from 1 2 3 show ?thesis by (intro conjI)
qed

end
